theory Spec2Isabelle
  imports Main "HOL-Library.Signed_Division" "HOL-Library.Multiset"
begin

section \<open>JavaScript values used by the screening engine\<close>

text \<open>
  A thrown value is either an \<open>Error\<close> object carrying a message or some other value;
  the handlers of the worker read \<open>err instanceof Error ? err.message : 'Unknown error'\<close>.
  Strings are modelled as lists of 8-bit characters, a \<open>bigint\<close> as \<open>int\<close>, and the
  integral \<open>number\<close>s of the worker (timestamps, counters, hours) as \<open>int\<close>.
\<close>

datatype js_error = Error string | NonError

definition error_message :: "js_error \<Rightarrow> string" where
  "error_message err = (case err of Error m \<Rightarrow> m | NonError \<Rightarrow> ''Unknown error'')"

text \<open>The \<open>/\<close> of two bigints truncates towards zero and throws a RangeError on a zero divisor.\<close>

definition bigint_div :: "int \<Rightarrow> int \<Rightarrow> js_error + int" where
  "bigint_div a b = (if b = 0 then Inl (Error ''Division by zero'') else Inr (a sdiv b))"

subsection \<open>Decimal rendering: \<open>bigint.toString()\<close>\<close>

definition digit_char :: "nat \<Rightarrow> char" where
  "digit_char d = ''0123456789'' ! d"

function nat_toString :: "nat \<Rightarrow> string" where
  "nat_toString n = (if n < 10 then [digit_char n] else nat_toString (n div 10) @ [digit_char (n mod 10)])"
  by pat_completeness auto
termination
  by (relation "measure id") auto

declare nat_toString.simps [simp del]

definition bigint_toString :: "int \<Rightarrow> string" where
  "bigint_toString i = (if i < 0 then CHR ''-'' # nat_toString (nat (- i)) else nat_toString (nat i))"

subsection \<open>Parsing: \<open>BigInt(string)\<close> and \<open>parseInt(string, 10)\<close>\<close>

text \<open>
  White space of the string grammar, within the 8-bit range: TAB, LF, VT, FF, CR, SP and NBSP.
\<close>

definition is_space :: "char \<Rightarrow> bool" where
  "is_space c = (of_char c \<in> {9::nat, 10, 11, 12, 13, 32, 160})"

definition trim :: "string \<Rightarrow> string" where
  "trim s = rev (dropWhile is_space (rev (dropWhile is_space s)))"

text \<open>The value of a digit or letter in a radix: \<open>0-9\<close>, then \<open>a-z\<close> or \<open>A-Z\<close> from ten on.\<close>

definition digit_val :: "nat \<Rightarrow> char \<Rightarrow> nat option" where
  "digit_val radix c =
     (let k = (of_char c :: nat);
          v = (if 48 \<le> k \<and> k \<le> 57 then Some (k - 48)
               else if 97 \<le> k \<and> k \<le> 122 then Some (k - 87)
               else if 65 \<le> k \<and> k \<le> 90 then Some (k - 55)
               else None)
      in case v of
           None \<Rightarrow> None
         | Some d \<Rightarrow> if d < radix then Some d else None)"

fun digits_val :: "nat \<Rightarrow> nat \<Rightarrow> string \<Rightarrow> nat option" where
  "digits_val radix acc [] = Some acc"
| "digits_val radix acc (c # cs) =
     (case digit_val radix c of
        None \<Rightarrow> None
      | Some d \<Rightarrow> digits_val radix (acc * radix + d) cs)"

definition parse_digits :: "nat \<Rightarrow> string \<Rightarrow> nat option" where
  "parse_digits radix s = (if s = [] then None else digits_val radix 0 s)"

text \<open>
  \<open>StringToBigInt\<close>: the trimmed text is empty (value 0), a non-decimal literal
  \<open>0x..\<close>, \<open>0o..\<close>, \<open>0b..\<close> without sign, or decimal digits with an optional sign.
  \<open>None\<close> stands for the SyntaxError that \<open>BigInt\<close> throws on any other text.
\<close>

definition StringToBigInt :: "string \<Rightarrow> int option" where
  "StringToBigInt s =
     (let t = trim s in
      if t = [] then Some 0
      else if take 2 t \<in> {''0x'', ''0X''} then map_option int (parse_digits 16 (drop 2 t))
      else if take 2 t \<in> {''0o'', ''0O''} then map_option int (parse_digits 8 (drop 2 t))
      else if take 2 t \<in> {''0b'', ''0B''} then map_option int (parse_digits 2 (drop 2 t))
      else if hd t = CHR ''+'' then map_option int (parse_digits 10 (tl t))
      else if hd t = CHR ''-'' then map_option (\<lambda>n. - int n) (parse_digits 10 (tl t))
      else map_option int (parse_digits 10 t))"

definition BigInt :: "string \<Rightarrow> js_error + int" where
  "BigInt s =
     (case StringToBigInt s of
        None \<Rightarrow> Inl (Error (''Cannot convert '' @ s @ '' to a BigInt''))
      | Some i \<Rightarrow> Inr i)"

text \<open>
  \<open>parseInt(s, 10)\<close>: leading white space is skipped, an optional sign is read, and the
  longest prefix of decimal digits gives the value; \<open>None\<close> stands for \<open>NaN\<close>.
\<close>

definition is_digit :: "char \<Rightarrow> bool" where
  "is_digit c = (digit_val 10 c \<noteq> None)"

definition parseInt :: "string \<Rightarrow> int option" where
  "parseInt s =
     (let t = dropWhile is_space s;
          neg = (t \<noteq> [] \<and> hd t = CHR ''-'');
          u = (if t \<noteq> [] \<and> hd t \<in> {CHR ''+'', CHR ''-''} then tl t else t);
          ds = takeWhile is_digit u
      in case parse_digits 10 ds of
           None \<Rightarrow> None
         | Some n \<Rightarrow> Some (if neg then - int n else int n))"

section \<open>Exposure calculator\<close>

text \<open>
  The chain is read through \<open>readContract\<close>. Each read either rejects or decodes an
  unsigned integer of the ABI (\<open>uint256\<close>, \<open>uint112\<close>), which the code then holds as a
  bigint. The three reads used here are given as oracles of the outside world; the
  reads that an invocation issues are appended to \<open>chain_log\<close>.
\<close>

datatype contract_call =
    BalanceOf string string
  | TotalSupply string
  | GetReserves string

record chain =
  balanceOf :: "string \<Rightarrow> string \<Rightarrow> string \<Rightarrow> js_error + nat"
  totalSupply :: "string \<Rightarrow> string \<Rightarrow> js_error + nat"
  getReserves :: "string \<Rightarrow> string \<Rightarrow> js_error + (nat \<times> nat \<times> nat)"

record LpPair =
  pair_address :: string
  pair_name :: "string option"
  token0 :: string
  token1 :: string
  chog_side :: int
  enabled :: int
  pair_created_at :: int

record lp_entry =
  pairAddress :: string
  pairName :: "string option"
  userLpBalance :: int
  chogUnderlying :: int

record ChogExposure =
  directBalance :: int
  lpBalance :: int
  totalBalance :: int
  lpBreakdown :: "lp_entry list"

type_synonym read_log = "(string \<times> contract_call) list"

definition getDirectChogBalance ::
  "chain \<Rightarrow> string \<Rightarrow> string \<Rightarrow> string \<Rightarrow> read_log \<Rightarrow> (js_error + int) \<times> read_log" where
  "getDirectChogBalance ch rpcUrl chogContract userAddress lg =
     (map_sum id int (balanceOf ch rpcUrl chogContract userAddress),
      lg @ [(rpcUrl, BalanceOf chogContract userAddress)])"

text \<open>
  \<open>Promise.all\<close> issues the three reads of a pool together and rejects when one of them
  rejects. The guard on a zero share balance or zero supply comes before the division.
\<close>

definition lp_exposure_of :: "LpPair \<Rightarrow> int \<Rightarrow> int \<Rightarrow> int \<times> int \<times> int \<Rightarrow> js_error + (int \<times> int)" where
  "lp_exposure_of lpPair userLp supply reserves =
     (if userLp = 0 \<or> supply = 0 then Inr (0, 0)
      else
        let chogReserve = (if chog_side lpPair = 0 then fst reserves else fst (snd reserves))
        in case bigint_div (userLp * chogReserve) supply of
             Inl e \<Rightarrow> Inl e
           | Inr underlying \<Rightarrow> Inr (userLp, underlying))"

definition lp_reads :: "chain \<Rightarrow> string \<Rightarrow> LpPair \<Rightarrow> string \<Rightarrow> js_error + (int \<times> int \<times> (int \<times> int \<times> int))" where
  "lp_reads ch rpcUrl lpPair userAddress =
     (case balanceOf ch rpcUrl (pair_address lpPair) userAddress of
        Inl e \<Rightarrow> Inl e
      | Inr b \<Rightarrow>
         (case totalSupply ch rpcUrl (pair_address lpPair) of
            Inl e \<Rightarrow> Inl e
          | Inr t \<Rightarrow>
             (case getReserves ch rpcUrl (pair_address lpPair) of
                Inl e \<Rightarrow> Inl e
              | Inr (r0, r1, ts) \<Rightarrow> Inr (int b, int t, (int r0, int r1, int ts)))))"

definition getLpChogExposure ::
  "chain \<Rightarrow> string \<Rightarrow> string \<Rightarrow> LpPair \<Rightarrow> string \<Rightarrow> read_log \<Rightarrow> (js_error + (int \<times> int)) \<times> read_log" where
  "getLpChogExposure ch rpcUrl chogContract lpPair userAddress lg =
     (let lg' = lg @ [(rpcUrl, BalanceOf (pair_address lpPair) userAddress),
                      (rpcUrl, TotalSupply (pair_address lpPair)),
                      (rpcUrl, GetReserves (pair_address lpPair))]
      in case lp_reads ch rpcUrl lpPair userAddress of
           Inl e \<Rightarrow> (Inl e, lg')
         | Inr (userLp, supply, reserves) \<Rightarrow> (lp_exposure_of lpPair userLp supply reserves, lg'))"

text \<open>
  The loop over the pools of \<open>getTotalChogExposure\<close>: a pool whose exposure throws is
  skipped, a pool with a positive underlying amount is pushed on the breakdown and added.
\<close>

fun lp_loop ::
  "chain \<Rightarrow> string \<Rightarrow> string \<Rightarrow> string \<Rightarrow> LpPair list \<Rightarrow> lp_entry list \<Rightarrow> int \<Rightarrow> read_log
     \<Rightarrow> (lp_entry list \<times> int) \<times> read_log" where
  "lp_loop ch rpcUrl chogContract userAddress [] bd lp lg = ((bd, lp), lg)"
| "lp_loop ch rpcUrl chogContract userAddress (pair # pairs) bd lp lg =
     (case getLpChogExposure ch rpcUrl chogContract pair userAddress lg of
        (Inl err, lg') \<Rightarrow> lp_loop ch rpcUrl chogContract userAddress pairs bd lp lg'
      | (Inr (userLp, underlying), lg') \<Rightarrow>
          if underlying > 0
          then lp_loop ch rpcUrl chogContract userAddress pairs
                 (bd @ [\<lparr>pairAddress = pair_address pair, pairName = pair_name pair,
                         userLpBalance = userLp, chogUnderlying = underlying\<rparr>])
                 (lp + underlying) lg'
          else lp_loop ch rpcUrl chogContract userAddress pairs bd lp lg')"

definition getTotalChogExposure ::
  "chain \<Rightarrow> string \<Rightarrow> string \<Rightarrow> LpPair list \<Rightarrow> string \<Rightarrow> read_log
     \<Rightarrow> (js_error + ChogExposure) \<times> read_log" where
  "getTotalChogExposure ch rpcUrl chogContract lpPairs userAddress lg =
     (case getDirectChogBalance ch rpcUrl chogContract userAddress lg of
        (Inl err, lg') \<Rightarrow> (Inl err, lg')
      | (Inr direct, lg') \<Rightarrow>
          (case lp_loop ch rpcUrl chogContract userAddress lpPairs [] 0 lg' of
             ((bd, lp), lg'') \<Rightarrow>
               (Inr \<lparr>directBalance = direct, lpBalance = lp,
                     totalBalance = direct + lp, lpBreakdown = bd\<rparr>, lg'')))"

section \<open>Eligibility evaluator\<close>

datatype balance_arg = BigintArg int | StringArg string

definition isEligible :: "balance_arg \<Rightarrow> string \<Rightarrow> js_error + bool" where
  "isEligible balance thresholdRaw =
     (case (case balance of StringArg s \<Rightarrow> BigInt s | BigintArg i \<Rightarrow> Inr i) of
        Inl e \<Rightarrow> Inl e
      | Inr balanceValue \<Rightarrow>
          (case BigInt thresholdRaw of
             Inl e \<Rightarrow> Inl e
           | Inr threshold \<Rightarrow> Inr (balanceValue \<ge> threshold)))"


section \<open>Store\<close>

text \<open>
  The tables of the D1 database that the screening job touches, with the columns of the
  migration. The store is modelled as a total in-memory store: a statement returns or
  updates the rows it addresses and does not reject. \<open>details_json\<close> holds the list that
  the job passes to \<open>JSON.stringify\<close>.
\<close>

datatype wallet_status = Verified | Pending | WalletError

record Wallet =
  wallet_id :: string
  wallet_profile_id :: string
  address :: string
  wallet_rdns :: "string option"
  verified_at :: "int option"
  last_checked_at :: "int option"
  last_direct_chog_raw :: "string option"
  last_lp_chog_raw :: "string option"
  last_total_chog_raw :: "string option"
  wallet_status :: wallet_status
  error_reason :: "string option"
  wallet_created_at :: int

record Profile =
  profile_id :: string
  telegram_handle :: string
  edit_secret_hash :: string
  profile_created_at :: int
  updated_at :: int

datatype run_status = Running | Success | RunError | Partial

record ScreeningRun =
  run_id :: string
  started_at :: int
  finished_at :: "int option"
  run_status :: run_status
  run_error :: "string option"
  profiles_processed :: int
  wallets_processed :: int
  eligible_count :: int
  message_sent :: int

record wallet_detail =
  wd_address :: string
  directChog :: string
  lpChog :: string
  wd_totalChog :: string

record ProfileSnapshot =
  snap_run_id :: string
  snap_profile_id :: string
  total_chog_raw :: string
  snap_eligible :: int
  details_json :: "wallet_detail list"

record db =
  profiles :: "Profile list"
  wallets :: "Wallet list"
  lp_pairs :: "LpPair list"
  screening_runs :: "ScreeningRun list"
  profile_snapshots :: "ProfileSnapshot list"
  settings :: "(string \<times> string) list"

text \<open>The statements that write, in the order in which an invocation issues them.\<close>

datatype db_write =
    InsertRun string run_status
  | UpdateRunStatus string run_status
  | UpdateWalletBalances string
  | UpdateWalletError string
  | InsertSnapshot string string

subsection \<open>Queries of the data-access layer\<close>

definition getWalletsByProfile :: "db \<Rightarrow> string \<Rightarrow> Wallet list" where
  "getWalletsByProfile d profileId =
     sort_key (\<lambda>w. - wallet_created_at w) (filter (\<lambda>w. wallet_profile_id w = profileId) (wallets d))"

definition getEnabledLpPairs :: "db \<Rightarrow> LpPair list" where
  "getEnabledLpPairs d = filter (\<lambda>p. enabled p = 1) (lp_pairs d)"

fun profilesWithWallets :: "db \<Rightarrow> Profile list \<Rightarrow> (Profile \<times> Wallet list) list" where
  "profilesWithWallets d [] = []"
| "profilesWithWallets d (profile # rest) =
     (let ws = getWalletsByProfile d (profile_id profile)
      in if length ws > 0 then (profile, ws) # profilesWithWallets d rest
         else profilesWithWallets d rest)"

definition getAllProfilesWithWallets :: "db \<Rightarrow> (Profile \<times> Wallet list) list" where
  "getAllProfilesWithWallets d = profilesWithWallets d (profiles d)"

text \<open>
  \<open>ORDER BY started_at DESC LIMIT 1\<close>: the row with the greatest start time; among rows
  with the same start time the model takes the first of the table.
\<close>

fun latest_run :: "ScreeningRun list \<Rightarrow> ScreeningRun option" where
  "latest_run [] = None"
| "latest_run (r # rs) =
     (case latest_run rs of
        None \<Rightarrow> Some r
      | Some r' \<Rightarrow> if started_at r' > started_at r then Some r' else Some r)"

definition getLastScreeningRun :: "db \<Rightarrow> ScreeningRun option" where
  "getLastScreeningRun d = latest_run (filter (\<lambda>r. run_status r = Success) (screening_runs d))"

definition getSnapshotsForRun :: "db \<Rightarrow> string \<Rightarrow> ProfileSnapshot list" where
  "getSnapshotsForRun d runId = filter (\<lambda>s. snap_run_id s = runId) (profile_snapshots d)"

definition get_setting :: "db \<Rightarrow> string \<Rightarrow> string option" where
  "get_setting d k = map_of (settings d) k"

text \<open>\<open>setting?.value || dflt\<close>: a missing row and an empty value both give the default.\<close>

definition or_default :: "string option \<Rightarrow> string \<Rightarrow> string" where
  "or_default v dflt = (case v of None \<Rightarrow> dflt | Some s \<Rightarrow> if s = [] then dflt else s)"


section \<open>Outside world and effects\<close>

text \<open>
  What the worker does not compute itself is an oracle of the outside world: the chain,
  the Telegram API behind \<open>sendTelegramMessage\<close> (which catches every failure and
  returns \<open>success = false\<close>), the clock read by \<open>Date.now()\<close>, and the renderings
  that go through \<open>toLocaleString\<close> and \<open>toISOString\<close>. The effects of an invocation
  are recorded in the world: the store, the chain reads issued, the messages composed and
  sent, the writing statements issued and the number of clock reads.
\<close>

record TelegramSendResult =
  success :: bool
  messageId :: "int option"
  send_error :: "string option"

record eligibility_message =
  date :: string
  msg_eligibleCount :: int
  msg_newlyEligible :: "(string \<times> string) list"
  msg_droppedEligible :: "string list"
  topEligible :: "(string \<times> string) list"

record outside =
  chain :: chain
  telegram_send :: "string \<Rightarrow> string \<Rightarrow> string \<Rightarrow> TelegramSendResult"
  clock :: "nat \<Rightarrow> int"
  iso_date :: "int \<Rightarrow> string"
  formatChogBalance :: "int \<Rightarrow> string"
  formatEligibilityMessage :: "eligibility_message \<Rightarrow> string"

record Env =
  MONAD_RPC_URL :: string
  CHOG_CONTRACT :: string
  TELEGRAM_BOT_TOKEN :: string
  TELEGRAM_CHAT_ID :: string

record world =
  DB :: db
  chain_log :: read_log
  telegram_log :: "(string \<times> string \<times> string) list"
  composed :: "eligibility_message list"
  db_writes :: "db_write list"
  clock_reads :: nat

definition Date_now :: "outside \<Rightarrow> world \<Rightarrow> int \<times> world" where
  "Date_now out w = (clock out (clock_reads w), w\<lparr>clock_reads := Suc (clock_reads w)\<rparr>)"

definition sendTelegramMessage ::
  "outside \<Rightarrow> string \<Rightarrow> string \<Rightarrow> string \<Rightarrow> world \<Rightarrow> TelegramSendResult \<times> world" where
  "sendTelegramMessage out botToken chatId text w =
     (telegram_send out botToken chatId text,
      w\<lparr>telegram_log := telegram_log w @ [(botToken, chatId, text)]\<rparr>)"

definition updateWalletBalances ::
  "outside \<Rightarrow> string \<Rightarrow> string \<Rightarrow> string \<Rightarrow> string \<Rightarrow> world \<Rightarrow> world" where
  "updateWalletBalances out walletId directChog' lpChog' totalChog' w =
     (case Date_now out w of
        (now, w1) \<Rightarrow>
          w1\<lparr>DB := (DB w1)\<lparr>wallets :=
                  map (\<lambda>r. if wallet_id r = walletId
                            then r\<lparr>last_direct_chog_raw := Some directChog',
                                   last_lp_chog_raw := Some lpChog',
                                   last_total_chog_raw := Some totalChog',
                                   last_checked_at := Some now\<rparr>
                            else r) (wallets (DB w1))\<rparr>,
             db_writes := db_writes w1 @ [UpdateWalletBalances walletId]\<rparr>)"

text \<open>\<open>UPDATE wallets SET status = 'error', error_reason = ? WHERE id = ?\<close> of the wallet handler.\<close>

definition mark_wallet_error :: "string \<Rightarrow> string \<Rightarrow> world \<Rightarrow> world" where
  "mark_wallet_error reason walletId w =
     w\<lparr>DB := (DB w)\<lparr>wallets :=
             map (\<lambda>r. if wallet_id r = walletId
                       then r\<lparr>wallet_status := WalletError, error_reason := Some reason\<rparr>
                       else r) (wallets (DB w))\<rparr>,
       db_writes := db_writes w @ [UpdateWalletError walletId]\<rparr>"

definition insert_run :: "string \<Rightarrow> int \<Rightarrow> world \<Rightarrow> world" where
  "insert_run runId startedAt w =
     w\<lparr>DB := (DB w)\<lparr>screening_runs := screening_runs (DB w) @
             [\<lparr>run_id = runId, started_at = startedAt, finished_at = None,
               run_status = Running, run_error = None, profiles_processed = 0,
               wallets_processed = 0, eligible_count = 0, message_sent = 0\<rparr>]\<rparr>,
       db_writes := db_writes w @ [InsertRun runId Running]\<rparr>"

definition insert_snapshot :: "ProfileSnapshot \<Rightarrow> world \<Rightarrow> world" where
  "insert_snapshot snap w =
     w\<lparr>DB := (DB w)\<lparr>profile_snapshots := profile_snapshots (DB w) @ [snap]\<rparr>,
       db_writes := db_writes w @ [InsertSnapshot (snap_run_id snap) (snap_profile_id snap)]\<rparr>"

definition update_run_success ::
  "string \<Rightarrow> int \<Rightarrow> int \<Rightarrow> int \<Rightarrow> int \<Rightarrow> bool \<Rightarrow> world \<Rightarrow> world" where
  "update_run_success runId finishedAt nProfiles nWallets nEligible sent w =
     w\<lparr>DB := (DB w)\<lparr>screening_runs :=
             map (\<lambda>r. if run_id r = runId
                       then r\<lparr>finished_at := Some finishedAt, run_status := Success,
                              profiles_processed := nProfiles, wallets_processed := nWallets,
                              eligible_count := nEligible, message_sent := (if sent then 1 else 0)\<rparr>
                       else r) (screening_runs (DB w))\<rparr>,
       db_writes := db_writes w @ [UpdateRunStatus runId Success]\<rparr>"

definition update_run_error :: "string \<Rightarrow> int \<Rightarrow> string \<Rightarrow> world \<Rightarrow> world" where
  "update_run_error runId finishedAt msg w =
     w\<lparr>DB := (DB w)\<lparr>screening_runs :=
             map (\<lambda>r. if run_id r = runId
                       then r\<lparr>finished_at := Some finishedAt, run_status := RunError,
                              run_error := Some msg\<rparr>
                       else r) (screening_runs (DB w))\<rparr>,
       db_writes := db_writes w @ [UpdateRunStatus runId RunError]\<rparr>"

section \<open>Screening orchestrator\<close>

datatype result_status = ResSuccess | ResError | ResPartial

record ScreeningResult =
  runId :: string
  status :: result_status
  profilesProcessed :: int
  walletsProcessed :: int
  eligibleCount :: int
  messageSent :: bool
  error :: "string option"

record eligible_entry =
  handle :: string
  totalChog :: string
  totalRaw :: int

record tally =
  acc_walletsProcessed :: int
  acc_eligibleCount :: int
  acc_newlyEligible :: "(string \<times> string) list"
  acc_droppedEligible :: "string list"
  acc_allEligible :: "eligible_entry list"

text \<open>\<open>replace('@', '')\<close> removes the first \<open>@\<close> of the handle.\<close>

fun strip_at :: "string \<Rightarrow> string" where
  "strip_at [] = []"
| "strip_at (c # cs) = (if c = CHR ''@'' then cs else c # strip_at cs)"

text \<open>\<open>Math.ceil(a / b)\<close> on integral numbers with a positive divisor.\<close>

definition ceil_div :: "int \<Rightarrow> int \<Rightarrow> int" where
  "ceil_div a b = - ((- a) div b)"

text \<open>
  The interval check of a non-forced invocation. \<open>Some\<close> is the result returned for a
  skipped invocation; a comparison with \<open>NaN\<close> is false, so an interval setting without
  leading digits lets the invocation through. The numbers of the check are modelled as
  exact integers, which the worker's doubles are up to \<open>2^53\<close>: that covers every time
  stamp and every interval of less than about \<open>2.5 * 10^9\<close> hours. For a larger interval
  setting the decision is the same, but the hours in the text of the skipped result are
  then those of the engine's rounding and are not given by this definition.
\<close>

definition interval_gate :: "db \<Rightarrow> int \<Rightarrow> ScreeningResult option" where
  "interval_gate d startedAt =
     (case getLastScreeningRun d of
        None \<Rightarrow> None
      | Some lastRun \<Rightarrow>
          if run_status lastRun = Success then
            (case parseInt (or_default (get_setting d ''screening_interval_hours'') ''24'') of
               None \<Rightarrow> None
             | Some intervalHours \<Rightarrow>
                 let intervalMs = intervalHours * 60 * 60 * 1000;
                     timeSinceLastRun = startedAt - started_at lastRun
                 in if timeSinceLastRun < intervalMs then
                      let hoursRemaining = ceil_div (intervalMs - timeSinceLastRun) (60 * 60 * 1000)
                      in Some \<lparr>runId = [], status = ResSuccess, profilesProcessed = 0,
                               walletsProcessed = 0, eligibleCount = 0, messageSent = False,
                               error = Some (''Skipped: '' @ bigint_toString hoursRemaining
                                               @ ''h until next run'')\<rparr>
                    else None)
          else None)"

text \<open>The loop over the wallets of one profile, with its handler for a failed wallet.\<close>

fun wallet_loop ::
  "outside \<Rightarrow> Env \<Rightarrow> LpPair list \<Rightarrow> Wallet list \<Rightarrow> int \<times> wallet_detail list \<times> int \<Rightarrow> world
     \<Rightarrow> (int \<times> wallet_detail list \<times> int) \<times> world" where
  "wallet_loop out env lpPairs [] acc w = (acc, w)"
| "wallet_loop out env lpPairs (wallet # rest) (profileTotalChog, walletDetails, nWallets) w =
     (case getTotalChogExposure (chain out) (MONAD_RPC_URL env) (CHOG_CONTRACT env) lpPairs
             (address wallet) (chain_log w) of
        (Inr exposure, lg) \<Rightarrow>
          wallet_loop out env lpPairs rest
            (profileTotalChog + totalBalance exposure,
             walletDetails @ [\<lparr>wd_address = address wallet,
                                directChog = bigint_toString (directBalance exposure),
                                lpChog = bigint_toString (lpBalance exposure),
                                wd_totalChog = bigint_toString (totalBalance exposure)\<rparr>],
             nWallets + 1)
            (updateWalletBalances out (wallet_id wallet)
               (bigint_toString (directBalance exposure))
               (bigint_toString (lpBalance exposure))
               (bigint_toString (totalBalance exposure))
               (w\<lparr>chain_log := lg\<rparr>))
      | (Inl err, lg) \<Rightarrow>
          wallet_loop out env lpPairs rest (profileTotalChog, walletDetails, nWallets)
            (mark_wallet_error (error_message err) (wallet_id wallet) (w\<lparr>chain_log := lg\<rparr>)))"

text \<open>
  The classification of one profile against the previous run, and the loop over the
  profiles. \<open>isEligible\<close> is called outside the wallet handler, so what it throws leaves
  the loop.
\<close>

definition classify :: "outside \<Rightarrow> Profile \<Rightarrow> int \<Rightarrow> bool \<Rightarrow> bool \<Rightarrow> tally \<Rightarrow> tally" where
  "classify out profile profileTotalChog eligible wasEligible acc =
     (if eligible then
        let formattedChog = formatChogBalance out profileTotalChog;
            acc1 = acc\<lparr>acc_eligibleCount := acc_eligibleCount acc + 1,
                       acc_allEligible := acc_allEligible acc @
                         [\<lparr>handle = strip_at (telegram_handle profile),
                           totalChog = formattedChog, totalRaw = profileTotalChog\<rparr>]\<rparr>
        in if \<not> wasEligible
           then acc1\<lparr>acc_newlyEligible := acc_newlyEligible acc1 @
                        [(strip_at (telegram_handle profile), formattedChog)]\<rparr>
           else acc1
      else if wasEligible
        then acc\<lparr>acc_droppedEligible := acc_droppedEligible acc @ [strip_at (telegram_handle profile)]\<rparr>
        else acc)"

fun profile_loop ::
  "outside \<Rightarrow> Env \<Rightarrow> string \<Rightarrow> LpPair list \<Rightarrow> string list \<Rightarrow> string
     \<Rightarrow> (Profile \<times> Wallet list) list \<Rightarrow> tally \<Rightarrow> world \<Rightarrow> (js_error + tally) \<times> world" where
  "profile_loop out env rid lpPairs previousEligible thresholdRaw [] acc w = (Inr acc, w)"
| "profile_loop out env rid lpPairs previousEligible thresholdRaw ((profile, ws) # rest) acc w =
     (case wallet_loop out env lpPairs ws (0, [], acc_walletsProcessed acc) w of
        ((profileTotalChog, walletDetails, nWallets), w1) \<Rightarrow>
          (case isEligible (BigintArg profileTotalChog) thresholdRaw of
             Inl err \<Rightarrow> (Inl err, w1)
           | Inr eligible \<Rightarrow>
               profile_loop out env rid lpPairs previousEligible thresholdRaw rest
                 (classify out profile profileTotalChog eligible
                    (profile_id profile \<in> set previousEligible)
                    (acc\<lparr>acc_walletsProcessed := nWallets\<rparr>))
                 (insert_snapshot
                    \<lparr>snap_run_id = rid, snap_profile_id = profile_id profile,
                     total_chog_raw = bigint_toString profileTotalChog,
                     snap_eligible = (if eligible then 1 else 0),
                     details_json = walletDetails\<rparr> w1)))"

text \<open>
  The leaderboard: \<open>allEligible.sort((a, b) => (b.totalRaw > a.totalRaw ? 1 : -1))\<close>. The
  comparator never returns 0: for two entries with the same total it answers \<open>-1\<close>
  whichever of them comes first in the call. The worker runs on V8. Its sort calls the
  comparator with an element that stands later in the array first and one that stands
  earlier second, and moves the later one in front when the answer is negative: so it
  does when it looks for the run the array starts with, in its binary insertion and in its
  merges. With this comparator the outcome is that of going through the array from left to
  right and putting each entry in front of the first entry of the sorted part that the
  comparator places it before; an entry therefore ends up in front of the entries with
  the same total that precede it in the array.
\<close>

definition by_total_desc :: "eligible_entry \<Rightarrow> eligible_entry \<Rightarrow> int" where
  "by_total_desc a b = (if totalRaw b > totalRaw a then 1 else - 1)"

fun sort_insert :: "('a \<Rightarrow> 'a \<Rightarrow> int) \<Rightarrow> 'a \<Rightarrow> 'a list \<Rightarrow> 'a list" where
  "sort_insert cmp pivot [] = [pivot]"
| "sort_insert cmp pivot (y # ys) =
     (if cmp pivot y < 0 then pivot # y # ys else y # sort_insert cmp pivot ys)"

definition array_sort :: "('a \<Rightarrow> 'a \<Rightarrow> int) \<Rightarrow> 'a list \<Rightarrow> 'a list" where
  "array_sort cmp xs = foldl (\<lambda>sorted pivot. sort_insert cmp pivot sorted) [] xs"

definition leaderboard :: "eligible_entry list \<Rightarrow> (string \<times> string) list" where
  "leaderboard allEligible =
     map (\<lambda>e. (handle e, totalChog e)) (take 10 (array_sort by_total_desc allEligible))"

text \<open>
  \<open>getGroupChatId\<close> prefers the chat id of the settings to that of the environment. The
  message is sent when a bot token and a chat id are present and the setting
  \<open>bot_notifications_enabled\<close> is not \<open>false\<close>.
\<close>

definition getGroupChatId :: "db \<Rightarrow> string \<Rightarrow> string" where
  "getGroupChatId d envChatId = or_default (get_setting d ''telegram_chat_id'') envChatId"

definition will_send :: "Env \<Rightarrow> db \<Rightarrow> bool" where
  "will_send env d =
     (TELEGRAM_BOT_TOKEN env \<noteq> [] \<and> getGroupChatId d (TELEGRAM_CHAT_ID env) \<noteq> []
      \<and> get_setting d ''bot_notifications_enabled'' \<noteq> Some ''false'')"

text \<open>
  The rest of the \<open>try\<close> block after the loop: the message is composed, sent if it is
  to be sent, and the run is marked \<open>success\<close>.
\<close>

definition notify_and_finish ::
  "outside \<Rightarrow> Env \<Rightarrow> string \<Rightarrow> nat \<Rightarrow> tally \<Rightarrow> world \<Rightarrow> ScreeningResult \<times> world" where
  "notify_and_finish out env rid nProfiles acc w =
     (case Date_now out w of
        (today, w1) \<Rightarrow>
          let msg = \<lparr>date = iso_date out today,
                     msg_eligibleCount = acc_eligibleCount acc,
                     msg_newlyEligible = acc_newlyEligible acc,
                     msg_droppedEligible = acc_droppedEligible acc,
                     topEligible = leaderboard (acc_allEligible acc)\<rparr>;
              message = formatEligibilityMessage out msg;
              w2 = w1\<lparr>composed := composed w1 @ [msg]\<rparr>;
              groupChatId = getGroupChatId (DB w2) (TELEGRAM_CHAT_ID env)
          in case (if will_send env (DB w2)
                   then (case sendTelegramMessage out (TELEGRAM_BOT_TOKEN env) groupChatId message w2 of
                           (res, w3) \<Rightarrow> (success res, w3))
                   else (False, w2)) of
               (sent, w3) \<Rightarrow>
                 (case Date_now out w3 of
                    (finishedAt, w4) \<Rightarrow>
                      (\<lparr>runId = rid, status = ResSuccess, profilesProcessed = int nProfiles,
                        walletsProcessed = acc_walletsProcessed acc,
                        eligibleCount = acc_eligibleCount acc, messageSent = sent,
                        error = None\<rparr>,
                       update_run_success rid finishedAt (int nProfiles) (acc_walletsProcessed acc)
                         (acc_eligibleCount acc) sent w4)))"

definition previous_eligible :: "db \<Rightarrow> string list" where
  "previous_eligible d =
     (let previousSnapshots =
            (case getLastScreeningRun d of
               None \<Rightarrow> []
             | Some lastRun \<Rightarrow> getSnapshotsForRun d (run_id lastRun))
      in map snap_profile_id (filter (\<lambda>s. snap_eligible s \<noteq> 0) previousSnapshots))"

definition threshold_setting :: "db \<Rightarrow> string" where
  "threshold_setting d =
     or_default (get_setting d ''eligibility_threshold_raw'') ''1000000000000000000000000''"

definition empty_tally :: tally where
  "empty_tally = \<lparr>acc_walletsProcessed = 0, acc_eligibleCount = 0, acc_newlyEligible = [],
                  acc_droppedEligible = [], acc_allEligible = []\<rparr>"

definition screening_try :: "outside \<Rightarrow> Env \<Rightarrow> string \<Rightarrow> world \<Rightarrow> (js_error + ScreeningResult) \<times> world" where
  "screening_try out env rid w =
     (let profs = getAllProfilesWithWallets (DB w);
          lpPairs = getEnabledLpPairs (DB w);
          previousEligible = previous_eligible (DB w);
          thresholdRaw = threshold_setting (DB w)
      in case profile_loop out env rid lpPairs previousEligible thresholdRaw profs empty_tally w of
           (Inl err, w1) \<Rightarrow> (Inl err, w1)
         | (Inr acc, w1) \<Rightarrow>
             (case notify_and_finish out env rid (length profs) acc w1 of
                (res, w2) \<Rightarrow> (Inr res, w2)))"

text \<open>
  \<open>runScreening(env, force)\<close>; \<open>rid\<close> is the id that \<open>generateId()\<close> returns for this
  invocation.
\<close>

definition runScreening :: "outside \<Rightarrow> Env \<Rightarrow> string \<Rightarrow> bool \<Rightarrow> world \<Rightarrow> ScreeningResult \<times> world" where
  "runScreening out env rid force w =
     (case Date_now out w of
        (startedAt, w0) \<Rightarrow>
          (case (if force then None else interval_gate (DB w0) startedAt) of
             Some skipped \<Rightarrow> (skipped, w0)
           | None \<Rightarrow>
               (case screening_try out env rid (insert_run rid startedAt w0) of
                  (Inr res, w1) \<Rightarrow> (res, w1)
                | (Inl err, w1) \<Rightarrow>
                    (case Date_now out w1 of
                       (finishedAt, w2) \<Rightarrow>
                         (\<lparr>runId = rid, status = ResError, profilesProcessed = 0,
                           walletsProcessed = 0, eligibleCount = 0, messageSent = False,
                           error = Some (error_message err)\<rparr>,
                          update_run_error rid finishedAt (error_message err) w2)))))"

section \<open>Quantities the statements are phrased in\<close>

text \<open>
  The oracles of the chain do not depend on the log of reads, so the outcome of a pool
  and of a wallet are functions of the chain alone. \<open>pool_fails\<close> says that one of the
  three reads of the pool rejected; \<open>pool_contribution\<close> is the underlying amount the
  pool yields for the wallet, 0 for a pool that failed.
\<close>

definition pool_outcome :: "chain \<Rightarrow> string \<Rightarrow> string \<Rightarrow> string \<Rightarrow> LpPair \<Rightarrow> js_error + (int \<times> int)" where
  "pool_outcome ch rpcUrl chogContract userAddress p =
     fst (getLpChogExposure ch rpcUrl chogContract p userAddress [])"

definition pool_fails :: "chain \<Rightarrow> string \<Rightarrow> string \<Rightarrow> string \<Rightarrow> LpPair \<Rightarrow> bool" where
  "pool_fails ch rpcUrl chogContract userAddress p =
     isl (pool_outcome ch rpcUrl chogContract userAddress p)"

definition pool_contribution :: "chain \<Rightarrow> string \<Rightarrow> string \<Rightarrow> string \<Rightarrow> LpPair \<Rightarrow> int" where
  "pool_contribution ch rpcUrl chogContract userAddress p =
     (case pool_outcome ch rpcUrl chogContract userAddress p of
        Inl e \<Rightarrow> 0
      | Inr (userLp, underlying) \<Rightarrow> underlying)"

definition pool_entry :: "chain \<Rightarrow> string \<Rightarrow> string \<Rightarrow> string \<Rightarrow> LpPair \<Rightarrow> lp_entry" where
  "pool_entry ch rpcUrl chogContract userAddress p =
     \<lparr>pairAddress = pair_address p, pairName = pair_name p,
      userLpBalance = (case pool_outcome ch rpcUrl chogContract userAddress p of
                         Inl e \<Rightarrow> 0
                       | Inr (userLp, underlying) \<Rightarrow> userLp),
      chogUnderlying = pool_contribution ch rpcUrl chogContract userAddress p\<rparr>"

text \<open>The exposure of a wallet in a run, its total (0 when the computation throws).\<close>

definition wallet_exposure :: "outside \<Rightarrow> Env \<Rightarrow> LpPair list \<Rightarrow> Wallet \<Rightarrow> js_error + ChogExposure" where
  "wallet_exposure out env lpPairs wallet =
     fst (getTotalChogExposure (chain out) (MONAD_RPC_URL env) (CHOG_CONTRACT env) lpPairs
            (address wallet) [])"

definition wallet_fails :: "outside \<Rightarrow> Env \<Rightarrow> LpPair list \<Rightarrow> Wallet \<Rightarrow> bool" where
  "wallet_fails out env lpPairs wallet = isl (wallet_exposure out env lpPairs wallet)"

definition wallet_total :: "outside \<Rightarrow> Env \<Rightarrow> LpPair list \<Rightarrow> Wallet \<Rightarrow> int" where
  "wallet_total out env lpPairs wallet =
     (case wallet_exposure out env lpPairs wallet of
        Inl e \<Rightarrow> 0
      | Inr exposure \<Rightarrow> totalBalance exposure)"

definition wallet_failure_reason :: "outside \<Rightarrow> Env \<Rightarrow> LpPair list \<Rightarrow> Wallet \<Rightarrow> string" where
  "wallet_failure_reason out env lpPairs wallet =
     (case wallet_exposure out env lpPairs wallet of
        Inl e \<Rightarrow> error_message e
      | Inr exposure \<Rightarrow> [])"

definition profile_total :: "outside \<Rightarrow> Env \<Rightarrow> LpPair list \<Rightarrow> Wallet list \<Rightarrow> int" where
  "profile_total out env lpPairs ws = sum_list (map (wallet_total out env lpPairs) ws)"

text \<open>The writes to the status of run \<open>rid\<close> among a sequence of statements.\<close>

fun status_writes :: "string \<Rightarrow> db_write list \<Rightarrow> run_status list" where
  "status_writes rid [] = []"
| "status_writes rid (UpdateRunStatus r st # xs) =
     (if r = rid then st # status_writes rid xs else status_writes rid xs)"
| "status_writes rid (x # xs) = status_writes rid xs"

text \<open>
  How a row of \<open>wallets\<close> after a loop relates to the row before it. \<open>cached\<close> are the
  balance columns and the check time; \<open>same_wallet\<close> says that nothing but the cached
  columns, the status and the error reason differs. \<open>frame_rel ok\<close>: the cached columns
  are kept unless the id is that of a wallet in \<open>ok\<close>. \<open>err_rel out env lpPairs failed\<close>:
  status and reason are kept unless the id is that of a wallet in \<open>failed\<close>, and then the
  status is \<open>error\<close> with the reason of such a wallet.
\<close>

definition cached :: "Wallet \<Rightarrow> string option \<times> string option \<times> string option \<times> int option" where
  "cached r = (last_direct_chog_raw r, last_lp_chog_raw r, last_total_chog_raw r, last_checked_at r)"

definition same_wallet :: "Wallet \<Rightarrow> Wallet \<Rightarrow> bool" where
  "same_wallet r r' =
     (r' = r\<lparr>last_direct_chog_raw := last_direct_chog_raw r',
             last_lp_chog_raw := last_lp_chog_raw r',
             last_total_chog_raw := last_total_chog_raw r',
             last_checked_at := last_checked_at r',
             wallet_status := wallet_status r',
             error_reason := error_reason r'\<rparr>)"

definition frame_rel :: "Wallet set \<Rightarrow> Wallet \<Rightarrow> Wallet \<Rightarrow> bool" where
  "frame_rel ok r r' =
     (same_wallet r r' \<and> (wallet_id r \<notin> wallet_id ` ok \<longrightarrow> cached r' = cached r))"

definition err_rel :: "outside \<Rightarrow> Env \<Rightarrow> LpPair list \<Rightarrow> Wallet set \<Rightarrow> Wallet \<Rightarrow> Wallet \<Rightarrow> bool" where
  "err_rel out env lpPairs failed r r' =
     (if wallet_id r \<in> wallet_id ` failed
      then wallet_status r' = WalletError
         \<and> (\<exists>x\<in>failed. wallet_id x = wallet_id r
                \<and> error_reason r' = Some (wallet_failure_reason out env lpPairs x))
      else wallet_status r' = wallet_status r \<and> error_reason r' = error_reason r)"

text \<open>
  What a run decides for a profile with its wallets: the aggregate, whether it reaches the
  threshold \<open>th\<close>, and the entries and the snapshot the loop produces for it.
\<close>

definition profile_eligible :: "outside \<Rightarrow> Env \<Rightarrow> LpPair list \<Rightarrow> int \<Rightarrow> Profile \<times> Wallet list \<Rightarrow> bool" where
  "profile_eligible out env lpPairs th pw = (th \<le> profile_total out env lpPairs (snd pw))"

definition profile_entry :: "outside \<Rightarrow> Env \<Rightarrow> LpPair list \<Rightarrow> Profile \<times> Wallet list \<Rightarrow> eligible_entry" where
  "profile_entry out env lpPairs pw =
     \<lparr>handle = strip_at (telegram_handle (fst pw)),
      totalChog = formatChogBalance out (profile_total out env lpPairs (snd pw)),
      totalRaw = profile_total out env lpPairs (snd pw)\<rparr>"

definition wallet_detail_of :: "outside \<Rightarrow> Env \<Rightarrow> LpPair list \<Rightarrow> Wallet \<Rightarrow> wallet_detail" where
  "wallet_detail_of out env lpPairs wallet =
     (case wallet_exposure out env lpPairs wallet of
        Inl e \<Rightarrow> \<lparr>wd_address = address wallet, directChog = [], lpChog = [], wd_totalChog = []\<rparr>
      | Inr exposure \<Rightarrow>
          \<lparr>wd_address = address wallet,
           directChog = bigint_toString (directBalance exposure),
           lpChog = bigint_toString (lpBalance exposure),
           wd_totalChog = bigint_toString (totalBalance exposure)\<rparr>)"

definition profile_snapshot_of ::
  "outside \<Rightarrow> Env \<Rightarrow> string \<Rightarrow> LpPair list \<Rightarrow> int \<Rightarrow> Profile \<times> Wallet list \<Rightarrow> ProfileSnapshot" where
  "profile_snapshot_of out env rid lpPairs th pw =
     \<lparr>snap_run_id = rid, snap_profile_id = profile_id (fst pw),
      total_chog_raw = bigint_toString (profile_total out env lpPairs (snd pw)),
      snap_eligible = (if profile_eligible out env lpPairs th pw then 1 else 0),
      details_json = map (wallet_detail_of out env lpPairs)
                       (filter (\<lambda>x. \<not> wallet_fails out env lpPairs x) (snd pw))\<rparr>"

definition expected_tally ::
  "outside \<Rightarrow> Env \<Rightarrow> LpPair list \<Rightarrow> string list \<Rightarrow> int \<Rightarrow> (Profile \<times> Wallet list) list \<Rightarrow> tally \<Rightarrow> tally" where
  "expected_tally out env lpPairs previousEligible th profs acc =
     \<lparr>acc_walletsProcessed = acc_walletsProcessed acc
        + int (length (filter (\<lambda>x. \<not> wallet_fails out env lpPairs x) (concat (map snd profs)))),
      acc_eligibleCount = acc_eligibleCount acc
        + int (length (filter (profile_eligible out env lpPairs th) profs)),
      acc_newlyEligible = acc_newlyEligible acc @
        map (\<lambda>pw. (handle (profile_entry out env lpPairs pw), totalChog (profile_entry out env lpPairs pw)))
          (filter (\<lambda>pw. profile_eligible out env lpPairs th pw
                        \<and> profile_id (fst pw) \<notin> set previousEligible) profs),
      acc_droppedEligible = acc_droppedEligible acc @
        map (\<lambda>pw. strip_at (telegram_handle (fst pw)))
          (filter (\<lambda>pw. \<not> profile_eligible out env lpPairs th pw
                        \<and> profile_id (fst pw) \<in> set previousEligible) profs),
      acc_allEligible = acc_allEligible acc @
        map (profile_entry out env lpPairs) (filter (profile_eligible out env lpPairs th) profs)\<rparr>"

text \<open>
  \<open>untouched\<close>: the tables and logs that the loops over wallets and profiles leave as
  they are. \<open>is_loop_write\<close>: the writing statements those loops issue.
\<close>

definition untouched :: "world \<Rightarrow> world \<Rightarrow> bool" where
  "untouched w w' =
     (profiles (DB w') = profiles (DB w) \<and> lp_pairs (DB w') = lp_pairs (DB w)
      \<and> screening_runs (DB w') = screening_runs (DB w) \<and> settings (DB w') = settings (DB w)
      \<and> telegram_log w' = telegram_log w \<and> composed w' = composed w)"

fun is_loop_write :: "db_write \<Rightarrow> bool" where
  "is_loop_write (UpdateWalletBalances i) = True"
| "is_loop_write (UpdateWalletError i) = True"
| "is_loop_write (InsertSnapshot r p) = True"
| "is_loop_write (InsertRun r s) = False"
| "is_loop_write (UpdateRunStatus r s) = False"

definition row_rel :: "outside \<Rightarrow> Env \<Rightarrow> LpPair list \<Rightarrow> Wallet set \<Rightarrow> Wallet set \<Rightarrow> Wallet \<Rightarrow> Wallet \<Rightarrow> bool" where
  "row_rel out env lpPairs ok failed r r' =
     (frame_rel ok r r' \<and> err_rel out env lpPairs failed r r')"

text \<open>
  The effect of a loop on the world: the untouched parts, the statements appended, and
  the relation of the rows of \<open>wallets\<close> before and after.
\<close>

definition loop_effect ::
  "outside \<Rightarrow> Env \<Rightarrow> LpPair list \<Rightarrow> Wallet set \<Rightarrow> Wallet set \<Rightarrow> world \<Rightarrow> world \<Rightarrow> bool" where
  "loop_effect out env lpPairs ok failed w w' =
     (untouched w w'
      \<and> (\<exists>xs. db_writes w' = db_writes w @ xs \<and> list_all is_loop_write xs)
      \<and> list_all2 (row_rel out env lpPairs ok failed) (wallets (DB w)) (wallets (DB w')))"

text \<open>
  An invocation \<open>executes\<close> when it is forced or the interval gate lets it through.
  \<open>run_start\<close> is the world after the run record is inserted, \<open>after_loop\<close> the world
  when the loop over the profiles is left. The loop completes unless there is a profile
  and the threshold setting is no integer text. \<open>message_of\<close> is the data of the
  message that is composed, \<open>message_sent_flag\<close> whether it was delivered.
\<close>

definition executes :: "outside \<Rightarrow> bool \<Rightarrow> world \<Rightarrow> bool" where
  "executes out force w = (force \<or> interval_gate (DB w) (clock out (clock_reads w)) = None)"

definition run_start :: "outside \<Rightarrow> string \<Rightarrow> world \<Rightarrow> world" where
  "run_start out rid w =
     insert_run rid (clock out (clock_reads w)) (w\<lparr>clock_reads := Suc (clock_reads w)\<rparr>)"

definition after_loop :: "outside \<Rightarrow> Env \<Rightarrow> string \<Rightarrow> world \<Rightarrow> world" where
  "after_loop out env rid w =
     snd (profile_loop out env rid (getEnabledLpPairs (DB w)) (previous_eligible (DB w))
            (threshold_setting (DB w)) (getAllProfilesWithWallets (DB w)) empty_tally
            (run_start out rid w))"

definition final_tally :: "outside \<Rightarrow> Env \<Rightarrow> int \<Rightarrow> world \<Rightarrow> tally" where
  "final_tally out env th w =
     expected_tally out env (getEnabledLpPairs (DB w)) (previous_eligible (DB w)) th
       (getAllProfilesWithWallets (DB w)) empty_tally"

definition loop_completes :: "world \<Rightarrow> bool" where
  "loop_completes w =
     (getAllProfilesWithWallets (DB w) = [] \<or> \<not> isl (BigInt (threshold_setting (DB w))))"

definition threshold_value :: "world \<Rightarrow> int" where
  "threshold_value w = (case BigInt (threshold_setting (DB w)) of Inl e \<Rightarrow> 0 | Inr th \<Rightarrow> th)"

definition threshold_error :: "world \<Rightarrow> string" where
  "threshold_error w =
     (case BigInt (threshold_setting (DB w)) of Inl e \<Rightarrow> error_message e | Inr th \<Rightarrow> [])"

definition message_of :: "outside \<Rightarrow> tally \<Rightarrow> world \<Rightarrow> eligibility_message" where
  "message_of out acc w =
     \<lparr>date = iso_date out (clock out (clock_reads w)),
      msg_eligibleCount = acc_eligibleCount acc,
      msg_newlyEligible = acc_newlyEligible acc,
      msg_droppedEligible = acc_droppedEligible acc,
      topEligible = leaderboard (acc_allEligible acc)\<rparr>"

definition message_sent_flag :: "outside \<Rightarrow> Env \<Rightarrow> tally \<Rightarrow> world \<Rightarrow> bool" where
  "message_sent_flag out env acc w =
     (will_send env (DB w)
      \<and> success (telegram_send out (TELEGRAM_BOT_TOKEN env)
            (getGroupChatId (DB w) (TELEGRAM_CHAT_ID env))
            (formatEligibilityMessage out (message_of out acc w))))"

text \<open>A list of entries whose totals strictly decrease, and one whose totals do not increase.\<close>

definition strictly_descending :: "eligible_entry list \<Rightarrow> bool" where
  "strictly_descending xs = sorted_wrt (\<lambda>a b. totalRaw a > totalRaw b) xs"

definition descending :: "eligible_entry list \<Rightarrow> bool" where
  "descending xs = sorted_wrt (\<lambda>a b. totalRaw a \<ge> totalRaw b) xs"

section \<open>A concrete chain and store\<close>

text \<open>
  Wallet \<open>0xw1\<close> holds 100 tokens directly and 10 of the 100 shares of \<open>pool1\<close>, whose
  reserve on side 0 is 5000; the reads of \<open>pool2\<close> reject. Wallet \<open>0xw42\<close> holds 42
  tokens and no shares; the balance read of \<open>0xbad\<close> rejects. Wallets \<open>0xp\<close> and
  \<open>0xq\<close> hold 5000000 tokens each.
\<close>

definition demo_chain :: chain where
  "demo_chain =
     \<lparr>balanceOf = (\<lambda>rpcUrl c h.
         if c = ''chog'' then
           (if h = ''0xw1'' then Inr 100
            else if h = ''0xa'' then Inr 500
            else if h = ''0xb'' then Inr 2000000
            else if h = ''0xc'' then Inr 1000000
            else if h = ''0xw42'' then Inr 42
            else if h = ''0xp'' then Inr 5000000
            else if h = ''0xq'' then Inr 5000000
            else if h = ''0xbad'' then Inl (Error ''balance read failed'')
            else Inr 0)
         else if c = ''pool1'' then (if h = ''0xw1'' then Inr 10 else Inr 0)
         else Inl (Error ''execution reverted'')),
      totalSupply = (\<lambda>rpcUrl c. if c = ''pool1'' then Inr 100 else Inl (Error ''execution reverted'')),
      getReserves = (\<lambda>rpcUrl c. if c = ''pool1'' then Inr (5000, 7, 0)
                                  else Inl (Error ''execution reverted''))\<rparr>"

definition demo_pool1 :: LpPair where
  "demo_pool1 = \<lparr>pair_address = ''pool1'', pair_name = Some ''CHOG/MON'', token0 = ''chog'',
                  token1 = ''mon'', chog_side = 0, enabled = 1, pair_created_at = 0\<rparr>"

definition demo_pool2 :: LpPair where
  "demo_pool2 = \<lparr>pair_address = ''pool2'', pair_name = None, token0 = ''usd'',
                  token1 = ''chog'', chog_side = 1, enabled = 1, pair_created_at = 0\<rparr>"

text \<open>
  A store with four profiles: A, B and C with one wallet each (500, 2000000 and 1000000
  raw units) and D with the wallets \<open>0xbad\<close> and \<open>0xw42\<close>. The last successful run
  \<open>run0\<close> started at 1000 and found A and B eligible; a later run ended in \<open>error\<close>.
  The threshold setting is 1000000, the interval setting is absent (24 hours). Telegram
  refuses the message. The clock of \<open>demo_outside\<close> stands shortly after \<open>run0\<close>, that
  of \<open>demo_outside_late\<close> more than a day after it.
\<close>

definition demo_outside :: outside where
  "demo_outside =
     \<lparr>chain = demo_chain,
      telegram_send = (\<lambda>botToken chatId text.
         \<lparr>success = False, messageId = None, send_error = Some ''chat not found''\<rparr>),
      clock = (\<lambda>n. 2000 + int n),
      iso_date = (\<lambda>t. ''2024-01-01''),
      formatChogBalance = (\<lambda>v. bigint_toString v),
      formatEligibilityMessage = (\<lambda>m. ''summary'')\<rparr>"

definition demo_outside_late :: outside where
  "demo_outside_late = demo_outside\<lparr>clock := (\<lambda>n. 100000000 + int n)\<rparr>"

definition demo_env :: Env where
  "demo_env = \<lparr>MONAD_RPC_URL = ''rpc'', CHOG_CONTRACT = ''chog'',
                TELEGRAM_BOT_TOKEN = ''token'', TELEGRAM_CHAT_ID = ''-100''\<rparr>"

definition demo_wallet :: "string \<Rightarrow> string \<Rightarrow> string \<Rightarrow> int \<Rightarrow> Wallet" where
  "demo_wallet wid pid addr created =
     \<lparr>wallet_id = wid, wallet_profile_id = pid, address = addr, wallet_rdns = None,
      verified_at = Some 1, last_checked_at = Some 900, last_direct_chog_raw = Some ''7'',
      last_lp_chog_raw = Some ''0'', last_total_chog_raw = Some ''7'',
      wallet_status = Verified, error_reason = None, wallet_created_at = created\<rparr>"

definition demo_profile :: "string \<Rightarrow> string \<Rightarrow> Profile" where
  "demo_profile pid h =
     \<lparr>profile_id = pid, telegram_handle = h, edit_secret_hash = ''hash'',
      profile_created_at = 1, updated_at = 1\<rparr>"

definition demo_snapshot :: "string \<Rightarrow> int \<Rightarrow> ProfileSnapshot" where
  "demo_snapshot pid el =
     \<lparr>snap_run_id = ''run0'', snap_profile_id = pid, total_chog_raw = ''0'',
      snap_eligible = el, details_json = []\<rparr>"

definition demo_db :: db where
  "demo_db =
     \<lparr>profiles = [demo_profile ''pa'' ''@A'', demo_profile ''pb'' ''@B'',
                  demo_profile ''pc'' ''@C'', demo_profile ''pd'' ''@D''],
      wallets = [demo_wallet ''wa'' ''pa'' ''0xa'' 1, demo_wallet ''wb'' ''pb'' ''0xb'' 1,
                 demo_wallet ''wc'' ''pc'' ''0xc'' 1, demo_wallet ''wbad'' ''pd'' ''0xbad'' 2,
                 demo_wallet ''w42'' ''pd'' ''0xw42'' 1],
      lp_pairs = [demo_pool2, demo_pool1],
      screening_runs =
        [\<lparr>run_id = ''run0'', started_at = 1000, finished_at = Some 1100, run_status = Success,
          run_error = None, profiles_processed = 4, wallets_processed = 5, eligible_count = 2,
          message_sent = 1\<rparr>,
         \<lparr>run_id = ''run1'', started_at = 1500, finished_at = Some 1600, run_status = RunError,
          run_error = Some ''boom'', profiles_processed = 0, wallets_processed = 0,
          eligible_count = 0, message_sent = 0\<rparr>],
      profile_snapshots = [demo_snapshot ''pa'' 1, demo_snapshot ''pb'' 1,
                           demo_snapshot ''pc'' 0, demo_snapshot ''pd'' 0],
      settings = [(''eligibility_threshold_raw'', ''1000000'')]\<rparr>"

definition demo_world :: world where
  "demo_world = \<lparr>DB = demo_db, chain_log = [], telegram_log = [], composed = [],
                  db_writes = [], clock_reads = 0\<rparr>"

text \<open>The same store with a threshold setting that is no integer text.\<close>

definition demo_world_bad :: world where
  "demo_world_bad =
     demo_world\<lparr>DB := demo_db\<lparr>settings := [(''eligibility_threshold_raw'', ''abc'')]\<rparr>\<rparr>"

text \<open>
  The same store after the profile A has unlinked its only wallet: the profile and its
  snapshot of \<open>run0\<close> remain, no row of \<open>wallets\<close> belongs to it.
\<close>

definition demo_world_unlinked :: world where
  "demo_world_unlinked =
     demo_world\<lparr>DB := demo_db\<lparr>wallets :=
       [demo_wallet ''wb'' ''pb'' ''0xb'' 1, demo_wallet ''wc'' ''pc'' ''0xc'' 1,
        demo_wallet ''wbad'' ''pd'' ''0xbad'' 2, demo_wallet ''w42'' ''pd'' ''0xw42'' 1]\<rparr>\<rparr>"

text \<open>The same store with the text \<open>v\<close> as its interval setting.\<close>

definition demo_world_interval :: "string \<Rightarrow> world" where
  "demo_world_interval v =
     demo_world\<lparr>DB := demo_db\<lparr>settings :=
       [(''eligibility_threshold_raw'', ''1000000''), (''screening_interval_hours'', v)]\<rparr>\<rparr>"

text \<open>
  A store with the two profiles P and Q, in this order, whose wallets hold the same
  amount; the rest is as in \<open>demo_db\<close>.
\<close>

definition demo_world_tie :: world where
  "demo_world_tie =
     demo_world\<lparr>DB := demo_db\<lparr>
       profiles := [demo_profile ''pp'' ''@P'', demo_profile ''pq'' ''@Q''],
       wallets := [demo_wallet ''wp'' ''pp'' ''0xp'' 1, demo_wallet ''wq'' ''pq'' ''0xq'' 1]\<rparr>\<rparr>"

text \<open>The characters \<open>0\<close> to \<open>9\<close>, of which decimal text consists.\<close>

definition dec_char :: "char \<Rightarrow> bool" where
  "dec_char c = (48 \<le> (of_char c :: nat) \<and> (of_char c :: nat) \<le> 57)"

section \<open>Decimal text and parsing\<close>

lemma sdiv_nonneg_eq: "0 \<le> a \<Longrightarrow> 0 < b \<Longrightarrow> (a::int) sdiv b = a div b"
  by (cases "a = 0") (simp_all add: signed_divide_int_def)

lemma digit_char_range: "d < 10 \<Longrightarrow> of_char (digit_char d) = (48 + d :: nat)"
proof -
  assume "d < 10"
  then have "d \<in> {0, 1, 2, 3, 4, 5, 6, 7, 8, 9}" by auto
  then show ?thesis by (auto simp: digit_char_def)
qed

lemma digit_val_digit_char: "d < 10 \<Longrightarrow> digit_val 10 (digit_char d) = Some d"
  by (simp add: digit_val_def digit_char_range)

lemma digit_char_in: "d < 10 \<Longrightarrow> dec_char (digit_char d)"
  by (simp add: dec_char_def digit_char_range)

lemma is_space_digit: "dec_char c \<Longrightarrow> \<not> is_space c"
  by (auto simp: is_space_def dec_char_def)

lemma digits_val_append:
  "digits_val r acc (xs @ ys) =
     (case digits_val r acc xs of None \<Rightarrow> None | Some a \<Rightarrow> digits_val r a ys)"
  by (induction xs arbitrary: acc) (auto split: option.splits)

lemma digits_val_nat_toString: "digits_val 10 0 (nat_toString n) = Some n"
proof (induction n rule: nat_toString.induct)
  case (1 n)
  show ?case
  proof (cases "n < 10")
    case True
    then show ?thesis by (subst nat_toString.simps) (simp add: digit_val_digit_char)
  next
    case False
    with 1 have ih: "digits_val 10 0 (nat_toString (n div 10)) = Some (n div 10)" by simp
    show ?thesis using False
      by (subst nat_toString.simps) (simp add: digits_val_append ih digit_val_digit_char)
  qed
qed

lemma nat_toString_digits: "\<forall>c\<in>set (nat_toString n). dec_char c"
proof (induction n rule: nat_toString.induct)
  case (1 n)
  show ?case
  proof (cases "n < 10")
    case True
    then show ?thesis using digit_char_in [of n] by (subst nat_toString.simps) simp
  next
    case False
    with 1 have ih: "\<forall>c\<in>set (nat_toString (n div 10)). dec_char c" by simp
    have "dec_char (digit_char (n mod 10))" by (rule digit_char_in) simp
    with ih False show ?thesis by (subst nat_toString.simps) simp
  qed
qed

lemma nat_toString_nonempty: "nat_toString n \<noteq> []"
  by (subst nat_toString.simps) simp

lemma trim_no_space: "\<forall>c\<in>set s. \<not> is_space c \<Longrightarrow> trim s = s"
proof -
  assume a: "\<forall>c\<in>set s. \<not> is_space c"
  then have "dropWhile is_space s = s" by (cases s) auto
  moreover from a have "dropWhile is_space (rev s) = rev s"
    by (cases "rev s") (auto simp: dropWhile_eq_self_iff)
  ultimately show ?thesis by (simp add: trim_def)
qed

lemma digit_not_prefix_char:
  "dec_char c \<Longrightarrow> c \<notin> {CHR ''x'', CHR ''X'', CHR ''o'', CHR ''O'', CHR ''b'', CHR ''B'', CHR ''+'', CHR ''-''}"
  by (auto simp: dec_char_def)

lemma StringToBigInt_digits:
  assumes "s \<noteq> []" and "\<forall>c\<in>set s. dec_char c"
  shows "StringToBigInt s = map_option int (digits_val 10 0 s)"
proof -
  have "\<forall>c\<in>set s. \<not> is_space c" using assms(2) is_space_digit by blast
  then have t: "trim s = s" by (rule trim_no_space)
  obtain a r where s: "s = a # r" using assms(1) by (cases s) auto
  have a: "dec_char a" using assms(2) s by simp
  have sign: "hd s \<noteq> CHR ''+''" "hd s \<noteq> CHR ''-''"
    using digit_not_prefix_char [OF a] s by simp_all
  have pref: "take 2 s \<notin> {''0x'', ''0X'', ''0o'', ''0O'', ''0b'', ''0B''}"
  proof (cases r)
    case Nil
    then show ?thesis using s by simp
  next
    case (Cons b r')
    then have "dec_char b" using assms(2) s by simp
    from digit_not_prefix_char [OF this] show ?thesis using s Cons by simp
  qed
  show ?thesis using pref sign assms(1)
    by (simp add: StringToBigInt_def t parse_digits_def Let_def)
qed

lemma BigInt_nat_toString: "BigInt (nat_toString n) = Inr (int n)"
  using StringToBigInt_digits [OF nat_toString_nonempty nat_toString_digits, of n]
  by (simp add: BigInt_def digits_val_nat_toString)

lemma BigInt_bigint_toString: "0 \<le> i \<Longrightarrow> BigInt (bigint_toString i) = Inr i"
  by (simp add: bigint_toString_def BigInt_nat_toString)

lemma toString_default_threshold:
  "bigint_toString 1000000000000000000000000 = ''1000000000000000000000000''"
  by (simp add: bigint_toString_def nat_toString.simps digit_char_def)

section \<open>Exposure calculator\<close>

lemma lp_exposure_of_nat:
  "lp_exposure_of p (int b) (int t) (int r0, int r1, int ts) =
     Inr (if b = 0 \<or> t = 0 then (0, 0)
          else (int b, int (((if chog_side p = 0 then r0 else r1) * b) div t)))"
proof (cases "b = 0 \<or> t = 0")
  case True
  then show ?thesis by (auto simp: lp_exposure_of_def)
next
  case False
  let ?r = "if chog_side p = 0 then r0 else r1"
  have "(int b * int ?r) sdiv int t = (int b * int ?r) div int t"
    using False by (intro sdiv_nonneg_eq) simp_all
  also have "\<dots> = int ((?r * b) div t)"
    by (simp add: zdiv_int mult.commute)
  finally have "(int b * int ?r) sdiv int t = int ((?r * b) div t)" .
  then show ?thesis using False
    by (auto simp: lp_exposure_of_def bigint_div_def Let_def)
qed

text \<open>
  C1. When the three reads of a pool return share balance \<open>b\<close>, total supply \<open>t\<close> and
  reserves \<open>r0\<close>, \<open>r1\<close>, the pool's exposure does not throw; it is 0 when \<open>b = 0\<close> or
  \<open>t = 0\<close>, and otherwise the floor of reserve times share balance over supply, the
  reserve being \<open>r0\<close> for side 0 and \<open>r1\<close> otherwise.
\<close>

theorem lp_exposure_floor:
  assumes "balanceOf ch rpcUrl (pair_address p) user = Inr b"
    and "totalSupply ch rpcUrl (pair_address p) = Inr t"
    and "getReserves ch rpcUrl (pair_address p) = Inr (r0, r1, ts)"
  shows "fst (getLpChogExposure ch rpcUrl chog p user lg) =
           Inr (if b = 0 \<or> t = 0 then (0, 0)
                else (int b, int (((if chog_side p = 0 then r0 else r1) * b) div t)))"
  using assms lp_exposure_of_nat [of p b t r0 r1 ts]
  by (simp add: getLpChogExposure_def lp_reads_def Let_def)

theorem lp_exposure_floor_witness:
  "balanceOf demo_chain ''rpc'' (pair_address demo_pool1) ''0xw1'' = Inr 10
   \<and> totalSupply demo_chain ''rpc'' (pair_address demo_pool1) = Inr 100
   \<and> getReserves demo_chain ''rpc'' (pair_address demo_pool1) = Inr (5000, 7, 0)
   \<and> fst (getLpChogExposure demo_chain ''rpc'' ''chog'' demo_pool1 ''0xw1'' []) = Inr (10, 500)"
proof -
  have b: "balanceOf demo_chain ''rpc'' (pair_address demo_pool1) ''0xw1'' = Inr 10"
    by (simp add: demo_chain_def demo_pool1_def)
  have t: "totalSupply demo_chain ''rpc'' (pair_address demo_pool1) = Inr 100"
    by (simp add: demo_chain_def demo_pool1_def)
  have r: "getReserves demo_chain ''rpc'' (pair_address demo_pool1) = Inr (5000, 7, 0)"
    by (simp add: demo_chain_def demo_pool1_def)
  have "chog_side demo_pool1 = 0" by (simp add: demo_pool1_def)
  with lp_exposure_floor [OF b t r, of "''chog''" "[]"] b t r show ?thesis by simp
qed


lemma getLpChogExposure_fst:
  "fst (getLpChogExposure ch rpcUrl chog p user lg) = pool_outcome ch rpcUrl chog user p"
  by (simp add: pool_outcome_def getLpChogExposure_def Let_def split: sum.splits prod.splits)

lemma getLpChogExposure_snd:
  "snd (getLpChogExposure ch rpcUrl chog p user lg) =
     lg @ [(rpcUrl, BalanceOf (pair_address p) user), (rpcUrl, TotalSupply (pair_address p)),
           (rpcUrl, GetReserves (pair_address p))]"
  by (simp add: getLpChogExposure_def Let_def split: sum.splits prod.splits)

lemma pool_contribution_nonneg: "0 \<le> pool_contribution ch rpcUrl chog user p"
proof (cases "lp_reads ch rpcUrl p user")
  case (Inl e)
  then show ?thesis
    by (simp add: pool_contribution_def pool_outcome_def getLpChogExposure_def)
next
  case (Inr v)
  then obtain b t r0 r1 ts where v: "v = (int b, int t, (int r0, int r1, int ts))"
    by (auto simp: lp_reads_def split: sum.splits)
  show ?thesis using Inr
    by (simp add: pool_contribution_def pool_outcome_def getLpChogExposure_def v lp_exposure_of_nat)
qed

lemma lp_loop_fst:
  "fst (lp_loop ch rpcUrl chog user pairs bd lp lg) =
     (bd @ map (pool_entry ch rpcUrl chog user)
             (filter (\<lambda>p. \<not> pool_fails ch rpcUrl chog user p
                           \<and> 0 < pool_contribution ch rpcUrl chog user p) pairs),
      lp + sum_list (map (pool_contribution ch rpcUrl chog user)
             (filter (\<lambda>p. \<not> pool_fails ch rpcUrl chog user p) pairs)))"
proof (induction pairs arbitrary: bd lp lg)
  case Nil
  then show ?case by simp
next
  case (Cons p pairs)
  obtain r lg' where g: "getLpChogExposure ch rpcUrl chog p user lg = (r, lg')"
    by (cases "getLpChogExposure ch rpcUrl chog p user lg")
  then have r: "r = pool_outcome ch rpcUrl chog user p"
    using getLpChogExposure_fst [of ch rpcUrl chog p user lg] by simp
  show ?case
  proof (cases r)
    case (Inl e)
    then show ?thesis using g r Cons.IH
      by (simp add: pool_fails_def)
  next
    case (Inr v)
    obtain ul un where v: "v = (ul, un)" by (cases v)
    have nf: "\<not> pool_fails ch rpcUrl chog user p" using Inr r by (auto simp: pool_fails_def)
    have c: "pool_contribution ch rpcUrl chog user p = un"
      using Inr r v by (simp add: pool_contribution_def split: sum.splits)
    have e: "pool_entry ch rpcUrl chog user p =
        \<lparr>pairAddress = pair_address p, pairName = pair_name p, userLpBalance = ul, chogUnderlying = un\<rparr>"
      using Inr r v c by (simp add: pool_entry_def split: sum.splits)
    have nn: "0 \<le> un" using pool_contribution_nonneg [of ch rpcUrl chog user p] c by simp
    show ?thesis
    proof (cases "0 < un")
      case True
      then show ?thesis using g Inr v nf c e Cons.IH by simp
    next
      case False
      with nn have "un = 0" by simp
      then show ?thesis using g Inr v nf c Cons.IH by simp
    qed
  qed
qed

lemma getTotalChogExposure_value:
  "fst (getTotalChogExposure ch rpcUrl chog pairs user lg) =
     (case balanceOf ch rpcUrl chog user of
        Inl e \<Rightarrow> Inl e
      | Inr d \<Rightarrow>
          Inr \<lparr>directBalance = int d,
               lpBalance = sum_list (map (pool_contribution ch rpcUrl chog user)
                             (filter (\<lambda>p. \<not> pool_fails ch rpcUrl chog user p) pairs)),
               totalBalance = int d + sum_list (map (pool_contribution ch rpcUrl chog user)
                             (filter (\<lambda>p. \<not> pool_fails ch rpcUrl chog user p) pairs)),
               lpBreakdown = map (pool_entry ch rpcUrl chog user)
                 (filter (\<lambda>p. \<not> pool_fails ch rpcUrl chog user p
                               \<and> 0 < pool_contribution ch rpcUrl chog user p) pairs)\<rparr>)"
proof (cases "balanceOf ch rpcUrl chog user")
  case (Inl e)
  then show ?thesis by (simp add: getTotalChogExposure_def getDirectChogBalance_def)
next
  case (Inr d)
  let ?lg = "lg @ [(rpcUrl, BalanceOf chog user)]"
  obtain bd lp lg'' where l: "lp_loop ch rpcUrl chog user pairs [] 0 ?lg = ((bd, lp), lg'')"
    by (metis surj_pair)
  from lp_loop_fst [of ch rpcUrl chog user pairs "[]" 0 ?lg] l
  show ?thesis using Inr
    by (simp add: getTotalChogExposure_def getDirectChogBalance_def)
qed

lemma getTotalChogExposure_fst:
  "fst (getTotalChogExposure ch rpcUrl chog pairs user lg) =
     fst (getTotalChogExposure ch rpcUrl chog pairs user [])"
  by (simp only: getTotalChogExposure_value)

text \<open>
  C2. When the direct balance read returns \<open>d\<close>, the exposure of the wallet is computed
  whatever the pools do: the pool balance is the sum of the contributions of the pools
  whose reads did not throw, the total is the direct balance plus that sum, and the
  breakdown lists exactly the pools that did not throw and contribute a positive amount.
\<close>

theorem total_exposure_sum:
  assumes "balanceOf ch rpcUrl chog user = Inr d"
  shows "\<exists>ex. fst (getTotalChogExposure ch rpcUrl chog pairs user lg) = Inr ex
      \<and> directBalance ex = int d
      \<and> lpBalance ex = sum_list (map (pool_contribution ch rpcUrl chog user)
                          (filter (\<lambda>p. \<not> pool_fails ch rpcUrl chog user p) pairs))
      \<and> totalBalance ex = directBalance ex + lpBalance ex
      \<and> lpBreakdown ex = map (pool_entry ch rpcUrl chog user)
           (filter (\<lambda>p. \<not> pool_fails ch rpcUrl chog user p
                         \<and> 0 < pool_contribution ch rpcUrl chog user p) pairs)"
  using assms by (simp add: getTotalChogExposure_value)

lemma demo_pool1_outcome: "pool_outcome demo_chain ''rpc'' ''chog'' ''0xw1'' demo_pool1 = Inr (10, 500)"
  by (simp add: pool_outcome_def getLpChogExposure_def lp_reads_def lp_exposure_of_def
      bigint_div_def demo_chain_def demo_pool1_def signed_divide_int_def Let_def)

lemma demo_pool2_outcome:
  "pool_outcome demo_chain ''rpc'' ''chog'' ''0xw1'' demo_pool2 = Inl (Error ''execution reverted'')"
  by (simp add: pool_outcome_def getLpChogExposure_def lp_reads_def demo_chain_def demo_pool2_def Let_def)

theorem total_exposure_sum_witness:
  "balanceOf demo_chain ''rpc'' ''chog'' ''0xw1'' = Inr 100
   \<and> pool_fails demo_chain ''rpc'' ''chog'' ''0xw1'' demo_pool2
   \<and> (\<exists>ex. fst (getTotalChogExposure demo_chain ''rpc'' ''chog'' [demo_pool2, demo_pool1] ''0xw1'' [])
              = Inr ex
          \<and> directBalance ex = 100 \<and> lpBalance ex = 500 \<and> totalBalance ex = 600
          \<and> map pairAddress (lpBreakdown ex) = [''pool1''])"
proof -
  have d: "balanceOf demo_chain ''rpc'' ''chog'' ''0xw1'' = Inr 100"
    by (simp add: demo_chain_def)
  have f2: "pool_fails demo_chain ''rpc'' ''chog'' ''0xw1'' demo_pool2"
    by (simp add: pool_fails_def demo_pool2_outcome)
  have f1: "\<not> pool_fails demo_chain ''rpc'' ''chog'' ''0xw1'' demo_pool1"
    by (simp add: pool_fails_def demo_pool1_outcome)
  have c1: "pool_contribution demo_chain ''rpc'' ''chog'' ''0xw1'' demo_pool1 = 500"
    by (simp add: pool_contribution_def demo_pool1_outcome)
  have a1: "pairAddress (pool_entry demo_chain ''rpc'' ''chog'' ''0xw1'' demo_pool1) = ''pool1''"
    by (simp add: pool_entry_def demo_pool1_def)
  from total_exposure_sum [OF d, of "[demo_pool2, demo_pool1]" "[]"]
  show ?thesis using d f2 f1 c1 a1 by auto
qed


section \<open>Eligibility evaluator\<close>

lemma isEligible_parsed:
  "BigInt s = Inr t \<Longrightarrow> isEligible (BigintArg b) s = Inr (t \<le> b)"
  by (simp add: isEligible_def)

text \<open>
  C3. For a non-negative total and a threshold setting that is the decimal text of a
  non-negative integer, \<open>isEligible\<close> returns whether the total is at least the
  threshold, for a bigint balance and for a balance given as decimal text alike. With
  the default threshold of 10^24 raw units, 10^24 - 1 is not eligible and 10^24 is.
\<close>

theorem isEligible_iff:
  assumes "0 \<le> tot" and "0 \<le> threshold"
  shows "isEligible (BigintArg tot) (bigint_toString threshold) = Inr (threshold \<le> tot)
       \<and> isEligible (StringArg (bigint_toString tot)) (bigint_toString threshold)
           = Inr (threshold \<le> tot)"
  using assms by (simp add: isEligible_def BigInt_bigint_toString)

theorem isEligible_iff_witness:
  "isEligible (BigintArg 999999999999999999999999) ''1000000000000000000000000'' = Inr False
   \<and> isEligible (BigintArg 1000000000000000000000000) ''1000000000000000000000000'' = Inr True"
  using isEligible_iff [of 999999999999999999999999 1000000000000000000000000]
    isEligible_iff [of 1000000000000000000000000 1000000000000000000000000]
  by (simp add: toString_default_threshold)

section \<open>The wallet loop\<close>

lemma wallet_exposure_eq:
  "getTotalChogExposure (chain out) (MONAD_RPC_URL env) (CHOG_CONTRACT env) lpPairs (address wallet) lg
     = (r, lg') \<Longrightarrow> r = wallet_exposure out env lpPairs wallet"
  using getTotalChogExposure_fst
    [of "chain out" "MONAD_RPC_URL env" "CHOG_CONTRACT env" lpPairs "address wallet" lg]
  by (simp add: wallet_exposure_def)

lemma wallet_loop_fst:
  "fst (wallet_loop out env lpPairs ws (t, ds, n) w) =
     (t + profile_total out env lpPairs ws,
      ds @ map (wallet_detail_of out env lpPairs) (filter (\<lambda>x. \<not> wallet_fails out env lpPairs x) ws),
      n + int (length (filter (\<lambda>x. \<not> wallet_fails out env lpPairs x) ws)))"
proof (induction ws arbitrary: t ds n w)
  case Nil
  then show ?case by (simp add: profile_total_def)
next
  case (Cons wallet rest)
  obtain r lg where g: "getTotalChogExposure (chain out) (MONAD_RPC_URL env) (CHOG_CONTRACT env)
      lpPairs (address wallet) (chain_log w) = (r, lg)"
    by (metis surj_pair)
  have r: "r = wallet_exposure out env lpPairs wallet" by (rule wallet_exposure_eq [OF g])
  show ?case
  proof (cases r)
    case (Inl e)
    then have "wallet_fails out env lpPairs wallet" "wallet_total out env lpPairs wallet = 0"
      using r by (simp_all add: wallet_fails_def wallet_total_def)
    then show ?thesis using g Inl Cons.IH by (simp add: profile_total_def)
  next
    case (Inr ex)
    then have "\<not> wallet_fails out env lpPairs wallet"
      "wallet_total out env lpPairs wallet = totalBalance ex"
      "wallet_detail_of out env lpPairs wallet =
         \<lparr>wd_address = address wallet, directChog = bigint_toString (directBalance ex),
          lpChog = bigint_toString (lpBalance ex), wd_totalChog = bigint_toString (totalBalance ex)\<rparr>"
      using r by (simp_all add: wallet_fails_def wallet_total_def wallet_detail_of_def)
    then show ?thesis using g Inr Cons.IH by (simp add: profile_total_def)
  qed
qed

lemma status_writes_loop: "list_all is_loop_write xs \<Longrightarrow> status_writes rid xs = []"
proof (induction xs)
  case Nil
  then show ?case by simp
next
  case (Cons x xs)
  then show ?case by (cases x) simp_all
qed

lemma status_writes_append:
  "status_writes rid (xs @ ys) = status_writes rid xs @ status_writes rid ys"
proof (induction xs)
  case Nil
  then show ?case by simp
next
  case (Cons x xs)
  then show ?case by (cases x) simp_all
qed

lemma untouched_refl: "untouched w w"
  by (simp add: untouched_def)

lemma untouched_trans: "untouched w w' \<Longrightarrow> untouched w' w'' \<Longrightarrow> untouched w w''"
  by (simp add: untouched_def)

lemma same_wallet_id: "same_wallet r r' \<Longrightarrow> wallet_id r' = wallet_id r"
  by (cases r, cases r') (simp add: same_wallet_def)

lemma same_wallet_trans: "same_wallet r r' \<Longrightarrow> same_wallet r' r'' \<Longrightarrow> same_wallet r r''"
  by (cases r, cases r', cases r'') (simp add: same_wallet_def)

lemma row_rel_refl: "row_rel out env lpPairs {} {} r r"
  by (simp add: row_rel_def frame_rel_def err_rel_def same_wallet_def)

lemma row_rel_trans:
  assumes "row_rel out env lpPairs A F r r'" and "row_rel out env lpPairs B G r' r''"
  shows "row_rel out env lpPairs (A \<union> B) (F \<union> G) r r''"
proof -
  have sw: "same_wallet r r'" "same_wallet r' r''"
    using assms by (simp_all add: row_rel_def frame_rel_def)
  have id: "wallet_id r' = wallet_id r" using sw(1) by (rule same_wallet_id)
  have f: "frame_rel (A \<union> B) r r''"
    using assms id same_wallet_trans [OF sw]
    by (auto simp: row_rel_def frame_rel_def image_Un)
  have e1: "err_rel out env lpPairs F r r'" and e2: "err_rel out env lpPairs G r' r''"
    using assms by (simp_all add: row_rel_def)
  have e: "err_rel out env lpPairs (F \<union> G) r r''"
  proof (cases "wallet_id r \<in> wallet_id ` G")
    case True
    with e2 id show ?thesis by (auto simp: err_rel_def image_Un)
  next
    case False
    with e2 id have k: "wallet_status r'' = wallet_status r'" "error_reason r'' = error_reason r'"
      by (simp_all add: err_rel_def)
    show ?thesis
    proof (cases "wallet_id r \<in> wallet_id ` F")
      case True
      with e1 k show ?thesis by (auto simp: err_rel_def image_Un)
    next
      case F2: False
      with e1 k False show ?thesis by (auto simp: err_rel_def image_Un)
    qed
  qed
  from f e show ?thesis by (simp add: row_rel_def)
qed

lemma rows_trans:
  assumes "list_all2 (row_rel out env lpPairs A F) xs ys"
    and "list_all2 (row_rel out env lpPairs B G) ys zs"
  shows "list_all2 (row_rel out env lpPairs (A \<union> B) (F \<union> G)) xs zs"
  using row_rel_trans assms by (rule list_all2_trans)

lemma rows_map:
  "(\<And>r. r \<in> set xs \<Longrightarrow> R r (f r)) \<Longrightarrow> list_all2 R xs (map f xs)"
  by (induction xs) simp_all

lemma loop_effect_refl: "loop_effect out env lpPairs {} {} w w"
  by (simp add: loop_effect_def untouched_refl list_all2_refl row_rel_refl)

lemma loop_effect_trans:
  assumes "loop_effect out env lpPairs A F w w'" and "loop_effect out env lpPairs B G w' w''"
  shows "loop_effect out env lpPairs (A \<union> B) (F \<union> G) w w''"
proof -
  from assms obtain xs ys where
    x: "db_writes w' = db_writes w @ xs" "list_all is_loop_write xs" and
    y: "db_writes w'' = db_writes w' @ ys" "list_all is_loop_write ys"
    by (auto simp: loop_effect_def)
  then have "db_writes w'' = db_writes w @ (xs @ ys)" "list_all is_loop_write (xs @ ys)"
    by simp_all
  then have "\<exists>zs. db_writes w'' = db_writes w @ zs \<and> list_all is_loop_write zs" by blast
  moreover have "untouched w w''"
    using assms untouched_trans by (auto simp: loop_effect_def)
  moreover have "list_all2 (row_rel out env lpPairs (A \<union> B) (F \<union> G)) (wallets (DB w)) (wallets (DB w''))"
    using assms rows_trans by (auto simp: loop_effect_def)
  ultimately show ?thesis by (simp add: loop_effect_def)
qed

lemma update_effect:
  assumes "wallet_id wallet = wid"
  shows "loop_effect out env lpPairs {wallet} {} w
           (updateWalletBalances out wid a b c (w\<lparr>chain_log := lg\<rparr>))"
proof -
  let ?w' = "updateWalletBalances out wid a b c (w\<lparr>chain_log := lg\<rparr>)"
  have u: "untouched w ?w'"
    by (simp add: updateWalletBalances_def Date_now_def untouched_def)
  have d: "db_writes ?w' = db_writes w @ [UpdateWalletBalances wid]"
    by (simp add: updateWalletBalances_def Date_now_def)
  have r: "list_all2 (row_rel out env lpPairs {wallet} {}) (wallets (DB w)) (wallets (DB ?w'))"
    unfolding updateWalletBalances_def Date_now_def
    using assms
    by (auto intro!: rows_map simp: row_rel_def frame_rel_def err_rel_def same_wallet_def cached_def)
  from u d r show ?thesis by (simp add: loop_effect_def)
qed

lemma mark_effect:
  assumes "wallet_id wallet = wid" and "wallet_failure_reason out env lpPairs wallet = reason"
  shows "loop_effect out env lpPairs {} {wallet} w
           (mark_wallet_error reason wid (w\<lparr>chain_log := lg\<rparr>))"
proof -
  let ?w' = "mark_wallet_error reason wid (w\<lparr>chain_log := lg\<rparr>)"
  have u: "untouched w ?w'"
    by (simp add: mark_wallet_error_def untouched_def)
  have d: "db_writes ?w' = db_writes w @ [UpdateWalletError wid]"
    by (simp add: mark_wallet_error_def)
  have r: "list_all2 (row_rel out env lpPairs {} {wallet}) (wallets (DB w)) (wallets (DB ?w'))"
    unfolding mark_wallet_error_def
    using assms
    by (auto intro!: rows_map simp: row_rel_def frame_rel_def err_rel_def same_wallet_def cached_def)
  from u d r show ?thesis by (simp add: loop_effect_def)
qed

lemma wallet_loop_effect:
  "loop_effect out env lpPairs {x \<in> set ws. \<not> wallet_fails out env lpPairs x}
     {x \<in> set ws. wallet_fails out env lpPairs x} w (snd (wallet_loop out env lpPairs ws acc w))"
proof (induction ws arbitrary: acc w)
  case Nil
  then show ?case by (simp add: loop_effect_refl)
next
  case (Cons wallet rest)
  obtain t ds n where acc: "acc = (t, ds, n)" by (cases acc)
  obtain r lg where g: "getTotalChogExposure (chain out) (MONAD_RPC_URL env) (CHOG_CONTRACT env)
      lpPairs (address wallet) (chain_log w) = (r, lg)"
    by (metis surj_pair)
  have r: "r = wallet_exposure out env lpPairs wallet" by (rule wallet_exposure_eq [OF g])
  show ?case
  proof (cases r)
    case (Inl e)
    then have f: "wallet_fails out env lpPairs wallet"
      and m: "wallet_failure_reason out env lpPairs wallet = error_message e"
      using r by (simp_all add: wallet_fails_def wallet_failure_reason_def)
    let ?w1 = "mark_wallet_error (error_message e) (wallet_id wallet) (w\<lparr>chain_log := lg\<rparr>)"
    have s1: "loop_effect out env lpPairs {} {wallet} w ?w1"
      by (rule mark_effect [OF refl m])
    have eq: "snd (wallet_loop out env lpPairs (wallet # rest) acc w) =
              snd (wallet_loop out env lpPairs rest (t, ds, n) ?w1)"
      using g Inl acc by simp
    have A: "{x \<in> set (wallet # rest). \<not> wallet_fails out env lpPairs x} =
             {} \<union> {x \<in> set rest. \<not> wallet_fails out env lpPairs x}"
      using f by auto
    have F: "{x \<in> set (wallet # rest). wallet_fails out env lpPairs x} =
             {wallet} \<union> {x \<in> set rest. wallet_fails out env lpPairs x}"
      using f by auto
    show ?thesis unfolding eq A F
      by (rule loop_effect_trans [OF s1 Cons.IH])
  next
    case (Inr ex)
    then have f: "\<not> wallet_fails out env lpPairs wallet"
      using r by (simp add: wallet_fails_def)
    let ?w1 = "updateWalletBalances out (wallet_id wallet) (bigint_toString (directBalance ex))
                 (bigint_toString (lpBalance ex)) (bigint_toString (totalBalance ex))
                 (w\<lparr>chain_log := lg\<rparr>)"
    have s1: "loop_effect out env lpPairs {wallet} {} w ?w1"
      by (rule update_effect [OF refl])
    have eq: "snd (wallet_loop out env lpPairs (wallet # rest) acc w) =
              snd (wallet_loop out env lpPairs rest
                (t + totalBalance ex,
                 ds @ [\<lparr>wd_address = address wallet, directChog = bigint_toString (directBalance ex),
                         lpChog = bigint_toString (lpBalance ex),
                         wd_totalChog = bigint_toString (totalBalance ex)\<rparr>], n + 1) ?w1)"
      using g Inr acc by simp
    have A: "{x \<in> set (wallet # rest). \<not> wallet_fails out env lpPairs x} =
             {wallet} \<union> {x \<in> set rest. \<not> wallet_fails out env lpPairs x}"
      using f by auto
    have F: "{x \<in> set (wallet # rest). wallet_fails out env lpPairs x} =
             {} \<union> {x \<in> set rest. wallet_fails out env lpPairs x}"
      using f by auto
    show ?thesis unfolding eq A F
      by (rule loop_effect_trans [OF s1 Cons.IH])
  qed
qed

lemma wallet_loop_snapshots:
  "profile_snapshots (DB (snd (wallet_loop out env lpPairs ws acc w))) = profile_snapshots (DB w)"
proof (induction ws arbitrary: acc w)
  case Nil
  then show ?case by simp
next
  case (Cons wallet rest)
  obtain t ds n where acc: "acc = (t, ds, n)" by (cases acc)
  show ?case using Cons.IH
    by (simp add: acc updateWalletBalances_def mark_wallet_error_def Date_now_def
        split: prod.splits sum.splits)
qed

section \<open>The profile loop\<close>

lemma insert_snapshot_effect: "loop_effect out env lpPairs {} {} w (insert_snapshot snap w)"
  by (simp add: loop_effect_def insert_snapshot_def untouched_def list_all2_refl row_rel_refl)

lemma expected_tally_Nil: "expected_tally out env lpPairs prev th [] acc = acc"
  by (simp add: expected_tally_def)

lemma expected_tally_Cons:
  "expected_tally out env lpPairs prev th ((p, ws) # rest) acc =
     expected_tally out env lpPairs prev th rest
       (classify out p (profile_total out env lpPairs ws) (th \<le> profile_total out env lpPairs ws)
          (profile_id p \<in> set prev)
          (acc\<lparr>acc_walletsProcessed := acc_walletsProcessed acc
              + int (length (filter (\<lambda>x. \<not> wallet_fails out env lpPairs x) ws))\<rparr>))"
  by (simp add: expected_tally_def classify_def profile_eligible_def profile_entry_def Let_def)

lemma profile_loop_fst:
  assumes "BigInt thresholdRaw = Inr th"
  shows "fst (profile_loop out env rid lpPairs prev thresholdRaw profs acc w) =
           Inr (expected_tally out env lpPairs prev th profs acc)"
proof (induction profs arbitrary: acc w)
  case Nil
  then show ?case by (simp add: expected_tally_Nil)
next
  case (Cons pw rest)
  obtain p ws where pw: "pw = (p, ws)" by (cases pw)
  obtain t ds n w1 where wl: "wallet_loop out env lpPairs ws (0, [], acc_walletsProcessed acc) w
      = ((t, ds, n), w1)"
    by (metis surj_pair)
  from wallet_loop_fst [of out env lpPairs ws 0 "[]" "acc_walletsProcessed acc" w] wl
  have t: "t = profile_total out env lpPairs ws"
    and n: "n = acc_walletsProcessed acc
          + int (length (filter (\<lambda>x. \<not> wallet_fails out env lpPairs x) ws))"
    by simp_all
  have e: "isEligible (BigintArg t) thresholdRaw = Inr (th \<le> t)"
    by (rule isEligible_parsed [OF assms])
  show ?case
    unfolding pw expected_tally_Cons
    using wl e Cons.IH by (simp add: t n)
qed

lemma profile_loop_throws:
  assumes "BigInt thresholdRaw = Inl e"
  shows "fst (profile_loop out env rid lpPairs prev thresholdRaw (pw # rest) acc w) = Inl e"
proof -
  obtain p ws where pw: "pw = (p, ws)" by (cases pw)
  have "\<And>t. isEligible (BigintArg t) thresholdRaw = Inl e"
    using assms by (simp add: isEligible_def)
  then show ?thesis unfolding pw by (simp split: prod.splits)
qed

lemma profile_loop_effect:
  assumes "BigInt thresholdRaw = Inr th"
  shows "loop_effect out env lpPairs
           {x \<in> set (concat (map snd profs)). \<not> wallet_fails out env lpPairs x}
           {x \<in> set (concat (map snd profs)). wallet_fails out env lpPairs x}
           w (snd (profile_loop out env rid lpPairs prev thresholdRaw profs acc w))"
proof (induction profs arbitrary: acc w)
  case Nil
  then show ?case by (simp add: loop_effect_refl)
next
  case (Cons pw rest)
  obtain p ws where pw: "pw = (p, ws)" by (cases pw)
  obtain t ds n w1 where wl: "wallet_loop out env lpPairs ws (0, [], acc_walletsProcessed acc) w
      = ((t, ds, n), w1)"
    by (metis surj_pair)
  have e: "isEligible (BigintArg t) thresholdRaw = Inr (th \<le> t)"
    by (rule isEligible_parsed [OF assms])
  let ?snap = "\<lparr>snap_run_id = rid, snap_profile_id = profile_id p,
                total_chog_raw = bigint_toString t,
                snap_eligible = (if th \<le> t then 1 else 0), details_json = ds\<rparr>"
  let ?w2 = "insert_snapshot ?snap w1"
  let ?acc2 = "classify out p t (th \<le> t) (profile_id p \<in> set prev) (acc\<lparr>acc_walletsProcessed := n\<rparr>)"
  have eq: "snd (profile_loop out env rid lpPairs prev thresholdRaw (pw # rest) acc w) =
            snd (profile_loop out env rid lpPairs prev thresholdRaw rest ?acc2 ?w2)"
    using wl e pw by simp
  have s1: "loop_effect out env lpPairs {x \<in> set ws. \<not> wallet_fails out env lpPairs x}
              {x \<in> set ws. wallet_fails out env lpPairs x} w w1"
    using wallet_loop_effect [of out env lpPairs ws w "(0, [], acc_walletsProcessed acc)"] wl
    by simp
  have s2: "loop_effect out env lpPairs {} {} w1 ?w2" by (rule insert_snapshot_effect)
  have s12: "loop_effect out env lpPairs {x \<in> set ws. \<not> wallet_fails out env lpPairs x}
              {x \<in> set ws. wallet_fails out env lpPairs x} w ?w2"
    using loop_effect_trans [OF s1 s2] by simp
  have A: "{x \<in> set (concat (map snd (pw # rest))). \<not> wallet_fails out env lpPairs x} =
           {x \<in> set ws. \<not> wallet_fails out env lpPairs x}
           \<union> {x \<in> set (concat (map snd rest)). \<not> wallet_fails out env lpPairs x}"
    using pw by auto
  have F: "{x \<in> set (concat (map snd (pw # rest))). wallet_fails out env lpPairs x} =
           {x \<in> set ws. wallet_fails out env lpPairs x}
           \<union> {x \<in> set (concat (map snd rest)). wallet_fails out env lpPairs x}"
    using pw by auto
  show ?case unfolding eq A F
    by (rule loop_effect_trans [OF s12 Cons.IH])
qed

lemma profile_loop_snapshots:
  assumes "BigInt thresholdRaw = Inr th"
  shows "profile_snapshots (DB (snd (profile_loop out env rid lpPairs prev thresholdRaw profs acc w))) =
           profile_snapshots (DB w) @ map (profile_snapshot_of out env rid lpPairs th) profs"
proof (induction profs arbitrary: acc w)
  case Nil
  then show ?case by simp
next
  case (Cons pw rest)
  obtain p ws where pw: "pw = (p, ws)" by (cases pw)
  obtain t ds n w1 where wl: "wallet_loop out env lpPairs ws (0, [], acc_walletsProcessed acc) w
      = ((t, ds, n), w1)"
    by (metis surj_pair)
  from wallet_loop_fst [of out env lpPairs ws 0 "[]" "acc_walletsProcessed acc" w] wl
  have t: "t = profile_total out env lpPairs ws"
    and ds: "ds = map (wallet_detail_of out env lpPairs)
                   (filter (\<lambda>x. \<not> wallet_fails out env lpPairs x) ws)"
    by simp_all
  have w1: "profile_snapshots (DB w1) = profile_snapshots (DB w)"
    using wallet_loop_snapshots [of out env lpPairs ws "(0, [], acc_walletsProcessed acc)" w] wl
    by simp
  have e: "isEligible (BigintArg t) thresholdRaw = Inr (th \<le> t)"
    by (rule isEligible_parsed [OF assms])
  show ?case unfolding pw
    using wl e Cons.IH w1
    by (simp add: insert_snapshot_def profile_snapshot_of_def profile_eligible_def t ds)
qed

lemma profile_loop_frame:
  "\<exists>A F. loop_effect out env lpPairs A F w
            (snd (profile_loop out env rid lpPairs prev thresholdRaw profs acc w))
        \<and> A \<subseteq> {x \<in> set (concat (map snd profs)). \<not> wallet_fails out env lpPairs x}"
proof (induction profs arbitrary: acc w)
  case Nil
  have "loop_effect out env lpPairs {} {} w w" by (rule loop_effect_refl)
  then show ?case by auto
next
  case (Cons pw rest)
  obtain p ws where pw: "pw = (p, ws)" by (cases pw)
  obtain t ds n w1 where wl: "wallet_loop out env lpPairs ws (0, [], acc_walletsProcessed acc) w
      = ((t, ds, n), w1)"
    by (metis surj_pair)
  let ?A1 = "{x \<in> set ws. \<not> wallet_fails out env lpPairs x}"
  let ?F1 = "{x \<in> set ws. wallet_fails out env lpPairs x}"
  have s1: "loop_effect out env lpPairs ?A1 ?F1 w w1"
    using wallet_loop_effect [of out env lpPairs ws w "(0, [], acc_walletsProcessed acc)"] wl
    by simp
  have sub1: "?A1 \<subseteq> {x \<in> set (concat (map snd (pw # rest))). \<not> wallet_fails out env lpPairs x}"
    using pw by auto
  show ?case
  proof (cases "isEligible (BigintArg t) thresholdRaw")
    case (Inl err)
    then have "snd (profile_loop out env rid lpPairs prev thresholdRaw (pw # rest) acc w) = w1"
      using wl pw by simp
    with s1 have "loop_effect out env lpPairs ?A1 ?F1 w
        (snd (profile_loop out env rid lpPairs prev thresholdRaw (pw # rest) acc w))"
      by simp
    with sub1 show ?thesis by (intro exI conjI)
  next
    case (Inr el)
    let ?snap = "\<lparr>snap_run_id = rid, snap_profile_id = profile_id p,
                  total_chog_raw = bigint_toString t,
                  snap_eligible = (if el then 1 else 0), details_json = ds\<rparr>"
    let ?w2 = "insert_snapshot ?snap w1"
    let ?acc2 = "classify out p t el (profile_id p \<in> set prev) (acc\<lparr>acc_walletsProcessed := n\<rparr>)"
    have eq: "snd (profile_loop out env rid lpPairs prev thresholdRaw (pw # rest) acc w) =
              snd (profile_loop out env rid lpPairs prev thresholdRaw rest ?acc2 ?w2)"
      using wl Inr pw by simp
    have s2: "loop_effect out env lpPairs {} {} w1 ?w2" by (rule insert_snapshot_effect)
    have s12: "loop_effect out env lpPairs ?A1 ?F1 w ?w2"
      using loop_effect_trans [OF s1 s2] by simp
    from Cons.IH [where w = "?w2" and acc = "?acc2"] obtain A F where
      ih: "loop_effect out env lpPairs A F ?w2
             (snd (profile_loop out env rid lpPairs prev thresholdRaw rest ?acc2 ?w2))"
      and sub: "A \<subseteq> {x \<in> set (concat (map snd rest)). \<not> wallet_fails out env lpPairs x}"
      by blast
    have "loop_effect out env lpPairs (?A1 \<union> A) (?F1 \<union> F) w
            (snd (profile_loop out env rid lpPairs prev thresholdRaw (pw # rest) acc w))"
      unfolding eq by (rule loop_effect_trans [OF s12 ih])
    moreover have "?A1 \<union> A \<subseteq> {x \<in> set (concat (map snd (pw # rest))). \<not> wallet_fails out env lpPairs x}"
      using sub1 sub by auto
    ultimately show ?thesis by blast
  qed
qed

section \<open>One invocation\<close>

lemma latest_run_in: "latest_run rs = Some r \<Longrightarrow> r \<in> set rs"
  by (induction rs arbitrary: r) (auto split: option.splits if_splits)

lemma latest_run_append_other:
  "latest_run (filter (\<lambda>r. run_status r = Success) (rs @ [x\<lparr>run_status := Running\<rparr>])) =
   latest_run (filter (\<lambda>r. run_status r = Success) rs)"
  by simp

lemma run_start_reads:
  "getAllProfilesWithWallets (DB (run_start out rid w)) = getAllProfilesWithWallets (DB w)"
  "getEnabledLpPairs (DB (run_start out rid w)) = getEnabledLpPairs (DB w)"
  "previous_eligible (DB (run_start out rid w)) = previous_eligible (DB w)"
  "threshold_setting (DB (run_start out rid w)) = threshold_setting (DB w)"
proof -
  have p: "profiles (DB (run_start out rid w)) = profiles (DB w)"
    "wallets (DB (run_start out rid w)) = wallets (DB w)"
    by (simp_all add: run_start_def insert_run_def)
  have "\<And>ps. profilesWithWallets (DB (run_start out rid w)) ps = profilesWithWallets (DB w) ps"
  proof -
    fix ps show "profilesWithWallets (DB (run_start out rid w)) ps = profilesWithWallets (DB w) ps"
      by (induction ps) (simp_all add: getWalletsByProfile_def p Let_def)
  qed
  then show "getAllProfilesWithWallets (DB (run_start out rid w)) = getAllProfilesWithWallets (DB w)"
    by (simp add: getAllProfilesWithWallets_def p)
  show "getEnabledLpPairs (DB (run_start out rid w)) = getEnabledLpPairs (DB w)"
    by (simp add: getEnabledLpPairs_def run_start_def insert_run_def)
  have "getLastScreeningRun (DB (run_start out rid w)) = getLastScreeningRun (DB w)"
    by (simp add: getLastScreeningRun_def run_start_def insert_run_def)
  moreover have "\<And>i. getSnapshotsForRun (DB (run_start out rid w)) i = getSnapshotsForRun (DB w) i"
    by (simp add: getSnapshotsForRun_def run_start_def insert_run_def)
  ultimately show "previous_eligible (DB (run_start out rid w)) = previous_eligible (DB w)"
    by (simp add: previous_eligible_def split: option.splits)
  show "threshold_setting (DB (run_start out rid w)) = threshold_setting (DB w)"
    by (simp add: threshold_setting_def get_setting_def run_start_def insert_run_def)
qed

lemma runScreening_skipped:
  assumes "\<not> executes out force w"
  shows "runScreening out env rid force w =
           (the (interval_gate (DB w) (clock out (clock_reads w))),
            w\<lparr>clock_reads := Suc (clock_reads w)\<rparr>)"
  using assms by (auto simp: executes_def runScreening_def Date_now_def)

lemma runScreening_executed:
  assumes "executes out force w"
  shows "runScreening out env rid force w =
     (case screening_try out env rid (run_start out rid w) of
        (Inr res, w1) \<Rightarrow> (res, w1)
      | (Inl err, w1) \<Rightarrow>
          (\<lparr>runId = rid, status = ResError, profilesProcessed = 0, walletsProcessed = 0,
            eligibleCount = 0, messageSent = False, error = Some (error_message err)\<rparr>,
           update_run_error rid (clock out (clock_reads w1)) (error_message err)
             (w1\<lparr>clock_reads := Suc (clock_reads w1)\<rparr>)))"
  using assms
  by (cases force)
     (auto simp: executes_def runScreening_def Date_now_def run_start_def
           split: prod.splits sum.splits)

lemma screening_try_ok:
  assumes "BigInt (threshold_setting (DB w)) = Inr th"
  shows "screening_try out env rid (run_start out rid w) =
     (case notify_and_finish out env rid (length (getAllProfilesWithWallets (DB w)))
             (final_tally out env th w) (after_loop out env rid w) of
        (res, w2) \<Rightarrow> (Inr res, w2))"
proof -
  let ?pl = "profile_loop out env rid (getEnabledLpPairs (DB w)) (previous_eligible (DB w))
            (threshold_setting (DB w)) (getAllProfilesWithWallets (DB w)) empty_tally
            (run_start out rid w)"
  have "fst ?pl = Inr (final_tally out env th w)"
    unfolding final_tally_def by (rule profile_loop_fst [OF assms])
  moreover have "snd ?pl = after_loop out env rid w" by (simp add: after_loop_def)
  ultimately have "?pl = (Inr (final_tally out env th w), after_loop out env rid w)"
    by (metis prod.collapse)
  then show ?thesis
    by (simp add: screening_try_def run_start_reads Let_def)
qed

lemma screening_try_empty:
  assumes "getAllProfilesWithWallets (DB w) = []"
  shows "screening_try out env rid (run_start out rid w) =
     (case notify_and_finish out env rid 0 empty_tally (run_start out rid w) of
        (res, w2) \<Rightarrow> (Inr res, w2))"
  using assms by (simp add: screening_try_def run_start_reads Let_def)

lemma screening_try_throws:
  assumes "BigInt (threshold_setting (DB w)) = Inl e" and "getAllProfilesWithWallets (DB w) \<noteq> []"
  shows "screening_try out env rid (run_start out rid w) = (Inl e, after_loop out env rid w)"
proof -
  let ?pl = "profile_loop out env rid (getEnabledLpPairs (DB w)) (previous_eligible (DB w))
            (threshold_setting (DB w)) (getAllProfilesWithWallets (DB w)) empty_tally
            (run_start out rid w)"
  obtain pw rest where ps: "getAllProfilesWithWallets (DB w) = pw # rest"
    using assms(2) by (cases "getAllProfilesWithWallets (DB w)") auto
  have "fst ?pl = Inl e"
    unfolding ps by (rule profile_loop_throws [OF assms(1)])
  moreover have "snd ?pl = after_loop out env rid w" by (simp add: after_loop_def)
  ultimately have "?pl = (Inl e, after_loop out env rid w)"
    by (metis prod.collapse)
  then show ?thesis
    by (simp add: screening_try_def run_start_reads Let_def)
qed

lemma after_loop_empty:
  "getAllProfilesWithWallets (DB w) = [] \<Longrightarrow> after_loop out env rid w = run_start out rid w"
  by (simp add: after_loop_def)

lemma run_success:
  assumes "executes out force w" and "loop_completes w"
  shows "runScreening out env rid force w =
           notify_and_finish out env rid (length (getAllProfilesWithWallets (DB w)))
             (final_tally out env (threshold_value w) w) (after_loop out env rid w)"
proof (cases "getAllProfilesWithWallets (DB w) = []")
  case True
  then have "final_tally out env (threshold_value w) w = empty_tally"
    by (simp add: final_tally_def expected_tally_def empty_tally_def)
  then show ?thesis
    using True runScreening_executed [OF assms(1), of env rid] screening_try_empty [OF True, of out env rid]
    by (simp add: after_loop_empty split: prod.splits)
next
  case False
  with assms(2) obtain th where th: "BigInt (threshold_setting (DB w)) = Inr th"
    by (cases "BigInt (threshold_setting (DB w))") (auto simp: loop_completes_def)
  then have "threshold_value w = th" by (simp add: threshold_value_def)
  then show ?thesis
    using runScreening_executed [OF assms(1), of env rid] screening_try_ok [OF th, of out env rid]
    by (simp split: prod.splits)
qed

lemma run_error:
  assumes "executes out force w" and "\<not> loop_completes w"
  shows "runScreening out env rid force w =
           (\<lparr>runId = rid, status = ResError, profilesProcessed = 0, walletsProcessed = 0,
             eligibleCount = 0, messageSent = False, error = Some (threshold_error w)\<rparr>,
            update_run_error rid (clock out (clock_reads (after_loop out env rid w)))
              (threshold_error w)
              ((after_loop out env rid w)\<lparr>clock_reads := Suc (clock_reads (after_loop out env rid w))\<rparr>))"
proof -
  from assms(2) have ne: "getAllProfilesWithWallets (DB w) \<noteq> []"
    and "isl (BigInt (threshold_setting (DB w)))"
    by (simp_all add: loop_completes_def)
  then obtain e where e: "BigInt (threshold_setting (DB w)) = Inl e"
    by (cases "BigInt (threshold_setting (DB w))") auto
  then have "threshold_error w = error_message e" by (simp add: threshold_error_def)
  then show ?thesis
    using runScreening_executed [OF assms(1), of env rid] screening_try_throws [OF e ne, of out env rid]
    by simp
qed

lemma notify_and_finish_eq:
  "notify_and_finish out env rid n acc w =
     (\<lparr>runId = rid, status = ResSuccess, profilesProcessed = int n,
       walletsProcessed = acc_walletsProcessed acc, eligibleCount = acc_eligibleCount acc,
       messageSent = message_sent_flag out env acc w, error = None\<rparr>,
      update_run_success rid (clock out (Suc (clock_reads w))) (int n)
        (acc_walletsProcessed acc) (acc_eligibleCount acc) (message_sent_flag out env acc w)
        (w\<lparr>clock_reads := Suc (Suc (clock_reads w)),
           composed := composed w @ [message_of out acc w],
           telegram_log :=
             (if will_send env (DB w)
              then telegram_log w @
                     [(TELEGRAM_BOT_TOKEN env, getGroupChatId (DB w) (TELEGRAM_CHAT_ID env),
                       formatEligibilityMessage out (message_of out acc w))]
              else telegram_log w)\<rparr>))"
proof (cases "will_send env (DB w)")
  case True
  then show ?thesis
    by (simp add: notify_and_finish_def Date_now_def sendTelegramMessage_def Let_def
        message_sent_flag_def message_of_def update_run_success_def)
next
  case False
  then have m: "message_sent_flag out env acc w = False"
    by (simp add: message_sent_flag_def)
  have t: "(if will_send env (DB w) then X else telegram_log w) = telegram_log w" for X
    using False by simp
  show ?thesis
    unfolding m t
    using False
    by (simp add: notify_and_finish_def Date_now_def Let_def update_run_success_def message_of_def)
qed

lemma map_if_status:
  assumes "r \<in> set (map (\<lambda>x. if run_id x = rid then g x else x) rs)" and "run_id r = rid"
    and "\<And>x. run_status (g x) = st"
  shows "run_status r = st"
proof -
  from assms(1) obtain x where x: "x \<in> set rs" "r = (if run_id x = rid then g x else x)"
    by auto
  show ?thesis
  proof (cases "run_id x = rid")
    case True
    with x assms(3) show ?thesis by simp
  next
    case False
    with x assms(2) show ?thesis by simp
  qed
qed

lemma map_if_run_id:
  assumes "\<And>x. run_id (g x) = run_id x"
  shows "map run_id (map (\<lambda>x. if run_id x = rid then g x else x) rs) = map run_id rs"
  using assms by (induction rs) simp_all

lemma update_run_success_table:
  "screening_runs (DB (update_run_success rid f a b c s w)) =
     map (\<lambda>x. if run_id x = rid
               then (\<lambda>r. r\<lparr>finished_at := Some f, run_status := Success,
                            profiles_processed := a, wallets_processed := b,
                            eligible_count := c, message_sent := (if s then 1 else 0)\<rparr>) x
               else x) (screening_runs (DB w))"
  by (simp add: update_run_success_def)

lemma update_run_error_table:
  "screening_runs (DB (update_run_error rid f m w)) =
     map (\<lambda>x. if run_id x = rid
               then (\<lambda>r. r\<lparr>finished_at := Some f, run_status := RunError,
                            run_error := Some m\<rparr>) x
               else x) (screening_runs (DB w))"
  by (simp add: update_run_error_def)

lemma update_run_success_runs:
  "map run_id (screening_runs (DB (update_run_success rid f a b c s w))) = map run_id (screening_runs (DB w))"
  "\<forall>r\<in>set (screening_runs (DB (update_run_success rid f a b c s w))).
      run_id r = rid \<longrightarrow> run_status r = Success"
proof -
  show "map run_id (screening_runs (DB (update_run_success rid f a b c s w))) = map run_id (screening_runs (DB w))"
    unfolding update_run_success_table by (rule map_if_run_id) simp
  show "\<forall>r\<in>set (screening_runs (DB (update_run_success rid f a b c s w))).
      run_id r = rid \<longrightarrow> run_status r = Success"
  proof (intro ballI impI)
    fix r assume "r \<in> set (screening_runs (DB (update_run_success rid f a b c s w)))" "run_id r = rid"
    then show "run_status r = Success"
      unfolding update_run_success_table by (rule map_if_status) simp
  qed
qed

lemma update_run_error_runs:
  "map run_id (screening_runs (DB (update_run_error rid f m w))) = map run_id (screening_runs (DB w))"
  "\<forall>r\<in>set (screening_runs (DB (update_run_error rid f m w))).
      run_id r = rid \<longrightarrow> run_status r = RunError"
proof -
  show "map run_id (screening_runs (DB (update_run_error rid f m w))) = map run_id (screening_runs (DB w))"
    unfolding update_run_error_table by (rule map_if_run_id) simp
  show "\<forall>r\<in>set (screening_runs (DB (update_run_error rid f m w))).
      run_id r = rid \<longrightarrow> run_status r = RunError"
  proof (intro ballI impI)
    fix r assume "r \<in> set (screening_runs (DB (update_run_error rid f m w)))" "run_id r = rid"
    then show "run_status r = RunError"
      unfolding update_run_error_table by (rule map_if_status) simp
  qed
qed

lemma update_run_success_rest:
  "wallets (DB (update_run_success rid f a b c s w)) = wallets (DB w)"
  "profile_snapshots (DB (update_run_success rid f a b c s w)) = profile_snapshots (DB w)"
  "db_writes (update_run_success rid f a b c s w) = db_writes w @ [UpdateRunStatus rid Success]"
  "chain_log (update_run_success rid f a b c s w) = chain_log w"
  "composed (update_run_success rid f a b c s w) = composed w"
  by (simp_all add: update_run_success_def)

lemma update_run_error_rest:
  "wallets (DB (update_run_error rid f m w)) = wallets (DB w)"
  "profile_snapshots (DB (update_run_error rid f m w)) = profile_snapshots (DB w)"
  "db_writes (update_run_error rid f m w) = db_writes w @ [UpdateRunStatus rid RunError]"
  "chain_log (update_run_error rid f m w) = chain_log w"
  "composed (update_run_error rid f m w) = composed w"
  by (simp_all add: update_run_error_def)

lemma notify_and_finish_world:
  "wallets (DB (snd (notify_and_finish out env rid n acc w))) = wallets (DB w)
   \<and> profile_snapshots (DB (snd (notify_and_finish out env rid n acc w))) = profile_snapshots (DB w)
   \<and> db_writes (snd (notify_and_finish out env rid n acc w)) = db_writes w @ [UpdateRunStatus rid Success]
   \<and> chain_log (snd (notify_and_finish out env rid n acc w)) = chain_log w
   \<and> composed (snd (notify_and_finish out env rid n acc w)) = composed w @ [message_of out acc w]
   \<and> map run_id (screening_runs (DB (snd (notify_and_finish out env rid n acc w)))) = map run_id (screening_runs (DB w))
   \<and> (\<forall>r\<in>set (screening_runs (DB (snd (notify_and_finish out env rid n acc w)))). run_id r = rid \<longrightarrow> run_status r = Success)"
  by (simp add: notify_and_finish_eq update_run_success_runs update_run_success_rest
      del: ball_simps)

section \<open>The interval gate\<close>

lemma getLastScreeningRun_Some:
  assumes "getLastScreeningRun d = Some r"
  shows "r \<in> set (screening_runs d)" and "run_status r = Success"
  using latest_run_in [of "filter (\<lambda>r. run_status r = Success) (screening_runs d)" r] assms
  by (simp_all add: getLastScreeningRun_def)

lemma latest_run_None: "latest_run rs = None \<longleftrightarrow> rs = []"
  by (cases rs) (auto split: option.splits)

lemma latest_run_max: "latest_run rs = Some r \<Longrightarrow> x \<in> set rs \<Longrightarrow> started_at x \<le> started_at r"
proof (induction rs arbitrary: r)
  case Nil
  then show ?case by simp
next
  case (Cons a rs)
  show ?case
  proof (cases "latest_run rs")
    case None
    then have "rs = []" by (simp add: latest_run_None)
    with Cons.prems show ?thesis by simp
  next
    case (Some r')
    show ?thesis
    proof (cases "started_at r' > started_at a")
      case True
      with Some Cons.prems have r: "r = r'" by simp
      from Cons.prems(2) consider "x = a" | "x \<in> set rs" by auto
      then show ?thesis
      proof cases
        case 1
        with True r show ?thesis by simp
      next
        case 2
        from Cons.IH [OF Some 2] r show ?thesis by simp
      qed
    next
      case False
      with Some Cons.prems have r: "r = a" by simp
      from Cons.prems(2) consider "x = a" | "x \<in> set rs" by auto
      then show ?thesis
      proof cases
        case 1
        with r show ?thesis by simp
      next
        case 2
        from Cons.IH [OF Some 2] False r show ?thesis by simp
      qed
    qed
  qed
qed

lemma interval_gate_skip:
  assumes "getLastScreeningRun d = Some lastRun"
    and "parseInt (or_default (get_setting d ''screening_interval_hours'') ''24'') = Some hours"
    and "startedAt - started_at lastRun < hours * 3600000"
  shows "interval_gate d startedAt =
           Some \<lparr>runId = [], status = ResSuccess, profilesProcessed = 0, walletsProcessed = 0,
                 eligibleCount = 0, messageSent = False,
                 error = Some (''Skipped: ''
                   @ bigint_toString (ceil_div (hours * 3600000 - (startedAt - started_at lastRun)) 3600000)
                   @ ''h until next run'')\<rparr>"
  using assms getLastScreeningRun_Some(2) [OF assms(1)]
  by (simp add: interval_gate_def Let_def mult.commute)

lemma interval_gate_pass:
  assumes "getLastScreeningRun d = Some lastRun"
    and "parseInt (or_default (get_setting d ''screening_interval_hours'') ''24'') = Some hours"
    and "hours * 3600000 \<le> startedAt - started_at lastRun"
  shows "interval_gate d startedAt = None"
  using assms by (simp add: interval_gate_def Let_def)

lemma interval_gate_Some_shape:
  assumes "interval_gate d startedAt = Some r"
  shows "\<exists>hrs. r = \<lparr>runId = [], status = ResSuccess, profilesProcessed = 0, walletsProcessed = 0,
                 eligibleCount = 0, messageSent = False,
                 error = Some (''Skipped: '' @ hrs @ ''h until next run'')\<rparr>"
  using assms
  by (auto simp: interval_gate_def Let_def split: option.splits if_splits)

section \<open>The world after an invocation\<close>

lemma run_start_world:
  "wallets (DB (run_start out rid w)) = wallets (DB w)"
  "profile_snapshots (DB (run_start out rid w)) = profile_snapshots (DB w)"
  "db_writes (run_start out rid w) = db_writes w @ [InsertRun rid Running]"
  "composed (run_start out rid w) = composed w"
  "map run_id (screening_runs (DB (run_start out rid w))) = map run_id (screening_runs (DB w)) @ [rid]"
  "\<exists>row. screening_runs (DB (run_start out rid w)) = screening_runs (DB w) @ [row]
         \<and> run_id row = rid \<and> run_status row = Running"
  by (simp_all add: run_start_def insert_run_def)

lemma after_loop_frame:
  "\<exists>A F. loop_effect out env (getEnabledLpPairs (DB w)) A F (run_start out rid w)
            (after_loop out env rid w)
        \<and> A \<subseteq> {x \<in> set (concat (map snd (getAllProfilesWithWallets (DB w)))).
                 \<not> wallet_fails out env (getEnabledLpPairs (DB w)) x}"
  unfolding after_loop_def by (rule profile_loop_frame)

lemma after_loop_exact:
  assumes "BigInt (threshold_setting (DB w)) = Inr th"
  shows "loop_effect out env (getEnabledLpPairs (DB w))
           {x \<in> set (concat (map snd (getAllProfilesWithWallets (DB w)))).
              \<not> wallet_fails out env (getEnabledLpPairs (DB w)) x}
           {x \<in> set (concat (map snd (getAllProfilesWithWallets (DB w)))).
              wallet_fails out env (getEnabledLpPairs (DB w)) x}
           (run_start out rid w) (after_loop out env rid w)"
    and "profile_snapshots (DB (after_loop out env rid w)) =
           profile_snapshots (DB w) @
           map (profile_snapshot_of out env rid (getEnabledLpPairs (DB w)) th)
             (getAllProfilesWithWallets (DB w))"
  unfolding after_loop_def
  using profile_loop_effect [OF assms] profile_loop_snapshots [OF assms, of out env rid]
  by (simp_all add: run_start_world)

text \<open>
  Whatever an invocation that passed the gate does afterwards, the statements it issues
  are the insertion of the run, statements of the loops, and one update of the status.
\<close>

lemma executed_writes:
  assumes "executes out force w"
  shows "\<exists>xs. db_writes (snd (runScreening out env rid force w)) =
           db_writes w @ InsertRun rid Running # xs @
             [UpdateRunStatus rid (if loop_completes w then Success else RunError)]
         \<and> list_all is_loop_write xs"
proof -
  from after_loop_frame [of out env w rid] obtain xs where
    xs: "db_writes (after_loop out env rid w) = db_writes (run_start out rid w) @ xs"
      "list_all is_loop_write xs"
    by (auto simp: loop_effect_def)
  show ?thesis
  proof (cases "loop_completes w")
    case True
    then show ?thesis
      using run_success [OF assms True, of env rid] xs
      by (simp add: notify_and_finish_world run_start_world)
  next
    case False
    then show ?thesis
      using run_error [OF assms False, of env rid] xs
      by (simp add: update_run_error_rest run_start_world)
  qed
qed

lemma executed_runs:
  assumes "executes out force w"
  shows "map run_id (screening_runs (DB (snd (runScreening out env rid force w)))) =
           map run_id (screening_runs (DB w)) @ [rid]"
    and "\<forall>r\<in>set (screening_runs (DB (snd (runScreening out env rid force w)))).
           run_id r = rid \<longrightarrow> run_status r = (if loop_completes w then Success else RunError)"
proof -
  from after_loop_frame [of out env w rid]
  have u: "screening_runs (DB (after_loop out env rid w)) = screening_runs (DB (run_start out rid w))"
    by (auto simp: loop_effect_def untouched_def)
  show "map run_id (screening_runs (DB (snd (runScreening out env rid force w)))) =
           map run_id (screening_runs (DB w)) @ [rid]"
  proof (cases "loop_completes w")
    case True
    then show ?thesis
      using run_success [OF assms True, of env rid] u
      by (simp add: notify_and_finish_world run_start_world)
  next
    case False
    then show ?thesis
      using run_error [OF assms False, of env rid] u
      by (simp add: update_run_error_runs run_start_world)
  qed
  show "\<forall>r\<in>set (screening_runs (DB (snd (runScreening out env rid force w)))).
           run_id r = rid \<longrightarrow> run_status r = (if loop_completes w then Success else RunError)"
  proof (cases "loop_completes w")
    case True
    then show ?thesis
      using run_success [OF assms True, of env rid] notify_and_finish_world
      by (simp del: ball_simps)
  next
    case False
    then show ?thesis
      using run_error [OF assms False, of env rid] update_run_error_runs(2)
      by (simp del: ball_simps)
  qed
qed

lemma executed_status:
  assumes "executes out force w"
  shows "status (fst (runScreening out env rid force w)) =
           (if loop_completes w then ResSuccess else ResError)"
    and "runId (fst (runScreening out env rid force w)) = rid"
    and "error (fst (runScreening out env rid force w)) =
           (if loop_completes w then None else Some (threshold_error w))"
proof -
  have "status (fst (runScreening out env rid force w)) =
           (if loop_completes w then ResSuccess else ResError)
      \<and> runId (fst (runScreening out env rid force w)) = rid
      \<and> error (fst (runScreening out env rid force w)) =
           (if loop_completes w then None else Some (threshold_error w))"
  proof (cases "loop_completes w")
    case True
    then show ?thesis
      using run_success [OF assms True, of env rid] by (simp add: notify_and_finish_eq)
  next
    case False
    then show ?thesis
      using run_error [OF assms False, of env rid] by simp
  qed
  then show "status (fst (runScreening out env rid force w)) =
           (if loop_completes w then ResSuccess else ResError)"
    and "runId (fst (runScreening out env rid force w)) = rid"
    and "error (fst (runScreening out env rid force w)) =
           (if loop_completes w then None else Some (threshold_error w))"
    by simp_all
qed

section \<open>The concrete store\<close>

lemmas demo_defs = demo_db_def demo_wallet_def demo_profile_def demo_snapshot_def
  demo_pool1_def demo_pool2_def

lemma demo_profiles:
  "getAllProfilesWithWallets demo_db =
     [(demo_profile ''pa'' ''@A'', [demo_wallet ''wa'' ''pa'' ''0xa'' 1]),
      (demo_profile ''pb'' ''@B'', [demo_wallet ''wb'' ''pb'' ''0xb'' 1]),
      (demo_profile ''pc'' ''@C'', [demo_wallet ''wc'' ''pc'' ''0xc'' 1]),
      (demo_profile ''pd'' ''@D'', [demo_wallet ''wbad'' ''pd'' ''0xbad'' 2,
                                    demo_wallet ''w42'' ''pd'' ''0xw42'' 1])]"
  by (simp add: getAllProfilesWithWallets_def getWalletsByProfile_def demo_defs Let_def)

lemma demo_pairs: "getEnabledLpPairs demo_db = [demo_pool2, demo_pool1]"
  by (simp add: getEnabledLpPairs_def demo_defs)

lemma demo_last_run:
  "getLastScreeningRun demo_db =
     Some \<lparr>run_id = ''run0'', started_at = 1000, finished_at = Some 1100, run_status = Success,
          run_error = None, profiles_processed = 4, wallets_processed = 5, eligible_count = 2,
          message_sent = 1\<rparr>"
  by (simp add: getLastScreeningRun_def demo_defs)

lemma demo_previous: "previous_eligible demo_db = [''pa'', ''pb'']"
  by (simp add: previous_eligible_def demo_last_run getSnapshotsForRun_def)
     (simp add: demo_defs)

lemma demo_threshold: "BigInt (threshold_setting demo_db) = Inr 1000000"
  by (simp add: threshold_setting_def get_setting_def or_default_def demo_defs BigInt_def
      StringToBigInt_def trim_def is_space_def parse_digits_def digit_val_def)

lemma demo_interval:
  "parseInt (or_default (get_setting demo_db ''screening_interval_hours'') ''24'') = Some 24"
  by (simp add: get_setting_def or_default_def demo_defs parseInt_def is_space_def
      parse_digits_def digit_val_def is_digit_def)


lemma demo_reads:
  "DB demo_world = demo_db" "clock_reads demo_world = 0" "db_writes demo_world = []"
  "chain_log demo_world = []" "telegram_log demo_world = []" "composed demo_world = []"
  "clock demo_outside 0 = 2000" "clock demo_outside_late 0 = 100000000"
  by (simp_all add: demo_world_def demo_outside_def demo_outside_late_def)

lemma demo_started: "started_at (the (getLastScreeningRun demo_db)) = 1000"
  by (simp add: demo_last_run)

lemma demo_skips: "\<not> executes demo_outside False demo_world"
  using interval_gate_skip [OF demo_last_run demo_interval, of 2000]
  by (simp add: executes_def demo_reads)

lemma demo_late_executes: "executes demo_outside_late False demo_world"
  using interval_gate_pass [OF demo_last_run demo_interval, of 100000000]
  by (simp add: executes_def demo_reads)

lemma demo_completes: "loop_completes demo_world"
  by (simp add: loop_completes_def demo_reads demo_threshold)

section \<open>The result of an invocation\<close>

text \<open>
  C9. A skipped invocation returns status \<open>success\<close>, an empty run id, zero counters,
  \<open>messageSent = false\<close> and an error text that starts with \<open>Skipped: \<close>. An invocation
  that executes and completes its loop also returns status \<open>success\<close>, but with the
  generated run id and without an error text: the status does not tell the two apart.
\<close>

theorem skipped_result_shape:
  "(\<not> executes out force w \<longrightarrow>
      (\<exists>hrs. fst (runScreening out env rid force w) =
         \<lparr>runId = [], status = ResSuccess, profilesProcessed = 0, walletsProcessed = 0,
          eligibleCount = 0, messageSent = False,
          error = Some (''Skipped: '' @ hrs @ ''h until next run'')\<rparr>))
   \<and> (executes out force w \<and> loop_completes w \<longrightarrow>
        status (fst (runScreening out env rid force w)) = ResSuccess \<and> runId (fst (runScreening out env rid force w)) = rid \<and> error (fst (runScreening out env rid force w)) = None)"
proof (intro conjI impI)
  assume a: "\<not> executes out force w"
  then obtain r where r: "interval_gate (DB w) (clock out (clock_reads w)) = Some r"
    by (auto simp: executes_def)
  from interval_gate_Some_shape [OF r] runScreening_skipped [OF a, of env rid] r
  show "\<exists>hrs. fst (runScreening out env rid force w) =
         \<lparr>runId = [], status = ResSuccess, profilesProcessed = 0, walletsProcessed = 0,
          eligibleCount = 0, messageSent = False,
          error = Some (''Skipped: '' @ hrs @ ''h until next run'')\<rparr>"
    by simp
next
  assume a: "executes out force w \<and> loop_completes w"
  then show "status (fst (runScreening out env rid force w)) = ResSuccess" using executed_status(1) [of out force w env rid] by simp
  from a show "runId (fst (runScreening out env rid force w)) = rid" using executed_status(2) [of out force w env rid] by simp
  from a show "error (fst (runScreening out env rid force w)) = None" using executed_status(3) [of out force w env rid] by simp
qed

theorem skipped_result_shape_witness:
  "fst (runScreening demo_outside demo_env ''run2'' False demo_world) =
     \<lparr>runId = [], status = ResSuccess, profilesProcessed = 0, walletsProcessed = 0,
      eligibleCount = 0, messageSent = False, error = Some ''Skipped: 24h until next run''\<rparr>
   \<and> status (fst (runScreening demo_outside demo_env ''run2'' True demo_world)) = ResSuccess
   \<and> runId (fst (runScreening demo_outside demo_env ''run2'' True demo_world)) = ''run2''
   \<and> error (fst (runScreening demo_outside demo_env ''run2'' True demo_world)) = None"
proof -
  have e: "executes demo_outside True demo_world" by (simp add: executes_def)
  have g: "interval_gate demo_db 2000 =
      Some \<lparr>runId = [], status = ResSuccess, profilesProcessed = 0, walletsProcessed = 0,
            eligibleCount = 0, messageSent = False, error = Some ''Skipped: 24h until next run''\<rparr>"
    using interval_gate_skip [OF demo_last_run demo_interval, of 2000]
    by (simp add: ceil_div_def bigint_toString_def nat_toString.simps digit_char_def)
  from skipped_result_shape [where force = False and out = demo_outside and env = demo_env
      and rid = "''run2''" and w = demo_world] demo_skips
  have "\<exists>hrs. fst (runScreening demo_outside demo_env ''run2'' False demo_world) =
         \<lparr>runId = [], status = ResSuccess, profilesProcessed = 0, walletsProcessed = 0,
          eligibleCount = 0, messageSent = False,
          error = Some (''Skipped: '' @ hrs @ ''h until next run'')\<rparr>"
    by simp
  moreover have "fst (runScreening demo_outside demo_env ''run2'' False demo_world) =
      the (interval_gate demo_db 2000)"
    using runScreening_skipped [OF demo_skips, of demo_env "''run2''"] by (simp add: demo_reads)
  ultimately have 1: "fst (runScreening demo_outside demo_env ''run2'' False demo_world) =
     \<lparr>runId = [], status = ResSuccess, profilesProcessed = 0, walletsProcessed = 0,
      eligibleCount = 0, messageSent = False, error = Some ''Skipped: 24h until next run''\<rparr>"
    using g by simp
  from skipped_result_shape [where force = True and out = demo_outside and env = demo_env
      and rid = "''run2''" and w = demo_world] e demo_completes
  have 2: "status (fst (runScreening demo_outside demo_env ''run2'' True demo_world)) = ResSuccess
   \<and> runId (fst (runScreening demo_outside demo_env ''run2'' True demo_world)) = ''run2''
   \<and> error (fst (runScreening demo_outside demo_env ''run2'' True demo_world)) = None"
    by simp
  from 1 2 show ?thesis by simp
qed


section \<open>Status writes and counters of a run\<close>

lemma status_writes_executed:
  assumes "list_all is_loop_write xs"
  shows "status_writes rid (xs @ [UpdateRunStatus rid st]) = [st]"
  using status_writes_loop [OF assms, of rid] by (simp add: status_writes_append)

lemma executed_wallet_count:
  assumes "executes out force w" and "loop_completes w"
  shows "walletsProcessed (fst (runScreening out env rid force w)) =
           int (length (filter (\<lambda>x. \<not> wallet_fails out env (getEnabledLpPairs (DB w)) x)
                  (concat (map snd (getAllProfilesWithWallets (DB w))))))"
    and "profilesProcessed (fst (runScreening out env rid force w)) = int (length (getAllProfilesWithWallets (DB w)))"
    and "eligibleCount (fst (runScreening out env rid force w)) =
           int (length (filter (profile_eligible out env (getEnabledLpPairs (DB w)) (threshold_value w))
                  (getAllProfilesWithWallets (DB w))))"
  using run_success [OF assms, of env rid]
  by (simp_all add: notify_and_finish_eq final_tally_def expected_tally_def empty_tally_def)

lemma executes_telegram:
  "executes (out\<lparr>telegram_send := ts\<rparr>) force w = executes out force w"
  by (simp add: executes_def)

section \<open>A run on the concrete store\<close>

lemmas exposure_defs = wallet_exposure_def getTotalChogExposure_def getDirectChogBalance_def
  getLpChogExposure_def lp_reads_def lp_exposure_of_def bigint_div_def Let_def
  demo_outside_def demo_env_def demo_chain_def demo_pool1_def demo_pool2_def demo_wallet_def

lemma demo_exposure_ok:
  "wallet_exposure demo_outside demo_env [demo_pool2, demo_pool1] (demo_wallet i p ''0xa'' c) =
     Inr \<lparr>directBalance = 500, lpBalance = 0, totalBalance = 500, lpBreakdown = []\<rparr>"
  "wallet_exposure demo_outside demo_env [demo_pool2, demo_pool1] (demo_wallet i p ''0xb'' c) =
     Inr \<lparr>directBalance = 2000000, lpBalance = 0, totalBalance = 2000000, lpBreakdown = []\<rparr>"
  "wallet_exposure demo_outside demo_env [demo_pool2, demo_pool1] (demo_wallet i p ''0xc'' c) =
     Inr \<lparr>directBalance = 1000000, lpBalance = 0, totalBalance = 1000000, lpBreakdown = []\<rparr>"
  "wallet_exposure demo_outside demo_env [demo_pool2, demo_pool1] (demo_wallet i p ''0xw42'' c) =
     Inr \<lparr>directBalance = 42, lpBalance = 0, totalBalance = 42, lpBreakdown = []\<rparr>"
  by (simp_all add: exposure_defs)

lemma demo_exposure_bad:
  "wallet_exposure demo_outside demo_env [demo_pool2, demo_pool1] (demo_wallet i p ''0xbad'' c) =
     Inl (Error ''balance read failed'')"
  by (simp add: exposure_defs)

lemma demo_fails:
  "\<not> wallet_fails demo_outside demo_env [demo_pool2, demo_pool1] (demo_wallet i p ''0xa'' c)"
  "\<not> wallet_fails demo_outside demo_env [demo_pool2, demo_pool1] (demo_wallet i p ''0xb'' c)"
  "\<not> wallet_fails demo_outside demo_env [demo_pool2, demo_pool1] (demo_wallet i p ''0xc'' c)"
  "\<not> wallet_fails demo_outside demo_env [demo_pool2, demo_pool1] (demo_wallet i p ''0xw42'' c)"
  "wallet_fails demo_outside demo_env [demo_pool2, demo_pool1] (demo_wallet i p ''0xbad'' c)"
  by (simp_all add: wallet_fails_def demo_exposure_ok demo_exposure_bad)

lemma demo_totals:
  "wallet_total demo_outside demo_env [demo_pool2, demo_pool1] (demo_wallet i p ''0xa'' c) = 500"
  "wallet_total demo_outside demo_env [demo_pool2, demo_pool1] (demo_wallet i p ''0xb'' c) = 2000000"
  "wallet_total demo_outside demo_env [demo_pool2, demo_pool1] (demo_wallet i p ''0xc'' c) = 1000000"
  "wallet_total demo_outside demo_env [demo_pool2, demo_pool1] (demo_wallet i p ''0xw42'' c) = 42"
  "wallet_total demo_outside demo_env [demo_pool2, demo_pool1] (demo_wallet i p ''0xbad'' c) = 0"
  by (simp_all add: wallet_total_def demo_exposure_ok demo_exposure_bad)

lemma demo_forced: "executes demo_outside True demo_world"
  by (simp add: executes_def)

lemma demo_bad_not_completes: "\<not> loop_completes demo_world_bad"
proof -
  have "getAllProfilesWithWallets (DB demo_world_bad) \<noteq> []"
    by (simp add: demo_world_bad_def demo_world_def getAllProfilesWithWallets_def
        getWalletsByProfile_def demo_defs Let_def)
  moreover have "isl (BigInt (threshold_setting (DB demo_world_bad)))"
    by (simp add: demo_world_bad_def demo_world_def threshold_setting_def get_setting_def
        or_default_def BigInt_def StringToBigInt_def trim_def is_space_def parse_digits_def
        digit_val_def)
  ultimately show ?thesis by (simp add: loop_completes_def)
qed

lemma demo_bad_forced: "executes demo_outside True demo_world_bad"
  by (simp add: executes_def)

section \<open>The message of a completed run\<close>

lemma after_loop_composed: "composed (after_loop out env rid w) = composed w"
  using after_loop_frame [of out env w rid]
  by (auto simp: loop_effect_def untouched_def run_start_world)

lemma executed_message:
  assumes "executes out force w" and "BigInt (threshold_setting (DB w)) = Inr th"
  shows "composed (snd (runScreening out env rid force w)) =
           composed w @ [message_of out (final_tally out env th w) (after_loop out env rid w)]"
proof -
  have c: "loop_completes w" using assms(2) by (simp add: loop_completes_def)
  have t: "threshold_value w = th" using assms(2) by (simp add: threshold_value_def)
  show ?thesis
    using run_success [OF assms(1) c, of env rid]
    by (simp add: notify_and_finish_world after_loop_composed t)
qed

lemma final_tally_lists:
  "acc_newlyEligible (final_tally out env th w) =
     map (\<lambda>pw. (strip_at (telegram_handle (fst pw)),
                 formatChogBalance out (profile_total out env (getEnabledLpPairs (DB w)) (snd pw))))
       (filter (\<lambda>pw. profile_eligible out env (getEnabledLpPairs (DB w)) th pw
                     \<and> profile_id (fst pw) \<notin> set (previous_eligible (DB w)))
          (getAllProfilesWithWallets (DB w)))"
  "acc_droppedEligible (final_tally out env th w) =
     map (\<lambda>pw. strip_at (telegram_handle (fst pw)))
       (filter (\<lambda>pw. \<not> profile_eligible out env (getEnabledLpPairs (DB w)) th pw
                     \<and> profile_id (fst pw) \<in> set (previous_eligible (DB w)))
          (getAllProfilesWithWallets (DB w)))"
  "acc_eligibleCount (final_tally out env th w) =
     int (length (filter (profile_eligible out env (getEnabledLpPairs (DB w)) th)
                    (getAllProfilesWithWallets (DB w))))"
  "acc_allEligible (final_tally out env th w) =
     map (profile_entry out env (getEnabledLpPairs (DB w)))
       (filter (profile_eligible out env (getEnabledLpPairs (DB w)) th)
          (getAllProfilesWithWallets (DB w)))"
  by (simp_all add: final_tally_def expected_tally_def empty_tally_def profile_entry_def)

lemma previous_eligible_set:
  "set (previous_eligible d) =
     (case getLastScreeningRun d of
        None \<Rightarrow> {}
      | Some lastRun \<Rightarrow>
          snap_profile_id ` {s \<in> set (profile_snapshots d).
                              snap_run_id s = run_id lastRun \<and> snap_eligible s \<noteq> 0})"
  by (auto simp: previous_eligible_def getSnapshotsForRun_def split: option.splits)

lemma getLastScreeningRun_None:
  "getLastScreeningRun d = None \<longleftrightarrow> (\<forall>r\<in>set (screening_runs d). run_status r \<noteq> Success)"
  by (simp add: getLastScreeningRun_def latest_run_None filter_empty_conv)

lemma getLastScreeningRun_latest:
  assumes "getLastScreeningRun d = Some lastRun"
    and "r \<in> set (screening_runs d)" and "run_status r = Success"
  shows "started_at r \<le> started_at lastRun"
  using latest_run_max [of "filter (\<lambda>r. run_status r = Success) (screening_runs d)" lastRun r] assms
  by (simp add: getLastScreeningRun_def)

lemma profilesWithWallets_eq:
  "profilesWithWallets d ps =
     map (\<lambda>p. (p, getWalletsByProfile d (profile_id p)))
       (filter (\<lambda>p. getWalletsByProfile d (profile_id p) \<noteq> []) ps)"
  by (induction ps) (simp_all add: Let_def)

text \<open>
  C5, as amended. In a run that executes with an integer threshold \<open>th\<close>, the previously
  eligible profile ids are those of the snapshots with a non-zero eligible flag of the run
  that \<open>getLastScreeningRun\<close> returns: a run with status \<open>success\<close> whose start is latest
  among such runs, none if there is no such run. The profiles the run classifies are those
  with at least one row of \<open>wallets\<close>. Of these, in their order, the composed message lists
  as newly eligible those that reach the threshold and are not previously eligible, and as
  dropped those that do not reach it and are.
\<close>

theorem diff_against_previous_run:
  assumes "executes out force w" and "BigInt (threshold_setting (DB w)) = Inr th"
  shows "(\<exists>m. composed (snd (runScreening out env rid force w)) = composed w @ [m]
        \<and> msg_newlyEligible m =
            map (\<lambda>pw. (strip_at (telegram_handle (fst pw)),
                        formatChogBalance out (profile_total out env (getEnabledLpPairs (DB w)) (snd pw))))
              (filter (\<lambda>pw. profile_eligible out env (getEnabledLpPairs (DB w)) th pw
                            \<and> profile_id (fst pw) \<notin> set (previous_eligible (DB w)))
                 (getAllProfilesWithWallets (DB w)))
        \<and> msg_droppedEligible m =
            map (\<lambda>pw. strip_at (telegram_handle (fst pw)))
              (filter (\<lambda>pw. \<not> profile_eligible out env (getEnabledLpPairs (DB w)) th pw
                            \<and> profile_id (fst pw) \<in> set (previous_eligible (DB w)))
                 (getAllProfilesWithWallets (DB w))))
     \<and> set (previous_eligible (DB w)) =
         (case getLastScreeningRun (DB w) of
            None \<Rightarrow> {}
          | Some lastRun \<Rightarrow>
              snap_profile_id ` {s \<in> set (profile_snapshots (DB w)).
                                  snap_run_id s = run_id lastRun \<and> snap_eligible s \<noteq> 0})
     \<and> (getLastScreeningRun (DB w) = None
          \<longleftrightarrow> (\<forall>r\<in>set (screening_runs (DB w)). run_status r \<noteq> Success))
     \<and> (\<forall>lastRun. getLastScreeningRun (DB w) = Some lastRun \<longrightarrow>
           lastRun \<in> set (screening_runs (DB w)) \<and> run_status lastRun = Success
           \<and> (\<forall>r\<in>set (screening_runs (DB w)).
                 run_status r = Success \<longrightarrow> started_at r \<le> started_at lastRun))
     \<and> getAllProfilesWithWallets (DB w) =
         map (\<lambda>p. (p, getWalletsByProfile (DB w) (profile_id p)))
           (filter (\<lambda>p. getWalletsByProfile (DB w) (profile_id p) \<noteq> []) (profiles (DB w)))"
proof -
  let ?m = "message_of out (final_tally out env th w) (after_loop out env rid w)"
  have "composed (snd (runScreening out env rid force w)) = composed w @ [?m]"
    by (rule executed_message [OF assms])
  moreover have "msg_newlyEligible ?m = acc_newlyEligible (final_tally out env th w)"
    "msg_droppedEligible ?m = acc_droppedEligible (final_tally out env th w)"
    by (simp_all add: message_of_def)
  ultimately have 1: "\<exists>m. composed (snd (runScreening out env rid force w)) = composed w @ [m]
        \<and> msg_newlyEligible m =
            map (\<lambda>pw. (strip_at (telegram_handle (fst pw)),
                        formatChogBalance out (profile_total out env (getEnabledLpPairs (DB w)) (snd pw))))
              (filter (\<lambda>pw. profile_eligible out env (getEnabledLpPairs (DB w)) th pw
                            \<and> profile_id (fst pw) \<notin> set (previous_eligible (DB w)))
                 (getAllProfilesWithWallets (DB w)))
        \<and> msg_droppedEligible m =
            map (\<lambda>pw. strip_at (telegram_handle (fst pw)))
              (filter (\<lambda>pw. \<not> profile_eligible out env (getEnabledLpPairs (DB w)) th pw
                            \<and> profile_id (fst pw) \<in> set (previous_eligible (DB w)))
                 (getAllProfilesWithWallets (DB w)))"
    using final_tally_lists(1,2) [of out env th w] by metis
  have 4: "\<forall>lastRun. getLastScreeningRun (DB w) = Some lastRun \<longrightarrow>
           lastRun \<in> set (screening_runs (DB w)) \<and> run_status lastRun = Success
           \<and> (\<forall>r\<in>set (screening_runs (DB w)).
                 run_status r = Success \<longrightarrow> started_at r \<le> started_at lastRun)"
    using getLastScreeningRun_Some getLastScreeningRun_latest by blast
  have 5: "getAllProfilesWithWallets (DB w) =
         map (\<lambda>p. (p, getWalletsByProfile (DB w) (profile_id p)))
           (filter (\<lambda>p. getWalletsByProfile (DB w) (profile_id p) \<noteq> []) (profiles (DB w)))"
    by (simp only: getAllProfilesWithWallets_def profilesWithWallets_eq)
  from 1 previous_eligible_set [of "DB w"] getLastScreeningRun_None [of "DB w"] 4 5
  show ?thesis by (intro conjI)
qed


lemma demo_eligible:
  "\<not> profile_eligible demo_outside demo_env [demo_pool2, demo_pool1] 1000000
       (pa, [demo_wallet ''wa'' ''pa'' ''0xa'' 1])"
  "profile_eligible demo_outside demo_env [demo_pool2, demo_pool1] 1000000
       (pb, [demo_wallet ''wb'' ''pb'' ''0xb'' 1])"
  "profile_eligible demo_outside demo_env [demo_pool2, demo_pool1] 1000000
       (pc, [demo_wallet ''wc'' ''pc'' ''0xc'' 1])"
  "\<not> profile_eligible demo_outside demo_env [demo_pool2, demo_pool1] 1000000
       (pd, [demo_wallet ''wbad'' ''pd'' ''0xbad'' 2, demo_wallet ''w42'' ''pd'' ''0xw42'' 1])"
  by (simp_all add: profile_eligible_def profile_total_def demo_totals)

lemma demo_threshold_world: "BigInt (threshold_setting (DB demo_world)) = Inr 1000000"
  by (simp add: demo_reads demo_threshold)


lemma demo_newly:
  "map (\<lambda>pw. (strip_at (telegram_handle (fst pw)),
                        formatChogBalance demo_outside
                          (profile_total demo_outside demo_env (getEnabledLpPairs (DB demo_world)) (snd pw))))
              (filter (\<lambda>pw. profile_eligible demo_outside demo_env (getEnabledLpPairs (DB demo_world)) 1000000 pw
                            \<and> profile_id (fst pw) \<notin> set (previous_eligible (DB demo_world)))
                 (getAllProfilesWithWallets (DB demo_world)))
   = [(''C'', formatChogBalance demo_outside 1000000)]"
  by (simp add: demo_reads demo_profiles demo_pairs demo_previous demo_eligible)
     (simp add: demo_profile_def profile_total_def demo_totals)


lemma demo_dropped:
  "map (\<lambda>pw. strip_at (telegram_handle (fst pw)))
              (filter (\<lambda>pw. \<not> profile_eligible demo_outside demo_env (getEnabledLpPairs (DB demo_world)) 1000000 pw
                            \<and> profile_id (fst pw) \<in> set (previous_eligible (DB demo_world)))
                 (getAllProfilesWithWallets (DB demo_world)))
   = [''A'']"
  by (simp add: demo_reads demo_profiles demo_pairs demo_previous demo_eligible)
     (simp add: demo_profile_def)

theorem diff_against_previous_run_witness:
  "executes demo_outside True demo_world
   \<and> BigInt (threshold_setting (DB demo_world)) = Inr 1000000
   \<and> set (previous_eligible (DB demo_world)) = {''pa'', ''pb''}
   \<and> (\<exists>m. composed (snd (runScreening demo_outside demo_env ''run2'' True demo_world)) = [m]
          \<and> map fst (msg_newlyEligible m) = [''C'']
          \<and> msg_droppedEligible m = [''A''])"
proof -
  have p: "set (previous_eligible (DB demo_world)) = {''pa'', ''pb''}"
    by (simp add: demo_reads demo_previous)
  have "\<exists>m. composed (snd (runScreening demo_outside demo_env ''run2'' True demo_world))
                = composed demo_world @ [m]
          \<and> msg_newlyEligible m = [(''C'', formatChogBalance demo_outside 1000000)]
          \<and> msg_droppedEligible m = [''A'']"
    using diff_against_previous_run [OF demo_forced demo_threshold_world, of demo_env "''run2''",
        THEN conjunct1]
    unfolding demo_newly demo_dropped .
  then have "\<exists>m. composed (snd (runScreening demo_outside demo_env ''run2'' True demo_world)) = [m]
          \<and> map fst (msg_newlyEligible m) = [''C'']
          \<and> msg_droppedEligible m = [''A'']"
    by (auto simp: demo_reads)
  with demo_forced demo_threshold_world p show ?thesis by blast
qed

lemma demo_unlinked_db:
  "getAllProfilesWithWallets (DB demo_world_unlinked) =
     [(demo_profile ''pb'' ''@B'', [demo_wallet ''wb'' ''pb'' ''0xb'' 1]),
      (demo_profile ''pc'' ''@C'', [demo_wallet ''wc'' ''pc'' ''0xc'' 1]),
      (demo_profile ''pd'' ''@D'', [demo_wallet ''wbad'' ''pd'' ''0xbad'' 2,
                                    demo_wallet ''w42'' ''pd'' ''0xw42'' 1])]"
  "getEnabledLpPairs (DB demo_world_unlinked) = [demo_pool2, demo_pool1]"
  "previous_eligible (DB demo_world_unlinked) = [''pa'', ''pb'']"
  "BigInt (threshold_setting (DB demo_world_unlinked)) = Inr 1000000"
  "composed demo_world_unlinked = []"
proof -
  show "getAllProfilesWithWallets (DB demo_world_unlinked) =
     [(demo_profile ''pb'' ''@B'', [demo_wallet ''wb'' ''pb'' ''0xb'' 1]),
      (demo_profile ''pc'' ''@C'', [demo_wallet ''wc'' ''pc'' ''0xc'' 1]),
      (demo_profile ''pd'' ''@D'', [demo_wallet ''wbad'' ''pd'' ''0xbad'' 2,
                                    demo_wallet ''w42'' ''pd'' ''0xw42'' 1])]"
    by (simp add: demo_world_unlinked_def demo_world_def getAllProfilesWithWallets_def
        getWalletsByProfile_def demo_defs Let_def)
  show "getEnabledLpPairs (DB demo_world_unlinked) = [demo_pool2, demo_pool1]"
    by (simp add: demo_world_unlinked_def demo_world_def getEnabledLpPairs_def demo_defs)
  show "previous_eligible (DB demo_world_unlinked) = [''pa'', ''pb'']"
    by (simp add: demo_world_unlinked_def demo_world_def previous_eligible_def
        getLastScreeningRun_def getSnapshotsForRun_def demo_defs)
  have "threshold_setting (DB demo_world_unlinked) = threshold_setting demo_db"
    by (simp add: demo_world_unlinked_def demo_world_def threshold_setting_def get_setting_def)
  then show "BigInt (threshold_setting (DB demo_world_unlinked)) = Inr 1000000"
    by (simp add: demo_threshold)
  show "composed demo_world_unlinked = []"
    by (simp add: demo_world_unlinked_def demo_world_def)
qed

lemma demo_unlinked_forced: "executes demo_outside True demo_world_unlinked"
  by (simp add: executes_def)

text \<open>
  C5 as stated fails for a previously eligible profile that has no wallet any more: the
  run does not process it, so it is not eligible now and yet is not listed as dropped.
  Here A and B were eligible in \<open>run0\<close>, B and C are eligible now, and the dropped list
  is empty.
\<close>

theorem unlinked_profile_not_dropped:
  "previous_eligible (DB demo_world_unlinked) = [''pa'', ''pb'']
   \<and> map fst (topEligible (last (composed (snd (runScreening demo_outside demo_env ''run2'' True demo_world_unlinked)))))
       = [''B'', ''C'']
   \<and> map fst (msg_newlyEligible (last (composed (snd (runScreening demo_outside demo_env ''run2'' True demo_world_unlinked)))))
       = [''C'']
   \<and> msg_droppedEligible (last (composed (snd (runScreening demo_outside demo_env ''run2'' True demo_world_unlinked))))
       = []"
proof -
  let ?t = "final_tally demo_outside demo_env 1000000 demo_world_unlinked"
  have c: "last (composed (snd (runScreening demo_outside demo_env ''run2'' True demo_world_unlinked)))
        = message_of demo_outside ?t (after_loop demo_outside demo_env ''run2'' demo_world_unlinked)"
    using executed_message [OF demo_unlinked_forced demo_unlinked_db(4), of demo_env "''run2''"]
    by simp
  have n: "map fst (acc_newlyEligible ?t) = [''C'']"
    by (simp add: final_tally_lists(1) demo_unlinked_db demo_eligible)
       (simp add: demo_profile_def)
  have d: "acc_droppedEligible ?t = []"
    by (simp add: final_tally_lists(2) demo_unlinked_db demo_eligible)
       (simp add: demo_profile_def)
  have a: "acc_allEligible ?t =
      [\<lparr>handle = ''B'', totalChog = formatChogBalance demo_outside 2000000, totalRaw = 2000000\<rparr>,
       \<lparr>handle = ''C'', totalChog = formatChogBalance demo_outside 1000000, totalRaw = 1000000\<rparr>]"
    by (simp add: final_tally_lists(4) demo_unlinked_db demo_eligible)
       (simp add: profile_entry_def demo_profile_def profile_total_def demo_totals)
  have t: "map fst (leaderboard (acc_allEligible ?t)) = [''B'', ''C'']"
    unfolding a by (simp add: leaderboard_def array_sort_def by_total_desc_def)
  from n d t show ?thesis
    unfolding c by (simp add: message_of_def demo_unlinked_db(3))
qed

section \<open>The leaderboard\<close>

lemma mset_sort_insert: "mset (sort_insert cmp x ys) = add_mset x (mset ys)"
  by (induction ys) simp_all

lemma array_sort_snoc: "array_sort cmp (xs @ [x]) = sort_insert cmp x (array_sort cmp xs)"
  by (simp add: array_sort_def)

lemma array_sort_Nil: "array_sort cmp [] = []"
  by (simp add: array_sort_def)

lemma mset_array_sort: "mset (array_sort cmp xs) = mset xs"
  by (induction xs rule: rev_induct) (simp_all add: array_sort_Nil array_sort_snoc mset_sort_insert)

lemma set_sort_insert: "set (sort_insert cmp x ys) = insert x (set ys)"
  by (induction ys) auto

lemma descending_sort_insert:
  "descending ys \<Longrightarrow> descending (sort_insert by_total_desc x ys)"
proof (induction ys)
  case Nil
  then show ?case by (simp add: descending_def)
next
  case (Cons y ys)
  show ?case
  proof (cases "totalRaw y > totalRaw x")
    case True
    with Cons show ?thesis
      by (auto simp: descending_def by_total_desc_def set_sort_insert)
  next
    case False
    with Cons.prems show ?thesis
      by (fastforce simp: descending_def by_total_desc_def)
  qed
qed

lemma descending_array_sort: "descending (array_sort by_total_desc xs)"
  by (induction xs rule: rev_induct)
     (simp_all add: array_sort_Nil array_sort_snoc descending_def [of "[]"] descending_sort_insert)

text \<open>
  An entry that is inserted comes to stand in front of the entries with its total: those
  in front of it have a greater one.
\<close>

lemma filter_sort_insert:
  "filter (\<lambda>e. totalRaw e = t) (sort_insert by_total_desc x ys) =
     (if totalRaw x = t then x # filter (\<lambda>e. totalRaw e = t) ys
      else filter (\<lambda>e. totalRaw e = t) ys)"
  by (induction ys) (auto simp: by_total_desc_def)

lemma ties_array_sort:
  "filter (\<lambda>e. totalRaw e = t) (array_sort by_total_desc xs) = rev (filter (\<lambda>e. totalRaw e = t) xs)"
  by (induction xs rule: rev_induct)
     (simp_all add: array_sort_Nil array_sort_snoc filter_sort_insert)

lemma leaderboard_length: "length (leaderboard xs) \<le> 10"
  by (simp add: leaderboard_def)

text \<open>
  C7, as amended. In a run that executes with an integer threshold \<open>th\<close>, the leaderboard
  of the composed message is the first ten of a rearrangement \<open>S\<close> of the entries of the
  profiles that reach the threshold. In \<open>S\<close> the totals do not increase, and the entries
  with one and the same total stand in the reverse of the order in which their profiles
  were processed.
\<close>

theorem leaderboard_descending_top10:
  assumes "executes out force w" and "BigInt (threshold_setting (DB w)) = Inr th"
  shows "\<exists>m S. composed (snd (runScreening out env rid force w)) = composed w @ [m]
      \<and> topEligible m = map (\<lambda>e. (handle e, totalChog e)) (take 10 S)
      \<and> mset S = mset (map (profile_entry out env (getEnabledLpPairs (DB w)))
                    (filter (profile_eligible out env (getEnabledLpPairs (DB w)) th)
                       (getAllProfilesWithWallets (DB w))))
      \<and> descending S
      \<and> length (topEligible m) \<le> 10
      \<and> (\<forall>t. filter (\<lambda>e. totalRaw e = t) S =
               rev (filter (\<lambda>e. totalRaw e = t)
                      (map (profile_entry out env (getEnabledLpPairs (DB w)))
                         (filter (profile_eligible out env (getEnabledLpPairs (DB w)) th)
                            (getAllProfilesWithWallets (DB w))))))"
proof -
  let ?m = "message_of out (final_tally out env th w) (after_loop out env rid w)"
  let ?S = "array_sort by_total_desc (acc_allEligible (final_tally out env th w))"
  have c: "composed (snd (runScreening out env rid force w)) = composed w @ [?m]"
    by (rule executed_message [OF assms])
  have t: "topEligible ?m = map (\<lambda>e. (handle e, totalChog e)) (take 10 ?S)"
    by (simp add: message_of_def leaderboard_def)
  have p: "mset ?S = mset (map (profile_entry out env (getEnabledLpPairs (DB w)))
                    (filter (profile_eligible out env (getEnabledLpPairs (DB w)) th)
                       (getAllProfilesWithWallets (DB w))))"
    by (simp only: mset_array_sort final_tally_lists(4))
  have d: "descending ?S" by (rule descending_array_sort)
  have l: "length (topEligible ?m) \<le> 10" by (simp add: t)
  have e: "\<forall>t. filter (\<lambda>e. totalRaw e = t) ?S =
               rev (filter (\<lambda>e. totalRaw e = t)
                      (map (profile_entry out env (getEnabledLpPairs (DB w)))
                         (filter (profile_eligible out env (getEnabledLpPairs (DB w)) th)
                            (getAllProfilesWithWallets (DB w)))))"
    by (simp only: ties_array_sort final_tally_lists(4)) simp
  from c t p d l e show ?thesis by blast
qed

lemma demo_all_eligible:
  "map (profile_entry demo_outside demo_env (getEnabledLpPairs (DB demo_world)))
     (filter (profile_eligible demo_outside demo_env (getEnabledLpPairs (DB demo_world)) 1000000)
        (getAllProfilesWithWallets (DB demo_world)))
   = [\<lparr>handle = ''B'', totalChog = formatChogBalance demo_outside 2000000, totalRaw = 2000000\<rparr>,
      \<lparr>handle = ''C'', totalChog = formatChogBalance demo_outside 1000000, totalRaw = 1000000\<rparr>]"
  by (simp add: demo_reads demo_profiles demo_pairs demo_eligible)
     (simp add: profile_entry_def demo_profile_def profile_total_def demo_totals)


lemma mset_two:
  assumes "mset S = mset [a, b]"
  shows "S = [a, b] \<or> S = [b, a]"
proof -
  from assms have "length S = 2" using mset_eq_length [of S "[a, b]"] by simp
  then obtain x y where S: "S = [x, y]"
    by (cases S; cases "tl S") auto
  from assms S have "{#x, y#} = {#a, b#}" by simp
  then have "(x = a \<and> y = b) \<or> (x = b \<and> y = a)"
    by (auto simp: add_eq_conv_diff)
  with S show ?thesis by auto
qed

theorem leaderboard_descending_top10_witness:
  "executes demo_outside True demo_world
   \<and> BigInt (threshold_setting (DB demo_world)) = Inr 1000000
   \<and> (\<exists>m. composed (snd (runScreening demo_outside demo_env ''run2'' True demo_world)) = [m]
          \<and> map fst (topEligible m) = [''B'', ''C''])"
proof -
  let ?b = "\<lparr>handle = ''B'', totalChog = formatChogBalance demo_outside 2000000, totalRaw = 2000000\<rparr>"
  let ?c = "\<lparr>handle = ''C'', totalChog = formatChogBalance demo_outside 1000000, totalRaw = 1000000\<rparr>"
  have "\<exists>m S. composed (snd (runScreening demo_outside demo_env ''run2'' True demo_world))
                 = composed demo_world @ [m]
      \<and> topEligible m = map (\<lambda>e. (handle e, totalChog e)) (take 10 S)
      \<and> mset S = mset [?b, ?c]
      \<and> descending S
      \<and> length (topEligible m) \<le> 10
      \<and> (\<forall>t. filter (\<lambda>e. totalRaw e = t) S = rev (filter (\<lambda>e. totalRaw e = t) [?b, ?c]))"
    using leaderboard_descending_top10 [OF demo_forced demo_threshold_world, of demo_env "''run2''"]
    unfolding demo_all_eligible .
  then obtain m S where m: "composed (snd (runScreening demo_outside demo_env ''run2'' True demo_world))
                 = composed demo_world @ [m]"
    and t: "topEligible m = map (\<lambda>e. (handle e, totalChog e)) (take 10 S)"
    and p: "mset S = mset [?b, ?c]" and d: "descending S"
    by blast
  from mset_two [OF p] have "S = [?b, ?c]"
  proof
    assume "S = [?b, ?c]" then show ?thesis .
  next
    assume "S = [?c, ?b]"
    with d show ?thesis by (simp add: descending_def)
  qed
  with t have "map fst (topEligible m) = [''B'', ''C'']" by simp
  moreover have "composed (snd (runScreening demo_outside demo_env ''run2'' True demo_world)) = [m]"
    using m by (simp add: demo_reads)
  ultimately have "\<exists>m. composed (snd (runScreening demo_outside demo_env ''run2'' True demo_world)) = [m]
          \<and> map fst (topEligible m) = [''B'', ''C'']"
    by (intro exI [of _ m] conjI)
  with demo_forced demo_threshold_world show ?thesis by (intro conjI)
qed

lemma demo_exposure_tie:
  "wallet_exposure demo_outside demo_env [demo_pool2, demo_pool1] (demo_wallet i p ''0xp'' c) =
     Inr \<lparr>directBalance = 5000000, lpBalance = 0, totalBalance = 5000000, lpBreakdown = []\<rparr>"
  "wallet_exposure demo_outside demo_env [demo_pool2, demo_pool1] (demo_wallet i p ''0xq'' c) =
     Inr \<lparr>directBalance = 5000000, lpBalance = 0, totalBalance = 5000000, lpBreakdown = []\<rparr>"
  by (simp_all add: exposure_defs)

lemma demo_tie_db:
  "getAllProfilesWithWallets (DB demo_world_tie) =
     [(demo_profile ''pp'' ''@P'', [demo_wallet ''wp'' ''pp'' ''0xp'' 1]),
      (demo_profile ''pq'' ''@Q'', [demo_wallet ''wq'' ''pq'' ''0xq'' 1])]"
  "getEnabledLpPairs (DB demo_world_tie) = [demo_pool2, demo_pool1]"
  "previous_eligible (DB demo_world_tie) = [''pa'', ''pb'']"
  "BigInt (threshold_setting (DB demo_world_tie)) = Inr 1000000"
  "composed demo_world_tie = []"
proof -
  show "getAllProfilesWithWallets (DB demo_world_tie) =
     [(demo_profile ''pp'' ''@P'', [demo_wallet ''wp'' ''pp'' ''0xp'' 1]),
      (demo_profile ''pq'' ''@Q'', [demo_wallet ''wq'' ''pq'' ''0xq'' 1])]"
    by (simp add: demo_world_tie_def demo_world_def getAllProfilesWithWallets_def
        getWalletsByProfile_def demo_defs Let_def)
  show "getEnabledLpPairs (DB demo_world_tie) = [demo_pool2, demo_pool1]"
    by (simp add: demo_world_tie_def demo_world_def getEnabledLpPairs_def demo_defs)
  show "previous_eligible (DB demo_world_tie) = [''pa'', ''pb'']"
    by (simp add: demo_world_tie_def demo_world_def previous_eligible_def
        getLastScreeningRun_def getSnapshotsForRun_def demo_defs)
  have "threshold_setting (DB demo_world_tie) = threshold_setting demo_db"
    by (simp add: demo_world_tie_def demo_world_def threshold_setting_def get_setting_def)
  then show "BigInt (threshold_setting (DB demo_world_tie)) = Inr 1000000"
    by (simp add: demo_threshold)
  show "composed demo_world_tie = []"
    by (simp add: demo_world_tie_def demo_world_def)
qed

lemma demo_tie_forced: "executes demo_outside True demo_world_tie"
  by (simp add: executes_def)

lemma demo_tie_entries:
  "acc_allEligible (final_tally demo_outside demo_env 1000000 demo_world_tie) =
     [\<lparr>handle = ''P'', totalChog = formatChogBalance demo_outside 5000000, totalRaw = 5000000\<rparr>,
      \<lparr>handle = ''Q'', totalChog = formatChogBalance demo_outside 5000000, totalRaw = 5000000\<rparr>]"
  by (simp add: final_tally_lists(4) demo_tie_db profile_eligible_def profile_total_def
      wallet_total_def demo_exposure_tie)
     (simp add: profile_entry_def demo_profile_def profile_total_def wallet_total_def
      demo_exposure_tie)

text \<open>
  C7 as stated fails where it says that ties are broken by a stable sort. In a forced run
  on the store with the profiles P and Q, both are eligible with the same total; P is
  processed before Q, as the list of the newly eligible shows, and the leaderboard has Q
  before P. Nor are the totals of the leaderboard strictly descending.
\<close>

theorem leaderboard_ties_reversed:
  "map fst (msg_newlyEligible (last (composed (snd (runScreening demo_outside demo_env ''run2'' True demo_world_tie)))))
     = [''P'', ''Q'']
   \<and> map snd (msg_newlyEligible (last (composed (snd (runScreening demo_outside demo_env ''run2'' True demo_world_tie)))))
     = [formatChogBalance demo_outside 5000000, formatChogBalance demo_outside 5000000]
   \<and> map fst (topEligible (last (composed (snd (runScreening demo_outside demo_env ''run2'' True demo_world_tie)))))
     = [''Q'', ''P'']
   \<and> \<not> strictly_descending
         (array_sort by_total_desc (acc_allEligible (final_tally demo_outside demo_env 1000000 demo_world_tie)))"
proof -
  let ?t = "final_tally demo_outside demo_env 1000000 demo_world_tie"
  have c: "last (composed (snd (runScreening demo_outside demo_env ''run2'' True demo_world_tie)))
        = message_of demo_outside ?t (after_loop demo_outside demo_env ''run2'' demo_world_tie)"
    using executed_message [OF demo_tie_forced demo_tie_db(4), of demo_env "''run2''"]
    by simp
  have n: "acc_newlyEligible ?t =
      [(''P'', formatChogBalance demo_outside 5000000), (''Q'', formatChogBalance demo_outside 5000000)]"
    by (simp add: final_tally_lists(1) demo_tie_db profile_eligible_def profile_total_def
        wallet_total_def demo_exposure_tie)
       (simp add: demo_profile_def)
  have t: "map fst (leaderboard (acc_allEligible ?t)) = [''Q'', ''P'']"
    unfolding demo_tie_entries by (simp add: leaderboard_def array_sort_def by_total_desc_def)
  have s: "\<not> strictly_descending (array_sort by_total_desc (acc_allEligible ?t))"
    unfolding demo_tie_entries by (simp add: strictly_descending_def array_sort_def by_total_desc_def)
  from n t s show ?thesis
    unfolding c by (simp add: message_of_def)
qed

section \<open>The rows of wallets after an invocation\<close>

lemma set_getWalletsByProfile: "set (getWalletsByProfile d i) \<subseteq> set (wallets d)"
  by (auto simp: getWalletsByProfile_def)

lemma set_profilesWithWallets:
  "(p, ws) \<in> set (profilesWithWallets d ps) \<Longrightarrow> set ws \<subseteq> set (wallets d)"
  using set_getWalletsByProfile [of d]
  by (induction ps) (auto simp: Let_def split: if_splits)

lemma processed_wallets_subset:
  "set (concat (map snd (getAllProfilesWithWallets d))) \<subseteq> set (wallets d)"
  using set_profilesWithWallets [of _ _ d "profiles d"]
  by (fastforce simp: getAllProfilesWithWallets_def)

lemma executed_wallets:
  assumes "executes out force w"
  shows "wallets (DB (snd (runScreening out env rid force w))) = wallets (DB (after_loop out env rid w))"
    and "profile_snapshots (DB (snd (runScreening out env rid force w))) = profile_snapshots (DB (after_loop out env rid w))"
proof -
  have "wallets (DB (snd (runScreening out env rid force w))) = wallets (DB (after_loop out env rid w))
      \<and> profile_snapshots (DB (snd (runScreening out env rid force w))) = profile_snapshots (DB (after_loop out env rid w))"
  proof (cases "loop_completes w")
    case True
    then show ?thesis
      using run_success [OF assms True, of env rid] by (simp add: notify_and_finish_world)
  next
    case False
    then show ?thesis
      using run_error [OF assms False, of env rid] by (simp add: update_run_error_rest)
  qed
  then show "wallets (DB (snd (runScreening out env rid force w))) = wallets (DB (after_loop out env rid w))"
    and "profile_snapshots (DB (snd (runScreening out env rid force w))) = profile_snapshots (DB (after_loop out env rid w))"
    by simp_all
qed

lemma rows_frame:
  "\<exists>A F. list_all2 (row_rel out env (getEnabledLpPairs (DB w)) A F)
            (wallets (DB w)) (wallets (DB (snd (runScreening out env rid force w))))
        \<and> A \<subseteq> {x \<in> set (wallets (DB w)). \<not> wallet_fails out env (getEnabledLpPairs (DB w)) x}"
proof (cases "executes out force w")
  case True
  from after_loop_frame [of out env w rid] obtain A F where
    l: "loop_effect out env (getEnabledLpPairs (DB w)) A F (run_start out rid w)
            (after_loop out env rid w)"
    and s: "A \<subseteq> {x \<in> set (concat (map snd (getAllProfilesWithWallets (DB w)))).
                 \<not> wallet_fails out env (getEnabledLpPairs (DB w)) x}"
    by blast
  from l have "list_all2 (row_rel out env (getEnabledLpPairs (DB w)) A F)
            (wallets (DB w)) (wallets (DB (snd (runScreening out env rid force w))))"
    by (simp add: loop_effect_def run_start_world executed_wallets(1) [OF True])
  moreover from s processed_wallets_subset [of "DB w"]
  have "A \<subseteq> {x \<in> set (wallets (DB w)). \<not> wallet_fails out env (getEnabledLpPairs (DB w)) x}"
    by blast
  ultimately show ?thesis by blast
next
  case False
  from runScreening_skipped [OF False, of env rid]
  have "wallets (DB (snd (runScreening out env rid force w))) = wallets (DB w)" by simp
  then have "list_all2 (row_rel out env (getEnabledLpPairs (DB w)) {} {})
            (wallets (DB w)) (wallets (DB (snd (runScreening out env rid force w))))"
    by (simp add: list_all2_refl row_rel_refl)
  then show ?thesis by blast
qed

lemma same_wallet_cached:
  assumes "same_wallet r r'" and "cached r' = cached r"
  shows "r' = r\<lparr>wallet_status := wallet_status r', error_reason := error_reason r'\<rparr>"
  using assms by (cases r, cases r') (simp add: same_wallet_def cached_def)

text \<open>
  C10. Take a row of \<open>wallets\<close> such that the exposure computation fails for every wallet
  with its id. After an invocation the row at the same place is the old row except
  possibly for \<open>status\<close> and \<open>error_reason\<close>: the cached balances and
  \<open>last_checked_at\<close> are what they were.
\<close>

theorem failed_wallet_keeps_cache:
  assumes "i < length (wallets (DB w))"
    and "\<forall>x\<in>set (wallets (DB w)). wallet_id x = wallet_id (wallets (DB w) ! i)
           \<longrightarrow> wallet_fails out env (getEnabledLpPairs (DB w)) x"
  shows "length (wallets (DB (snd (runScreening out env rid force w)))) = length (wallets (DB w))
     \<and> wallets (DB (snd (runScreening out env rid force w))) ! i =
         (wallets (DB w) ! i)
           \<lparr>wallet_status := wallet_status (wallets (DB (snd (runScreening out env rid force w))) ! i),
            error_reason := error_reason (wallets (DB (snd (runScreening out env rid force w))) ! i)\<rparr>
     \<and> last_direct_chog_raw (wallets (DB (snd (runScreening out env rid force w))) ! i) = last_direct_chog_raw (wallets (DB w) ! i)
     \<and> last_lp_chog_raw (wallets (DB (snd (runScreening out env rid force w))) ! i) = last_lp_chog_raw (wallets (DB w) ! i)
     \<and> last_total_chog_raw (wallets (DB (snd (runScreening out env rid force w))) ! i) = last_total_chog_raw (wallets (DB w) ! i)
     \<and> last_checked_at (wallets (DB (snd (runScreening out env rid force w))) ! i) = last_checked_at (wallets (DB w) ! i)"
proof -
  let ?old = "wallets (DB w)" and ?new = "wallets (DB (snd (runScreening out env rid force w)))"
  from rows_frame [of out env w rid force] obtain A F where
    l: "list_all2 (row_rel out env (getEnabledLpPairs (DB w)) A F) ?old ?new"
    and s: "A \<subseteq> {x \<in> set ?old. \<not> wallet_fails out env (getEnabledLpPairs (DB w)) x}"
    by blast
  from l have len: "length ?new = length ?old" by (simp add: list_all2_lengthD)
  from l assms(1) have "row_rel out env (getEnabledLpPairs (DB w)) A F (?old ! i) (?new ! i)"
    by (rule list_all2_nthD)
  then have f: "frame_rel A (?old ! i) (?new ! i)" by (simp add: row_rel_def)
  have "wallet_id (?old ! i) \<notin> wallet_id ` A"
  proof
    assume "wallet_id (?old ! i) \<in> wallet_id ` A"
    then obtain x where x: "x \<in> A" "wallet_id x = wallet_id (?old ! i)" by auto
    with s have "x \<in> set ?old" "\<not> wallet_fails out env (getEnabledLpPairs (DB w)) x" by auto
    with assms(2) x(2) show False by blast
  qed
  with f have sw: "same_wallet (?old ! i) (?new ! i)" and c: "cached (?new ! i) = cached (?old ! i)"
    by (simp_all add: frame_rel_def)
  from same_wallet_cached [OF sw c] c len show ?thesis
    by (simp add: cached_def)
qed


lemma demo_wallets:
  "wallets (DB demo_world) =
     [demo_wallet ''wa'' ''pa'' ''0xa'' 1, demo_wallet ''wb'' ''pb'' ''0xb'' 1,
      demo_wallet ''wc'' ''pc'' ''0xc'' 1, demo_wallet ''wbad'' ''pd'' ''0xbad'' 2,
      demo_wallet ''w42'' ''pd'' ''0xw42'' 1]"
  by (simp add: demo_reads demo_db_def)

lemma demo_wallet_ids: "wallet_id (demo_wallet i p a c) = i"
  by (simp add: demo_wallet_def)

lemma demo_pairs_world: "getEnabledLpPairs (DB demo_world) = [demo_pool2, demo_pool1]"
  by (simp add: demo_reads demo_pairs)

theorem failed_wallet_keeps_cache_witness:
  "(3::nat) < length (wallets (DB demo_world))
   \<and> wallet_fails demo_outside demo_env (getEnabledLpPairs (DB demo_world)) (wallets (DB demo_world) ! 3)
   \<and> last_direct_chog_raw (wallets (DB (snd (runScreening demo_outside demo_env ''run2'' True demo_world))) ! 3)
        = Some ''7''
   \<and> last_lp_chog_raw (wallets (DB (snd (runScreening demo_outside demo_env ''run2'' True demo_world))) ! 3)
        = Some ''0''
   \<and> last_total_chog_raw (wallets (DB (snd (runScreening demo_outside demo_env ''run2'' True demo_world))) ! 3)
        = Some ''7''
   \<and> last_checked_at (wallets (DB (snd (runScreening demo_outside demo_env ''run2'' True demo_world))) ! 3)
        = Some 900"
proof -
  have i: "(3::nat) < length (wallets (DB demo_world))" by (simp add: demo_wallets)
  have r: "wallets (DB demo_world) ! 3 = demo_wallet ''wbad'' ''pd'' ''0xbad'' 2"
    by (simp add: demo_wallets)
  have f: "wallet_fails demo_outside demo_env (getEnabledLpPairs (DB demo_world)) (wallets (DB demo_world) ! 3)"
    by (simp add: r demo_pairs_world demo_fails)
  have h: "\<forall>x\<in>set (wallets (DB demo_world)). wallet_id x = wallet_id (wallets (DB demo_world) ! 3)
           \<longrightarrow> wallet_fails demo_outside demo_env (getEnabledLpPairs (DB demo_world)) x"
    unfolding r by (simp add: demo_wallets demo_wallet_ids demo_pairs_world demo_fails)
  from failed_wallet_keeps_cache [OF i h, where rid = "''run2''" and force = True] i f
  show ?thesis by (simp add: r demo_wallet_def)
qed


section \<open>A wallet that fails\<close>

lemma wallet_total_fails: "wallet_fails out env lpPairs x \<Longrightarrow> wallet_total out env lpPairs x = 0"
  by (cases "wallet_exposure out env lpPairs x") (simp_all add: wallet_fails_def wallet_total_def)

lemma profile_total_ok:
  "profile_total out env lpPairs ws =
     sum_list (map (wallet_total out env lpPairs) (filter (\<lambda>y. \<not> wallet_fails out env lpPairs y) ws))"
  unfolding profile_total_def
  by (induction ws) (simp_all add: wallet_total_fails)

lemma rows_exact:
  assumes "executes out force w" and "BigInt (threshold_setting (DB w)) = Inr th"
  shows "list_all2 (row_rel out env (getEnabledLpPairs (DB w))
           {x \<in> set (concat (map snd (getAllProfilesWithWallets (DB w)))).
              \<not> wallet_fails out env (getEnabledLpPairs (DB w)) x}
           {x \<in> set (concat (map snd (getAllProfilesWithWallets (DB w)))).
              wallet_fails out env (getEnabledLpPairs (DB w)) x})
         (wallets (DB w)) (wallets (DB (snd (runScreening out env rid force w))))"
  using after_loop_exact(1) [OF assms(2), of out env rid]
  by (simp add: loop_effect_def run_start_world executed_wallets(1) [OF assms(1)])

lemma snapshots_exact:
  assumes "executes out force w" and "BigInt (threshold_setting (DB w)) = Inr th"
  shows "profile_snapshots (DB (snd (runScreening out env rid force w))) =
           profile_snapshots (DB w) @
           map (profile_snapshot_of out env rid (getEnabledLpPairs (DB w)) th)
             (getAllProfilesWithWallets (DB w))"
  using after_loop_exact(2) [OF assms(2), of out env rid]
  by (simp add: executed_wallets(2) [OF assms(1)])

lemma rows_ids:
  assumes "list_all2 (row_rel out env lpPairs A F) old new"
  shows "map wallet_id new = map wallet_id old"
proof -
  from assms have "list_all2 (\<lambda>r r'. wallet_id r' = wallet_id r) old new"
    by (rule list_all2_mono) (simp add: row_rel_def frame_rel_def same_wallet_id)
  then show ?thesis
    by (induction old new rule: list_all2_induct) simp_all
qed

text \<open>
  C6. In a run that executes with an integer threshold, let a wallet \<open>x\<close> of a processed
  profile fail; wallet ids are unique. The run still ends in \<open>success\<close>; \<open>x\<close> adds 0 to
  the aggregate of its profile, which is the sum over the wallets that did not fail and is
  what the profile's snapshot of this run records; and the row of \<open>x\<close> has status \<open>error\<close>
  and the message of the failure as its reason.
\<close>

theorem failed_wallet_isolated:
  assumes "executes out force w" and "BigInt (threshold_setting (DB w)) = Inr th"
    and "distinct (map wallet_id (wallets (DB w)))"
    and "(p, ws) \<in> set (getAllProfilesWithWallets (DB w))" and "x \<in> set ws"
    and "wallet_fails out env (getEnabledLpPairs (DB w)) x"
  shows "status (fst (runScreening out env rid force w)) = ResSuccess
     \<and> wallet_total out env (getEnabledLpPairs (DB w)) x = 0
     \<and> profile_total out env (getEnabledLpPairs (DB w)) ws =
         sum_list (map (wallet_total out env (getEnabledLpPairs (DB w)))
           (filter (\<lambda>y. \<not> wallet_fails out env (getEnabledLpPairs (DB w)) y) ws))
     \<and> profile_snapshot_of out env rid (getEnabledLpPairs (DB w)) th (p, ws)
         \<in> set (profile_snapshots (DB (snd (runScreening out env rid force w))))
     \<and> total_chog_raw (profile_snapshot_of out env rid (getEnabledLpPairs (DB w)) th (p, ws)) =
         bigint_toString (profile_total out env (getEnabledLpPairs (DB w)) ws)
     \<and> map wallet_id (wallets (DB (snd (runScreening out env rid force w)))) = map wallet_id (wallets (DB w))
     \<and> wallet_id x \<in> set (map wallet_id (wallets (DB w)))
     \<and> (\<forall>r'\<in>set (wallets (DB (snd (runScreening out env rid force w)))). wallet_id r' = wallet_id x \<longrightarrow>
           wallet_status r' = WalletError
           \<and> error_reason r' = Some (wallet_failure_reason out env (getEnabledLpPairs (DB w)) x))"
proof -
  let ?pairs = "getEnabledLpPairs (DB w)"
  let ?old = "wallets (DB w)" and ?new = "wallets (DB (snd (runScreening out env rid force w)))"
  let ?all = "set (concat (map snd (getAllProfilesWithWallets (DB w))))"
  let ?A = "{y \<in> ?all. \<not> wallet_fails out env ?pairs y}"
  let ?F = "{y \<in> ?all. wallet_fails out env ?pairs y}"
  have c: "loop_completes w" using assms(2) by (simp add: loop_completes_def)
  have 1: "status (fst (runScreening out env rid force w)) = ResSuccess"
    using executed_status(1) [OF assms(1), of env rid] c by simp
  have 2: "wallet_total out env ?pairs x = 0" by (rule wallet_total_fails [OF assms(6)])
  have 3: "profile_total out env ?pairs ws =
         sum_list (map (wallet_total out env ?pairs)
           (filter (\<lambda>y. \<not> wallet_fails out env ?pairs y) ws))"
    by (rule profile_total_ok)
  have 4: "profile_snapshot_of out env rid ?pairs th (p, ws) \<in> set (profile_snapshots (DB (snd (runScreening out env rid force w))))"
    using snapshots_exact [OF assms(1,2), of env rid] assms(4) by simp
  have 5: "total_chog_raw (profile_snapshot_of out env rid ?pairs th (p, ws)) =
         bigint_toString (profile_total out env ?pairs ws)"
    by (simp add: profile_snapshot_of_def)
  have l: "list_all2 (row_rel out env ?pairs ?A ?F) ?old ?new"
    by (rule rows_exact [OF assms(1,2)])
  have 6: "map wallet_id ?new = map wallet_id ?old" by (rule rows_ids [OF l])
  have xall: "x \<in> ?all" using assms(4,5) by force
  then have xold: "x \<in> set ?old" using processed_wallets_subset [of "DB w"] by blast
  then have 7: "wallet_id x \<in> set (map wallet_id ?old)" by simp
  have inj: "inj_on wallet_id (set ?old)" using assms(3) by (simp add: distinct_map)
  have xF: "x \<in> ?F" using xall assms(6) by simp
  have 8: "\<forall>r'\<in>set ?new. wallet_id r' = wallet_id x \<longrightarrow>
           wallet_status r' = WalletError
           \<and> error_reason r' = Some (wallet_failure_reason out env ?pairs x)"
  proof (intro ballI impI)
    fix r' assume r': "r' \<in> set ?new" and id: "wallet_id r' = wallet_id x"
    from r' obtain i where i: "i < length ?new" "?new ! i = r'" by (auto simp: in_set_conv_nth)
    from l i(1) have rr: "row_rel out env ?pairs ?A ?F (?old ! i) (?new ! i)"
      by (rule list_all2_nthD2)
    from l i(1) have io: "i < length ?old" by (simp add: list_all2_lengthD)
    let ?r = "?old ! i"
    have "same_wallet ?r r'" using rr i(2) by (simp add: row_rel_def frame_rel_def)
    from same_wallet_id [OF this] id have rid: "wallet_id ?r = wallet_id x" by simp
    then have "wallet_id ?r \<in> wallet_id ` ?F" using xF by (metis imageI)
    with rr i(2) have st: "wallet_status r' = WalletError"
      and ex: "\<exists>y\<in>?F. wallet_id y = wallet_id ?r
                \<and> error_reason r' = Some (wallet_failure_reason out env ?pairs y)"
      by (simp_all add: row_rel_def err_rel_def)
    from ex obtain y where y: "y \<in> ?F" "wallet_id y = wallet_id ?r"
      "error_reason r' = Some (wallet_failure_reason out env ?pairs y)"
      by blast
    from y(1) processed_wallets_subset [of "DB w"] have "y \<in> set ?old" by blast
    with inj xold y(2) rid have "y = x" by (simp add: inj_on_def)
    with st y(3) show "wallet_status r' = WalletError
           \<and> error_reason r' = Some (wallet_failure_reason out env ?pairs x)"
      by simp
  qed
  from 1 2 3 4 5 6 7 8 show ?thesis by (intro conjI)
qed


lemma demo_profiles_world:
  "getAllProfilesWithWallets (DB demo_world) =
     [(demo_profile ''pa'' ''@A'', [demo_wallet ''wa'' ''pa'' ''0xa'' 1]),
      (demo_profile ''pb'' ''@B'', [demo_wallet ''wb'' ''pb'' ''0xb'' 1]),
      (demo_profile ''pc'' ''@C'', [demo_wallet ''wc'' ''pc'' ''0xc'' 1]),
      (demo_profile ''pd'' ''@D'', [demo_wallet ''wbad'' ''pd'' ''0xbad'' 2,
                                    demo_wallet ''w42'' ''pd'' ''0xw42'' 1])]"
  by (simp add: demo_reads demo_profiles)

theorem failed_wallet_isolated_witness:
  "executes demo_outside True demo_world
   \<and> BigInt (threshold_setting (DB demo_world)) = Inr 1000000
   \<and> distinct (map wallet_id (wallets (DB demo_world)))
   \<and> (demo_profile ''pd'' ''@D'', [demo_wallet ''wbad'' ''pd'' ''0xbad'' 2,
                                    demo_wallet ''w42'' ''pd'' ''0xw42'' 1])
        \<in> set (getAllProfilesWithWallets (DB demo_world))
   \<and> wallet_fails demo_outside demo_env (getEnabledLpPairs (DB demo_world))
        (demo_wallet ''wbad'' ''pd'' ''0xbad'' 2)
   \<and> status (fst (runScreening demo_outside demo_env ''run2'' True demo_world)) = ResSuccess
   \<and> profile_total demo_outside demo_env (getEnabledLpPairs (DB demo_world))
        [demo_wallet ''wbad'' ''pd'' ''0xbad'' 2, demo_wallet ''w42'' ''pd'' ''0xw42'' 1] = 42
   \<and> wallet_status (wallets (DB (snd (runScreening demo_outside demo_env ''run2'' True demo_world))) ! 3)
        = WalletError
   \<and> error_reason (wallets (DB (snd (runScreening demo_outside demo_env ''run2'' True demo_world))) ! 3)
        = Some ''balance read failed''"
proof -
  let ?bad = "demo_wallet ''wbad'' ''pd'' ''0xbad'' 2"
  let ?ws = "[?bad, demo_wallet ''w42'' ''pd'' ''0xw42'' 1]"
  let ?new = "wallets (DB (snd (runScreening demo_outside demo_env ''run2'' True demo_world)))"
  have d: "distinct (map wallet_id (wallets (DB demo_world)))"
    by (simp add: demo_wallets demo_wallet_ids)
  have m: "(demo_profile ''pd'' ''@D'', ?ws) \<in> set (getAllProfilesWithWallets (DB demo_world))"
    by (simp add: demo_profiles_world)
  have x: "?bad \<in> set ?ws" by simp
  have f: "wallet_fails demo_outside demo_env (getEnabledLpPairs (DB demo_world)) ?bad"
    by (simp add: demo_pairs_world demo_fails)
  have t: "profile_total demo_outside demo_env (getEnabledLpPairs (DB demo_world)) ?ws = 42"
    by (simp add: profile_total_def demo_pairs_world demo_totals)
  have reason: "wallet_failure_reason demo_outside demo_env (getEnabledLpPairs (DB demo_world)) ?bad
       = ''balance read failed''"
    by (simp add: wallet_failure_reason_def demo_pairs_world demo_exposure_bad error_message_def)
  note T = failed_wallet_isolated [OF demo_forced demo_threshold_world d m x f, of "''run2''"]
  from T have s: "status (fst (runScreening demo_outside demo_env ''run2'' True demo_world)) = ResSuccess"
    by (rule conjunct1)
  from T have ids: "map wallet_id ?new = map wallet_id (wallets (DB demo_world))"
    by blast
  then have ids': "map wallet_id ?new = [''wa'', ''wb'', ''wc'', ''wbad'', ''w42'']"
    by (simp add: demo_wallets demo_wallet_ids)
  then have len: "length ?new = 5" using length_map [of wallet_id ?new] by simp
  then have mem: "?new ! 3 \<in> set ?new" by simp
  have "wallet_id (?new ! 3) = (map wallet_id ?new) ! 3" using len by simp
  then have id3: "wallet_id (?new ! 3) = wallet_id ?bad" by (simp add: ids' demo_wallet_ids)
  from T have "\<forall>r'\<in>set ?new. wallet_id r' = wallet_id ?bad \<longrightarrow>
           wallet_status r' = WalletError
           \<and> error_reason r' = Some (wallet_failure_reason demo_outside demo_env
                 (getEnabledLpPairs (DB demo_world)) ?bad)"
    by blast
  with mem id3 reason have r: "wallet_status (?new ! 3) = WalletError"
    "error_reason (?new ! 3) = Some ''balance read failed''"
    by simp_all
  from demo_forced demo_threshold_world d m f s t r show ?thesis by (intro conjI)
qed

section \<open>The record of a run\<close>

lemma last_map_if:
  assumes "run_id row = rid"
  shows "last (map (\<lambda>x. if run_id x = rid then g x else x) (rs @ [row])) = g row"
  using assms by simp

lemma after_loop_runs:
  "screening_runs (DB (after_loop out env rid w)) =
     screening_runs (DB w) @
       [\<lparr>run_id = rid, started_at = clock out (clock_reads w), finished_at = None,
         run_status = Running, run_error = None, profiles_processed = 0,
         wallets_processed = 0, eligible_count = 0, message_sent = 0\<rparr>]"
proof -
  from after_loop_frame [of out env w rid]
  have "screening_runs (DB (after_loop out env rid w)) = screening_runs (DB (run_start out rid w))"
    by (auto simp: loop_effect_def untouched_def)
  then show ?thesis by (simp add: run_start_def insert_run_def)
qed

lemma executed_row:
  assumes "executes out force w" and "loop_completes w"
  shows "run_id (last (screening_runs (DB (snd (runScreening out env rid force w))))) = rid"
    and "run_status (last (screening_runs (DB (snd (runScreening out env rid force w))))) = Success"
    and "started_at (last (screening_runs (DB (snd (runScreening out env rid force w)))))
           = clock out (clock_reads w)"
    and "profiles_processed (last (screening_runs (DB (snd (runScreening out env rid force w)))))
           = int (length (getAllProfilesWithWallets (DB w)))"
    and "wallets_processed (last (screening_runs (DB (snd (runScreening out env rid force w)))))
           = int (length (filter (\<lambda>x. \<not> wallet_fails out env (getEnabledLpPairs (DB w)) x)
                    (concat (map snd (getAllProfilesWithWallets (DB w))))))"
    and "eligible_count (last (screening_runs (DB (snd (runScreening out env rid force w)))))
           = int (length (filter (profile_eligible out env (getEnabledLpPairs (DB w)) (threshold_value w))
                    (getAllProfilesWithWallets (DB w))))"
    and "run_error (last (screening_runs (DB (snd (runScreening out env rid force w))))) = None"
proof -
  let ?acc = "final_tally out env (threshold_value w) w"
  let ?al = "after_loop out env rid w"
  have "screening_runs (DB (snd (runScreening out env rid force w))) =
      map (\<lambda>x. if run_id x = rid
               then (\<lambda>r. r\<lparr>finished_at := Some (clock out (Suc (clock_reads ?al))), run_status := Success,
                            profiles_processed := int (length (getAllProfilesWithWallets (DB w))),
                            wallets_processed := acc_walletsProcessed ?acc,
                            eligible_count := acc_eligibleCount ?acc,
                            message_sent := (if message_sent_flag out env ?acc ?al then 1 else 0)\<rparr>) x
               else x) (screening_runs (DB ?al))"
    using run_success [OF assms, of env rid]
    by (simp add: notify_and_finish_eq update_run_success_table)
  then have l: "last (screening_runs (DB (snd (runScreening out env rid force w)))) =
      \<lparr>run_id = rid, started_at = clock out (clock_reads w),
       finished_at = Some (clock out (Suc (clock_reads ?al))),
       run_status = Success, run_error = None,
       profiles_processed = int (length (getAllProfilesWithWallets (DB w))),
       wallets_processed = acc_walletsProcessed ?acc,
       eligible_count = acc_eligibleCount ?acc,
       message_sent = (if message_sent_flag out env ?acc ?al then 1 else 0)\<rparr>"
    by (simp add: after_loop_runs)
  show "run_id (last (screening_runs (DB (snd (runScreening out env rid force w))))) = rid"
    and "run_status (last (screening_runs (DB (snd (runScreening out env rid force w))))) = Success"
    and "started_at (last (screening_runs (DB (snd (runScreening out env rid force w)))))
           = clock out (clock_reads w)"
    and "profiles_processed (last (screening_runs (DB (snd (runScreening out env rid force w)))))
           = int (length (getAllProfilesWithWallets (DB w)))"
    and "wallets_processed (last (screening_runs (DB (snd (runScreening out env rid force w)))))
           = int (length (filter (\<lambda>x. \<not> wallet_fails out env (getEnabledLpPairs (DB w)) x)
                    (concat (map snd (getAllProfilesWithWallets (DB w))))))"
    and "eligible_count (last (screening_runs (DB (snd (runScreening out env rid force w)))))
           = int (length (filter (profile_eligible out env (getEnabledLpPairs (DB w)) (threshold_value w))
                    (getAllProfilesWithWallets (DB w))))"
    and "run_error (last (screening_runs (DB (snd (runScreening out env rid force w))))) = None"
    unfolding l
    by (simp_all add: final_tally_def expected_tally_def empty_tally_def)
qed

lemma executed_row_error:
  assumes "executes out force w" and "\<not> loop_completes w"
  shows "run_id (last (screening_runs (DB (snd (runScreening out env rid force w))))) = rid"
    and "run_status (last (screening_runs (DB (snd (runScreening out env rid force w))))) = RunError"
    and "run_error (last (screening_runs (DB (snd (runScreening out env rid force w)))))
           = Some (threshold_error w)"
    and "wallets_processed (last (screening_runs (DB (snd (runScreening out env rid force w))))) = 0"
proof -
  let ?al = "after_loop out env rid w"
  have "screening_runs (DB (snd (runScreening out env rid force w))) =
      map (\<lambda>x. if run_id x = rid
               then (\<lambda>r. r\<lparr>finished_at := Some (clock out (clock_reads ?al)), run_status := RunError,
                            run_error := Some (threshold_error w)\<rparr>) x
               else x) (screening_runs (DB ?al))"
    using run_error [OF assms, of env rid]
    by (simp add: update_run_error_table)
  then have l: "last (screening_runs (DB (snd (runScreening out env rid force w)))) =
      \<lparr>run_id = rid, started_at = clock out (clock_reads w),
       finished_at = Some (clock out (clock_reads ?al)),
       run_status = RunError, run_error = Some (threshold_error w),
       profiles_processed = 0, wallets_processed = 0, eligible_count = 0, message_sent = 0\<rparr>"
    by (simp add: after_loop_runs)
  show "run_id (last (screening_runs (DB (snd (runScreening out env rid force w))))) = rid"
    and "run_status (last (screening_runs (DB (snd (runScreening out env rid force w))))) = RunError"
    and "run_error (last (screening_runs (DB (snd (runScreening out env rid force w)))))
           = Some (threshold_error w)"
    and "wallets_processed (last (screening_runs (DB (snd (runScreening out env rid force w))))) = 0"
    unfolding l by simp_all
qed

lemma executed_wallet_ids:
  "map wallet_id (wallets (DB (snd (runScreening out env rid force w)))) = map wallet_id (wallets (DB w))"
  using rows_frame [of out env w rid force] rows_ids by blast

lemma failed_rows_marked:
  assumes "executes out force w" and "loop_completes w"
    and "x \<in> set (concat (map snd (getAllProfilesWithWallets (DB w))))"
    and "wallet_fails out env (getEnabledLpPairs (DB w)) x"
    and "r' \<in> set (wallets (DB (snd (runScreening out env rid force w))))"
    and "wallet_id r' = wallet_id x"
  shows "wallet_status r' = WalletError
       \<and> (\<exists>y\<in>set (concat (map snd (getAllProfilesWithWallets (DB w)))).
             wallet_fails out env (getEnabledLpPairs (DB w)) y \<and> wallet_id y = wallet_id x
             \<and> error_reason r' = Some (wallet_failure_reason out env (getEnabledLpPairs (DB w)) y))"
proof -
  let ?pairs = "getEnabledLpPairs (DB w)"
  let ?old = "wallets (DB w)" and ?new = "wallets (DB (snd (runScreening out env rid force w)))"
  let ?all = "set (concat (map snd (getAllProfilesWithWallets (DB w))))"
  let ?A = "{y \<in> ?all. \<not> wallet_fails out env ?pairs y}"
  let ?F = "{y \<in> ?all. wallet_fails out env ?pairs y}"
  from assms(3) have "getAllProfilesWithWallets (DB w) \<noteq> []" by auto
  with assms(2) obtain th where th: "BigInt (threshold_setting (DB w)) = Inr th"
    by (cases "BigInt (threshold_setting (DB w))") (auto simp: loop_completes_def)
  have l: "list_all2 (row_rel out env ?pairs ?A ?F) ?old ?new"
    by (rule rows_exact [OF assms(1) th])
  from assms(5) obtain i where i: "i < length ?new" "?new ! i = r'" by (auto simp: in_set_conv_nth)
  from l i(1) have rr: "row_rel out env ?pairs ?A ?F (?old ! i) (?new ! i)"
    by (rule list_all2_nthD2)
  let ?r = "?old ! i"
  have "same_wallet ?r r'" using rr i(2) by (simp add: row_rel_def frame_rel_def)
  from same_wallet_id [OF this] assms(6) have rid: "wallet_id ?r = wallet_id x" by simp
  have xF: "x \<in> ?F" using assms(3,4) by simp
  from rid have "wallet_id ?r \<in> wallet_id ` ?F" using xF by (metis imageI)
  with rr i(2) have st: "wallet_status r' = WalletError"
    and ex: "\<exists>y\<in>?F. wallet_id y = wallet_id ?r
                \<and> error_reason r' = Some (wallet_failure_reason out env ?pairs y)"
    by (simp_all add: row_rel_def err_rel_def)
  from ex rid have "\<exists>y\<in>?all. wallet_fails out env ?pairs y \<and> wallet_id y = wallet_id x
             \<and> error_reason r' = Some (wallet_failure_reason out env ?pairs y)"
    by auto
  with st show ?thesis by simp
qed

text \<open>
  C8, as amended. The run record of an invocation that executes is inserted with status
  \<open>running\<close>; after that the invocation issues exactly one write of the status of its run,
  \<open>success\<close> when the loop over the profiles completes (whether or not wallets failed)
  and \<open>error\<close> otherwise, which is the status the row then has and the status returned;
  \<open>partial\<close> is never produced; what the Telegram API answers does not change the
  status. The row of the run is the last of \<open>screening_runs\<close>. After a completed run its
  column \<open>wallets_processed\<close>, like \<open>walletsProcessed\<close> of the result, is the number of
  wallets whose exposure was computed: a wallet that failed is not counted. It is recorded
  on its own row of \<open>wallets\<close>, which has status \<open>error\<close> and the message of a failure of
  a wallet with that id as its reason. After a run that ends in \<open>error\<close> the row of the run
  carries the message of the exception.
\<close>

theorem run_terminal_status:
  assumes "executes out force w"
  shows "(\<exists>row. screening_runs (DB (run_start out rid w)) = screening_runs (DB w) @ [row]
             \<and> run_id row = rid \<and> run_status row = Running)
     \<and> (\<exists>xs. db_writes (snd (runScreening out env rid force w)) = db_writes w @ InsertRun rid Running # xs
             \<and> status_writes rid xs = [if loop_completes w then Success else RunError])
     \<and> (\<forall>r\<in>set (screening_runs (DB (snd (runScreening out env rid force w)))).
            run_id r = rid \<longrightarrow> run_status r = (if loop_completes w then Success else RunError))
     \<and> status (fst (runScreening out env rid force w)) = (if loop_completes w then ResSuccess else ResError)
     \<and> status (fst (runScreening out env rid force w)) \<noteq> ResPartial
     \<and> (\<forall>ts. status (fst (runScreening (out\<lparr>telegram_send := ts\<rparr>) env rid force w))
             = status (fst (runScreening out env rid force w)))
     \<and> (loop_completes w \<longrightarrow>
           walletsProcessed (fst (runScreening out env rid force w)) =
             int (length (filter (\<lambda>x. \<not> wallet_fails out env (getEnabledLpPairs (DB w)) x)
                    (concat (map snd (getAllProfilesWithWallets (DB w)))))))
     \<and> map run_id (screening_runs (DB (snd (runScreening out env rid force w))))
         = map run_id (screening_runs (DB w)) @ [rid]
     \<and> (loop_completes w \<longrightarrow>
           run_id (last (screening_runs (DB (snd (runScreening out env rid force w))))) = rid
         \<and> run_status (last (screening_runs (DB (snd (runScreening out env rid force w))))) = Success
         \<and> run_error (last (screening_runs (DB (snd (runScreening out env rid force w))))) = None
         \<and> profiles_processed (last (screening_runs (DB (snd (runScreening out env rid force w)))))
             = int (length (getAllProfilesWithWallets (DB w)))
         \<and> wallets_processed (last (screening_runs (DB (snd (runScreening out env rid force w)))))
             = int (length (filter (\<lambda>x. \<not> wallet_fails out env (getEnabledLpPairs (DB w)) x)
                      (concat (map snd (getAllProfilesWithWallets (DB w)))))))
     \<and> (\<not> loop_completes w \<longrightarrow>
           run_id (last (screening_runs (DB (snd (runScreening out env rid force w))))) = rid
         \<and> run_status (last (screening_runs (DB (snd (runScreening out env rid force w))))) = RunError
         \<and> run_error (last (screening_runs (DB (snd (runScreening out env rid force w)))))
             = Some (threshold_error w))
     \<and> map wallet_id (wallets (DB (snd (runScreening out env rid force w))))
         = map wallet_id (wallets (DB w))
     \<and> (loop_completes w \<longrightarrow>
          (\<forall>x\<in>set (concat (map snd (getAllProfilesWithWallets (DB w)))).
              wallet_fails out env (getEnabledLpPairs (DB w)) x \<longrightarrow>
                wallet_id x \<in> set (map wallet_id (wallets (DB (snd (runScreening out env rid force w)))))
              \<and> (\<forall>r'\<in>set (wallets (DB (snd (runScreening out env rid force w)))).
                    wallet_id r' = wallet_id x \<longrightarrow>
                      wallet_status r' = WalletError
                    \<and> (\<exists>y\<in>set (concat (map snd (getAllProfilesWithWallets (DB w)))).
                          wallet_fails out env (getEnabledLpPairs (DB w)) y \<and> wallet_id y = wallet_id x
                          \<and> error_reason r' =
                              Some (wallet_failure_reason out env (getEnabledLpPairs (DB w)) y)))))"
proof -
  have 1: "\<exists>row. screening_runs (DB (run_start out rid w)) = screening_runs (DB w) @ [row]
             \<and> run_id row = rid \<and> run_status row = Running"
    by (rule run_start_world(6))
  from executed_writes [OF assms, of env rid] obtain xs where
    xs: "db_writes (snd (runScreening out env rid force w)) = db_writes w @ InsertRun rid Running # xs @
             [UpdateRunStatus rid (if loop_completes w then Success else RunError)]"
      "list_all is_loop_write xs"
    by blast
  from status_writes_executed [OF xs(2)] xs(1)
  have 2: "\<exists>xs. db_writes (snd (runScreening out env rid force w)) = db_writes w @ InsertRun rid Running # xs
             \<and> status_writes rid xs = [if loop_completes w then Success else RunError]"
    by blast
  have 3: "\<forall>r\<in>set (screening_runs (DB (snd (runScreening out env rid force w)))).
            run_id r = rid \<longrightarrow> run_status r = (if loop_completes w then Success else RunError)"
    by (rule executed_runs(2) [OF assms])
  have 4: "status (fst (runScreening out env rid force w)) = (if loop_completes w then ResSuccess else ResError)"
    by (rule executed_status(1) [OF assms])
  then have 5: "status (fst (runScreening out env rid force w)) \<noteq> ResPartial" by simp
  have 6: "\<forall>ts. status (fst (runScreening (out\<lparr>telegram_send := ts\<rparr>) env rid force w))
             = status (fst (runScreening out env rid force w))"
  proof
    fix ts
    have "executes (out\<lparr>telegram_send := ts\<rparr>) force w"
      using assms by (simp add: executes_telegram)
    from executed_status(1) [OF this, of env rid] 4
    show "status (fst (runScreening (out\<lparr>telegram_send := ts\<rparr>) env rid force w))
             = status (fst (runScreening out env rid force w))"
      by simp
  qed
  have 7: "loop_completes w \<longrightarrow>
           walletsProcessed (fst (runScreening out env rid force w)) =
             int (length (filter (\<lambda>x. \<not> wallet_fails out env (getEnabledLpPairs (DB w)) x)
                    (concat (map snd (getAllProfilesWithWallets (DB w))))))"
    using executed_wallet_count(1) [OF assms] by blast
  have 8: "map run_id (screening_runs (DB (snd (runScreening out env rid force w))))
         = map run_id (screening_runs (DB w)) @ [rid]"
    by (rule executed_runs(1) [OF assms])
  have 9: "loop_completes w \<longrightarrow>
           run_id (last (screening_runs (DB (snd (runScreening out env rid force w))))) = rid
         \<and> run_status (last (screening_runs (DB (snd (runScreening out env rid force w))))) = Success
         \<and> run_error (last (screening_runs (DB (snd (runScreening out env rid force w))))) = None
         \<and> profiles_processed (last (screening_runs (DB (snd (runScreening out env rid force w)))))
             = int (length (getAllProfilesWithWallets (DB w)))
         \<and> wallets_processed (last (screening_runs (DB (snd (runScreening out env rid force w)))))
             = int (length (filter (\<lambda>x. \<not> wallet_fails out env (getEnabledLpPairs (DB w)) x)
                      (concat (map snd (getAllProfilesWithWallets (DB w))))))"
    using executed_row(1,2,7,4,5) [OF assms, of env rid] by (intro impI conjI)
  have 10: "\<not> loop_completes w \<longrightarrow>
           run_id (last (screening_runs (DB (snd (runScreening out env rid force w))))) = rid
         \<and> run_status (last (screening_runs (DB (snd (runScreening out env rid force w))))) = RunError
         \<and> run_error (last (screening_runs (DB (snd (runScreening out env rid force w)))))
             = Some (threshold_error w)"
    using executed_row_error(1,2,3) [OF assms, of env rid] by (intro impI conjI)
  have 11: "map wallet_id (wallets (DB (snd (runScreening out env rid force w))))
         = map wallet_id (wallets (DB w))"
    by (rule executed_wallet_ids)
  have 12: "loop_completes w \<longrightarrow>
          (\<forall>x\<in>set (concat (map snd (getAllProfilesWithWallets (DB w)))).
              wallet_fails out env (getEnabledLpPairs (DB w)) x \<longrightarrow>
                wallet_id x \<in> set (map wallet_id (wallets (DB (snd (runScreening out env rid force w)))))
              \<and> (\<forall>r'\<in>set (wallets (DB (snd (runScreening out env rid force w)))).
                    wallet_id r' = wallet_id x \<longrightarrow>
                      wallet_status r' = WalletError
                    \<and> (\<exists>y\<in>set (concat (map snd (getAllProfilesWithWallets (DB w)))).
                          wallet_fails out env (getEnabledLpPairs (DB w)) y \<and> wallet_id y = wallet_id x
                          \<and> error_reason r' =
                              Some (wallet_failure_reason out env (getEnabledLpPairs (DB w)) y))))"
  proof (intro impI ballI)
    fix x
    assume c: "loop_completes w"
      and x: "x \<in> set (concat (map snd (getAllProfilesWithWallets (DB w))))"
      and f: "wallet_fails out env (getEnabledLpPairs (DB w)) x"
    from x processed_wallets_subset [of "DB w"] have "x \<in> set (wallets (DB w))" by blast
    then have a: "wallet_id x \<in> set (map wallet_id (wallets (DB (snd (runScreening out env rid force w)))))"
      unfolding 11 by simp
    have b: "\<forall>r'\<in>set (wallets (DB (snd (runScreening out env rid force w)))).
                    wallet_id r' = wallet_id x \<longrightarrow>
                      wallet_status r' = WalletError
                    \<and> (\<exists>y\<in>set (concat (map snd (getAllProfilesWithWallets (DB w)))).
                          wallet_fails out env (getEnabledLpPairs (DB w)) y \<and> wallet_id y = wallet_id x
                          \<and> error_reason r' =
                              Some (wallet_failure_reason out env (getEnabledLpPairs (DB w)) y))"
      using failed_rows_marked [OF assms c x f] by blast
    from a b show "wallet_id x \<in> set (map wallet_id (wallets (DB (snd (runScreening out env rid force w)))))
              \<and> (\<forall>r'\<in>set (wallets (DB (snd (runScreening out env rid force w)))).
                    wallet_id r' = wallet_id x \<longrightarrow>
                      wallet_status r' = WalletError
                    \<and> (\<exists>y\<in>set (concat (map snd (getAllProfilesWithWallets (DB w)))).
                          wallet_fails out env (getEnabledLpPairs (DB w)) y \<and> wallet_id y = wallet_id x
                          \<and> error_reason r' =
                              Some (wallet_failure_reason out env (getEnabledLpPairs (DB w)) y)))"
      by (rule conjI)
  qed
  from 1 2 3 4 5 6 7 8 9 10 11 12 show ?thesis by (intro conjI)
qed

theorem run_terminal_status_witness:
  "executes demo_outside True demo_world
   \<and> status (fst (runScreening demo_outside demo_env ''run2'' True demo_world)) = ResSuccess
   \<and> (\<exists>xs. db_writes (snd (runScreening demo_outside demo_env ''run2'' True demo_world))
              = InsertRun ''run2'' Running # xs
          \<and> status_writes ''run2'' xs = [Success])
   \<and> walletsProcessed (fst (runScreening demo_outside demo_env ''run2'' True demo_world)) = 4
   \<and> run_id (last (screening_runs (DB (snd (runScreening demo_outside demo_env ''run2'' True demo_world))))) = ''run2''
   \<and> run_status (last (screening_runs (DB (snd (runScreening demo_outside demo_env ''run2'' True demo_world))))) = Success
   \<and> wallets_processed (last (screening_runs (DB (snd (runScreening demo_outside demo_env ''run2'' True demo_world))))) = 4
   \<and> wallet_status (wallets (DB (snd (runScreening demo_outside demo_env ''run2'' True demo_world))) ! 3)
        = WalletError
   \<and> executes demo_outside True demo_world_bad
   \<and> status (fst (runScreening demo_outside demo_env ''run2'' True demo_world_bad)) = ResError
   \<and> (\<exists>xs. db_writes (snd (runScreening demo_outside demo_env ''run2'' True demo_world_bad))
              = InsertRun ''run2'' Running # xs
          \<and> status_writes ''run2'' xs = [RunError])
   \<and> run_status (last (screening_runs (DB (snd (runScreening demo_outside demo_env ''run2'' True demo_world_bad))))) = RunError"
proof -
  let ?bad = "demo_wallet ''wbad'' ''pd'' ''0xbad'' 2"
  let ?new = "wallets (DB (snd (runScreening demo_outside demo_env ''run2'' True demo_world)))"
  have w: "db_writes demo_world_bad = []"
    by (simp add: demo_world_bad_def demo_world_def)
  note T = run_terminal_status [OF demo_forced, of "''run2''" demo_env]
  from T demo_forced demo_completes
  have 1: "executes demo_outside True demo_world
   \<and> status (fst (runScreening demo_outside demo_env ''run2'' True demo_world)) = ResSuccess
   \<and> (\<exists>xs. db_writes (snd (runScreening demo_outside demo_env ''run2'' True demo_world))
              = InsertRun ''run2'' Running # xs
          \<and> status_writes ''run2'' xs = [Success])
   \<and> walletsProcessed (fst (runScreening demo_outside demo_env ''run2'' True demo_world)) = 4
   \<and> run_id (last (screening_runs (DB (snd (runScreening demo_outside demo_env ''run2'' True demo_world))))) = ''run2''
   \<and> run_status (last (screening_runs (DB (snd (runScreening demo_outside demo_env ''run2'' True demo_world))))) = Success
   \<and> wallets_processed (last (screening_runs (DB (snd (runScreening demo_outside demo_env ''run2'' True demo_world))))) = 4"
    by (simp add: demo_reads demo_profiles demo_pairs demo_fails del: ball_simps)
  from T have ids: "map wallet_id ?new = map wallet_id (wallets (DB demo_world))"
    by (elim conjE)
  then have ids': "map wallet_id ?new = [''wa'', ''wb'', ''wc'', ''wbad'', ''w42'']"
    by (simp add: demo_wallets demo_wallet_ids)
  then have len: "length ?new = 5" using length_map [of wallet_id ?new] by simp
  then have mem: "?new ! 3 \<in> set ?new" by simp
  have "wallet_id (?new ! 3) = (map wallet_id ?new) ! 3" using len by simp
  then have id3: "wallet_id (?new ! 3) = wallet_id ?bad" by (simp add: ids' demo_wallet_ids)
  have x: "?bad \<in> set (concat (map snd (getAllProfilesWithWallets (DB demo_world))))"
    by (simp add: demo_profiles_world)
  have f: "wallet_fails demo_outside demo_env (getEnabledLpPairs (DB demo_world)) ?bad"
    by (simp add: demo_pairs_world demo_fails)
  from T demo_completes
  have "\<forall>x\<in>set (concat (map snd (getAllProfilesWithWallets (DB demo_world)))).
              wallet_fails demo_outside demo_env (getEnabledLpPairs (DB demo_world)) x \<longrightarrow>
                (\<forall>r'\<in>set ?new. wallet_id r' = wallet_id x \<longrightarrow> wallet_status r' = WalletError)"
    by (elim conjE) blast
  with x f mem id3 have 3: "wallet_status (?new ! 3) = WalletError" by blast
  from run_terminal_status [OF demo_bad_forced, of "''run2''" demo_env] demo_bad_forced
    demo_bad_not_completes
  have 2: "executes demo_outside True demo_world_bad
   \<and> status (fst (runScreening demo_outside demo_env ''run2'' True demo_world_bad)) = ResError
   \<and> (\<exists>xs. db_writes (snd (runScreening demo_outside demo_env ''run2'' True demo_world_bad))
              = InsertRun ''run2'' Running # xs
          \<and> status_writes ''run2'' xs = [RunError])
   \<and> run_status (last (screening_runs (DB (snd (runScreening demo_outside demo_env ''run2'' True demo_world_bad))))) = RunError"
    by (simp add: w del: ball_simps)
  from 1 2 3 show ?thesis by simp
qed

text \<open>
  C8 as stated fails where it says that failed wallets are still counted: in a forced run
  on the concrete store five wallets are attempted and the one of \<open>0xbad\<close> fails. The run
  is a success; the counters returned and those of its row in \<open>screening_runs\<close> are 4
  profiles, 4 wallets and 2 eligible profiles, and the row of the wallet has status
  \<open>error\<close>.
\<close>

theorem failed_wallet_not_counted:
  "length (concat (map snd (getAllProfilesWithWallets (DB demo_world)))) = 5
   \<and> wallet_fails demo_outside demo_env (getEnabledLpPairs (DB demo_world))
        (demo_wallet ''wbad'' ''pd'' ''0xbad'' 2)
   \<and> status (fst (runScreening demo_outside demo_env ''run2'' True demo_world)) = ResSuccess
   \<and> profilesProcessed (fst (runScreening demo_outside demo_env ''run2'' True demo_world)) = 4
   \<and> walletsProcessed (fst (runScreening demo_outside demo_env ''run2'' True demo_world)) = 4
   \<and> eligibleCount (fst (runScreening demo_outside demo_env ''run2'' True demo_world)) = 2
   \<and> run_id (last (screening_runs (DB (snd (runScreening demo_outside demo_env ''run2'' True demo_world))))) = ''run2''
   \<and> run_status (last (screening_runs (DB (snd (runScreening demo_outside demo_env ''run2'' True demo_world))))) = Success
   \<and> profiles_processed (last (screening_runs (DB (snd (runScreening demo_outside demo_env ''run2'' True demo_world))))) = 4
   \<and> wallets_processed (last (screening_runs (DB (snd (runScreening demo_outside demo_env ''run2'' True demo_world))))) = 4
   \<and> eligible_count (last (screening_runs (DB (snd (runScreening demo_outside demo_env ''run2'' True demo_world))))) = 2
   \<and> wallet_id (wallets (DB (snd (runScreening demo_outside demo_env ''run2'' True demo_world))) ! 3) = ''wbad''
   \<and> wallet_status (wallets (DB (snd (runScreening demo_outside demo_env ''run2'' True demo_world))) ! 3)
        = WalletError"
proof -
  let ?bad = "demo_wallet ''wbad'' ''pd'' ''0xbad'' 2"
  let ?new = "wallets (DB (snd (runScreening demo_outside demo_env ''run2'' True demo_world)))"
  have th: "threshold_value demo_world = 1000000"
    by (simp add: threshold_value_def demo_reads demo_threshold)
  from executed_wallet_count [OF demo_forced demo_completes, of demo_env "''run2''"]
    executed_status(1) [OF demo_forced, of demo_env "''run2''"] demo_completes
  have 1: "length (concat (map snd (getAllProfilesWithWallets (DB demo_world)))) = 5
   \<and> wallet_fails demo_outside demo_env (getEnabledLpPairs (DB demo_world)) ?bad
   \<and> status (fst (runScreening demo_outside demo_env ''run2'' True demo_world)) = ResSuccess
   \<and> profilesProcessed (fst (runScreening demo_outside demo_env ''run2'' True demo_world)) = 4
   \<and> walletsProcessed (fst (runScreening demo_outside demo_env ''run2'' True demo_world)) = 4
   \<and> eligibleCount (fst (runScreening demo_outside demo_env ''run2'' True demo_world)) = 2"
    by (simp add: demo_reads demo_profiles demo_pairs demo_fails th profile_eligible_def
        profile_total_def demo_totals)
  from executed_row(1,2,4,5,6) [OF demo_forced demo_completes, of demo_env "''run2''"]
  have 2: "run_id (last (screening_runs (DB (snd (runScreening demo_outside demo_env ''run2'' True demo_world))))) = ''run2''
   \<and> run_status (last (screening_runs (DB (snd (runScreening demo_outside demo_env ''run2'' True demo_world))))) = Success
   \<and> profiles_processed (last (screening_runs (DB (snd (runScreening demo_outside demo_env ''run2'' True demo_world))))) = 4
   \<and> wallets_processed (last (screening_runs (DB (snd (runScreening demo_outside demo_env ''run2'' True demo_world))))) = 4
   \<and> eligible_count (last (screening_runs (DB (snd (runScreening demo_outside demo_env ''run2'' True demo_world))))) = 2"
    by (simp add: demo_reads demo_profiles demo_pairs demo_fails th profile_eligible_def
        profile_total_def demo_totals)
  have ids': "map wallet_id ?new = [''wa'', ''wb'', ''wc'', ''wbad'', ''w42'']"
    by (simp add: executed_wallet_ids demo_wallets demo_wallet_ids)
  then have len: "length ?new = 5" using length_map [of wallet_id ?new] by simp
  then have mem: "?new ! 3 \<in> set ?new" by simp
  have "wallet_id (?new ! 3) = (map wallet_id ?new) ! 3" using len by simp
  then have id3: "wallet_id (?new ! 3) = ''wbad''" by (simp add: ids')
  then have id3': "wallet_id (?new ! 3) = wallet_id ?bad" by (simp add: demo_wallet_ids)
  have x: "?bad \<in> set (concat (map snd (getAllProfilesWithWallets (DB demo_world))))"
    by (simp add: demo_profiles_world)
  have f: "wallet_fails demo_outside demo_env (getEnabledLpPairs (DB demo_world)) ?bad"
    by (simp add: demo_pairs_world demo_fails)
  from failed_rows_marked [OF demo_forced demo_completes x f mem id3']
  have 3: "wallet_status (?new ! 3) = WalletError" by simp
  from 1 2 id3 3 show ?thesis by (intro conjI) simp_all
qed

section \<open>The interval gate and what an invocation does\<close>

lemma interval_gate_nan:
  assumes "parseInt (or_default (get_setting d ''screening_interval_hours'') ''24'') = None"
  shows "interval_gate d startedAt = None"
  using assms by (simp add: interval_gate_def split: option.splits)

lemma interval_gate_first:
  assumes "getLastScreeningRun d = None"
  shows "interval_gate d startedAt = None"
  using assms by (simp add: interval_gate_def)

lemma executes_iff:
  "executes out force w \<longleftrightarrow>
     force \<or> getLastScreeningRun (DB w) = None
     \<or> parseInt (or_default (get_setting (DB w) ''screening_interval_hours'') ''24'') = None
     \<or> (\<exists>lastRun hours. getLastScreeningRun (DB w) = Some lastRun
           \<and> parseInt (or_default (get_setting (DB w) ''screening_interval_hours'') ''24'') = Some hours
           \<and> hours * 3600000 \<le> clock out (clock_reads w) - started_at lastRun)"
proof (cases "getLastScreeningRun (DB w)")
  case None
  then show ?thesis by (simp add: executes_def interval_gate_first)
next
  case (Some lastRun)
  show ?thesis
  proof (cases "parseInt (or_default (get_setting (DB w) ''screening_interval_hours'') ''24'')")
    case None
    then show ?thesis by (simp add: executes_def interval_gate_nan)
  next
    case (Some hours)
    note h = this
    show ?thesis
    proof (cases "hours * 3600000 \<le> clock out (clock_reads w) - started_at lastRun")
      case True
      with interval_gate_pass [OF \<open>getLastScreeningRun (DB w) = Some lastRun\<close> h True]
      show ?thesis using \<open>getLastScreeningRun (DB w) = Some lastRun\<close> h
        by (simp add: executes_def)
    next
      case False
      then have "clock out (clock_reads w) - started_at lastRun < hours * 3600000" by simp
      from interval_gate_skip [OF \<open>getLastScreeningRun (DB w) = Some lastRun\<close> h this] False
      show ?thesis using \<open>getLastScreeningRun (DB w) = Some lastRun\<close> h
        by (simp add: executes_def)
    qed
  qed
qed

lemma executed_result:
  assumes "executes out force w" and "BigInt (threshold_setting (DB w)) = Inr th"
  shows "profilesProcessed (fst (runScreening out env rid force w))
           = int (length (getAllProfilesWithWallets (DB w)))"
proof -
  have "loop_completes w" using assms(2) by (simp add: loop_completes_def)
  from executed_wallet_count(2) [OF assms(1) this] show ?thesis .
qed

text \<open>
  C4, as amended. The interval is the number of hours that \<open>parseInt\<close> reads from the
  interval setting (\<open>24\<close> when the setting is absent or empty): a fraction counts as its
  integer part, and a text that does not start with an integer gives no interval at all.
  An invocation executes exactly when it is forced, or there is no successful run yet, or
  the setting gives no interval, or the time since the start of the last successful run
  is at least the interval. An invocation that does not execute leaves the store, the log
  of chain reads, the messages and the log of writing statements as they are: only the
  clock has been read. An invocation that executes creates its run record, goes through
  the loops and writes the terminal status of its run; when the threshold setting is an
  integer it stores one snapshot for every profile with wallets.
\<close>

theorem interval_gate_idempotent:
  "(executes out force w \<longleftrightarrow>
       force \<or> getLastScreeningRun (DB w) = None
       \<or> parseInt (or_default (get_setting (DB w) ''screening_interval_hours'') ''24'') = None
       \<or> (\<exists>lastRun hours. getLastScreeningRun (DB w) = Some lastRun
             \<and> parseInt (or_default (get_setting (DB w) ''screening_interval_hours'') ''24'') = Some hours
             \<and> hours * 3600000 \<le> clock out (clock_reads w) - started_at lastRun))
   \<and> (\<not> executes out force w \<longrightarrow>
         snd (runScreening out env rid force w) = w\<lparr>clock_reads := Suc (clock_reads w)\<rparr>
       \<and> DB (snd (runScreening out env rid force w)) = DB w
       \<and> chain_log (snd (runScreening out env rid force w)) = chain_log w
       \<and> telegram_log (snd (runScreening out env rid force w)) = telegram_log w
       \<and> composed (snd (runScreening out env rid force w)) = composed w
       \<and> db_writes (snd (runScreening out env rid force w)) = db_writes w)
   \<and> (executes out force w \<longrightarrow>
         map run_id (screening_runs (DB (snd (runScreening out env rid force w))))
           = map run_id (screening_runs (DB w)) @ [rid]
       \<and> (\<exists>xs. db_writes (snd (runScreening out env rid force w)) =
                 db_writes w @ InsertRun rid Running # xs @
                   [UpdateRunStatus rid (if loop_completes w then Success else RunError)]
               \<and> list_all is_loop_write xs)
       \<and> runId (fst (runScreening out env rid force w)) = rid
       \<and> (\<forall>th. BigInt (threshold_setting (DB w)) = Inr th \<longrightarrow>
             profile_snapshots (DB (snd (runScreening out env rid force w))) =
               profile_snapshots (DB w) @
               map (profile_snapshot_of out env rid (getEnabledLpPairs (DB w)) th)
                 (getAllProfilesWithWallets (DB w))
           \<and> profilesProcessed (fst (runScreening out env rid force w))
               = int (length (getAllProfilesWithWallets (DB w)))))"
proof (intro conjI impI allI)
  show "executes out force w \<longleftrightarrow>
       force \<or> getLastScreeningRun (DB w) = None
       \<or> parseInt (or_default (get_setting (DB w) ''screening_interval_hours'') ''24'') = None
       \<or> (\<exists>lastRun hours. getLastScreeningRun (DB w) = Some lastRun
             \<and> parseInt (or_default (get_setting (DB w) ''screening_interval_hours'') ''24'') = Some hours
             \<and> hours * 3600000 \<le> clock out (clock_reads w) - started_at lastRun)"
    by (rule executes_iff)
next
  assume a: "\<not> executes out force w"
  from runScreening_skipped [OF a, of env rid]
  show "snd (runScreening out env rid force w) = w\<lparr>clock_reads := Suc (clock_reads w)\<rparr>"
    "DB (snd (runScreening out env rid force w)) = DB w"
    "chain_log (snd (runScreening out env rid force w)) = chain_log w"
    "telegram_log (snd (runScreening out env rid force w)) = telegram_log w"
    "composed (snd (runScreening out env rid force w)) = composed w"
    "db_writes (snd (runScreening out env rid force w)) = db_writes w"
    by simp_all
next
  assume e: "executes out force w"
  show "map run_id (screening_runs (DB (snd (runScreening out env rid force w))))
           = map run_id (screening_runs (DB w)) @ [rid]"
    by (rule executed_runs(1) [OF e])
  show "\<exists>xs. db_writes (snd (runScreening out env rid force w)) =
                 db_writes w @ InsertRun rid Running # xs @
                   [UpdateRunStatus rid (if loop_completes w then Success else RunError)]
               \<and> list_all is_loop_write xs"
    by (rule executed_writes [OF e])
  show "runId (fst (runScreening out env rid force w)) = rid"
    by (rule executed_status(2) [OF e])
next
  fix th
  assume e: "executes out force w" and t: "BigInt (threshold_setting (DB w)) = Inr th"
  show "profile_snapshots (DB (snd (runScreening out env rid force w))) =
               profile_snapshots (DB w) @
               map (profile_snapshot_of out env rid (getEnabledLpPairs (DB w)) th)
                 (getAllProfilesWithWallets (DB w))"
    by (rule snapshots_exact [OF e t])
  show "profilesProcessed (fst (runScreening out env rid force w))
               = int (length (getAllProfilesWithWallets (DB w)))"
    by (rule executed_result [OF e t])
qed

lemma demo_snapshot_runs:
  "map snap_run_id (profile_snapshots demo_db) = [''run0'', ''run0'', ''run0'', ''run0'']"
  by (simp add: demo_db_def demo_snapshot_def)

theorem interval_gate_idempotent_witness:
  "executes demo_outside True demo_world
   \<and> map run_id (screening_runs (DB (snd (runScreening demo_outside demo_env ''run2'' True demo_world))))
       = [''run0'', ''run1'', ''run2'']
   \<and> map snap_run_id (profile_snapshots (DB (snd (runScreening demo_outside demo_env ''run2'' True demo_world))))
       = [''run0'', ''run0'', ''run0'', ''run0'', ''run2'', ''run2'', ''run2'', ''run2'']
   \<and> \<not> executes demo_outside False demo_world
   \<and> DB (snd (runScreening demo_outside demo_env ''run2'' False demo_world)) = demo_db
   \<and> chain_log (snd (runScreening demo_outside demo_env ''run2'' False demo_world)) = []
   \<and> db_writes (snd (runScreening demo_outside demo_env ''run2'' False demo_world)) = []
   \<and> executes demo_outside_late False demo_world
   \<and> map run_id (screening_runs (DB (snd (runScreening demo_outside_late demo_env ''run2'' False demo_world))))
       = [''run0'', ''run1'', ''run2'']"
proof -
  have ids: "map run_id (screening_runs demo_db) = [''run0'', ''run1'']"
    by (simp add: demo_db_def)
  note T1 = interval_gate_idempotent [where force = True and out = demo_outside and env = demo_env
      and rid = "''run2''" and w = demo_world]
  from T1 have e1: "executes demo_outside True demo_world" by simp
  from T1 e1 have 1: "map run_id (screening_runs (DB (snd (runScreening demo_outside demo_env ''run2'' True demo_world))))
       = [''run0'', ''run1'', ''run2'']"
    by (simp add: demo_reads ids)
  from T1 e1 demo_threshold_world
  have "profile_snapshots (DB (snd (runScreening demo_outside demo_env ''run2'' True demo_world))) =
               profile_snapshots (DB demo_world) @
               map (profile_snapshot_of demo_outside demo_env ''run2'' (getEnabledLpPairs (DB demo_world)) 1000000)
                 (getAllProfilesWithWallets (DB demo_world))"
    by blast
  then have 2: "map snap_run_id (profile_snapshots (DB (snd (runScreening demo_outside demo_env ''run2'' True demo_world))))
       = [''run0'', ''run0'', ''run0'', ''run0'', ''run2'', ''run2'', ''run2'', ''run2'']"
    by (simp add: demo_reads demo_snapshot_runs demo_profiles profile_snapshot_of_def)
  note T2 = interval_gate_idempotent [where force = False and out = demo_outside and env = demo_env
      and rid = "''run2''" and w = demo_world]
  from T2 [THEN conjunct1] have e2: "\<not> executes demo_outside False demo_world"
    by (simp add: demo_reads demo_last_run demo_interval)
  from T2 e2 have 3: "DB (snd (runScreening demo_outside demo_env ''run2'' False demo_world)) = demo_db
   \<and> chain_log (snd (runScreening demo_outside demo_env ''run2'' False demo_world)) = []
   \<and> db_writes (snd (runScreening demo_outside demo_env ''run2'' False demo_world)) = []"
    by (simp add: demo_reads)
  note T3 = interval_gate_idempotent [where force = False and out = demo_outside_late and env = demo_env
      and rid = "''run2''" and w = demo_world]
  from T3 [THEN conjunct1] have e3: "executes demo_outside_late False demo_world"
    by (simp add: demo_reads demo_last_run demo_interval)
  from T3 e3 have 4: "map run_id (screening_runs (DB (snd (runScreening demo_outside_late demo_env ''run2'' False demo_world))))
       = [''run0'', ''run1'', ''run2'']"
    by (simp add: demo_reads ids)
  from e1 1 2 e2 3 e3 4 show ?thesis by simp
qed

lemma demo_interval_reads:
  "getLastScreeningRun (DB (demo_world_interval v)) =
     Some \<lparr>run_id = ''run0'', started_at = 1000, finished_at = Some 1100, run_status = Success,
          run_error = None, profiles_processed = 4, wallets_processed = 5, eligible_count = 2,
          message_sent = 1\<rparr>"
  "get_setting (DB (demo_world_interval v)) ''screening_interval_hours'' = Some v"
  "clock demo_outside (clock_reads (demo_world_interval v)) = 2000"
  "map run_id (screening_runs (DB (demo_world_interval v))) = [''run0'', ''run1'']"
  by (simp_all add: demo_world_interval_def demo_world_def getLastScreeningRun_def demo_db_def
      get_setting_def demo_outside_def)

lemma demo_parse_half: "parseInt ''0.5'' = Some 0"
  by (simp add: parseInt_def is_space_def parse_digits_def digit_val_def is_digit_def)

lemma demo_parse_abc: "parseInt ''abc'' = None"
  by (simp add: parseInt_def is_space_def parse_digits_def digit_val_def is_digit_def)

lemma demo_interval_executes:
  "executes demo_outside False (demo_world_interval ''0.5'')"
  "executes demo_outside False (demo_world_interval ''abc'')"
proof -
  have "parseInt (or_default (get_setting (DB (demo_world_interval ''0.5'')) ''screening_interval_hours'') ''24'')
          = Some 0"
    by (simp add: demo_interval_reads or_default_def demo_parse_half)
  from interval_gate_pass [OF demo_interval_reads(1) this, of 2000]
  show "executes demo_outside False (demo_world_interval ''0.5'')"
    by (simp add: executes_def demo_interval_reads)
  have "parseInt (or_default (get_setting (DB (demo_world_interval ''abc'')) ''screening_interval_hours'') ''24'')
          = None"
    by (simp add: demo_interval_reads or_default_def demo_parse_abc)
  from interval_gate_nan [OF this, of 2000]
  show "executes demo_outside False (demo_world_interval ''abc'')"
    by (simp add: executes_def demo_interval_reads)
qed

text \<open>
  C4 as stated fails for an interval setting that is not an integer: the settings route
  stores any text. One second after the start of the last successful run a non-forced
  invocation creates its run record when the setting is \<open>0.5\<close>, which is read as 0 hours,
  and when it is \<open>abc\<close>, which is read as no number.
\<close>

theorem interval_setting_not_enforced:
  "getLastScreeningRun (DB (demo_world_interval ''0.5'')) =
     Some \<lparr>run_id = ''run0'', started_at = 1000, finished_at = Some 1100, run_status = Success,
          run_error = None, profiles_processed = 4, wallets_processed = 5, eligible_count = 2,
          message_sent = 1\<rparr>
   \<and> get_setting (DB (demo_world_interval ''0.5'')) ''screening_interval_hours'' = Some ''0.5''
   \<and> clock demo_outside (clock_reads (demo_world_interval ''0.5'')) = 2000
   \<and> map run_id (screening_runs (DB (demo_world_interval ''0.5''))) = [''run0'', ''run1'']
   \<and> map run_id (screening_runs (DB (snd (runScreening demo_outside demo_env ''run2'' False
         (demo_world_interval ''0.5''))))) = [''run0'', ''run1'', ''run2'']
   \<and> getLastScreeningRun (DB (demo_world_interval ''abc'')) =
     Some \<lparr>run_id = ''run0'', started_at = 1000, finished_at = Some 1100, run_status = Success,
          run_error = None, profiles_processed = 4, wallets_processed = 5, eligible_count = 2,
          message_sent = 1\<rparr>
   \<and> get_setting (DB (demo_world_interval ''abc'')) ''screening_interval_hours'' = Some ''abc''
   \<and> clock demo_outside (clock_reads (demo_world_interval ''abc'')) = 2000
   \<and> map run_id (screening_runs (DB (snd (runScreening demo_outside demo_env ''run2'' False
         (demo_world_interval ''abc''))))) = [''run0'', ''run1'', ''run2'']"
  using executed_runs(1) [OF demo_interval_executes(1), of demo_env "''run2''"]
    executed_runs(1) [OF demo_interval_executes(2), of demo_env "''run2''"]
  by (simp add: demo_interval_reads)

end
